theory Spec2Isabelle
  imports Complex_Main
begin

section \<open>VaultCollapse: the data model\<close>

text \<open>
  The game keeps its whole state in module-level variables of \<^verbatim>\<open>main.js\<close> and mutates
  them once per animation frame. The embedding passes that state explicitly. JavaScript
  numbers are modelled as \<^typ>\<open>real\<close> (exact arithmetic, no rounding); timestamps are
  milliseconds as \<^verbatim>\<open>Date.now()\<close> returns them.

  Two source files hold the game logic. \<^verbatim>\<open>main.js\<close> is the linear 25-room path with the
  position-threshold collapse; the second file is the 3x4 grid with the timed random-room
  collapse. Functions of the second file that differ from \<^verbatim>\<open>main.js\<close> carry the suffix
  \<open>_grid\<close>.
\<close>

subsection \<open>THREE.Vector3\<close>

datatype vec3 = Vector3 (vx: real) (vy: real) (vz: real)

definition vadd :: "vec3 \<Rightarrow> vec3 \<Rightarrow> vec3" where
  "vadd a b = Vector3 (vx a + vx b) (vy a + vy b) (vz a + vz b)"

definition multiplyScalar :: "vec3 \<Rightarrow> real \<Rightarrow> vec3" where
  "multiplyScalar a k = Vector3 (vx a * k) (vy a * k) (vz a * k)"

definition distanceToSquared :: "vec3 \<Rightarrow> vec3 \<Rightarrow> real" where
  "distanceToSquared a b = (vx a - vx b)\<^sup>2 + (vy a - vy b)\<^sup>2 + (vz a - vz b)\<^sup>2"

definition distanceTo :: "vec3 \<Rightarrow> vec3 \<Rightarrow> real" where
  "distanceTo a b = sqrt (distanceToSquared a b)"

subsection \<open>Scene objects\<close>

text \<open>
  A child mesh of a room or corridor: its local position and the two \<^verbatim>\<open>userData\<close> fields
  the game reads. Nothing writes to a mesh after it is created.
\<close>

record mesh =
  localPosition :: vec3
  isSurface :: bool
  normal :: vec3

datatype phase = Shake | Fall

text \<open>
  A room or corridor is a \<^verbatim>\<open>THREE.Group\<close> with \<^verbatim>\<open>userData\<close>. The fields
  \<open>collapseStartTime\<close>, \<open>rotationVelocity\<close> and \<open>fallStartY\<close> do not exist in JavaScript
  until they are first assigned; the code reads each of them only after that assignment.
  \<open>collapsePhase = None\<close> and \<open>basePosition = None\<close> stand for \<^verbatim>\<open>undefined\<close>.
\<close>

record group =
  position :: vec3
  rotation :: vec3
  children :: "mesh list"
  isCollapsed :: bool
  collapseStartTime :: real
  collapsePhase :: "phase option"
  rotationVelocity :: vec3
  fallStartY :: real
  basePosition :: "vec3 option"

record room = group +
  index :: nat

record corridor = group +
  connectedRooms :: "nat \<times> nat"

record dataCore =
  corePosition :: vec3
  collected :: bool
  coreBasePosition :: "vec3 option"

record portal =
  portalPosition :: vec3
  portalBasePosition :: "vec3 option"

record particle =
  particlePosition :: vec3
  particleVelocity :: vec3
  particleRotation :: vec3
  rotationSpeed :: vec3
  lifetime :: real
  spawnTime :: real
  opacity :: real
  transparent :: bool

text \<open>
  A reference to a surface mesh: the list it hangs in (\<open>rooms\<close> or \<open>corridors\<close>), the
  position of its owner in that list and its position among the owner's children.
  \<open>player.currentSurface\<close> holds such a reference, or \<^verbatim>\<open>null\<close>.
\<close>

datatype ownerRef = RoomRef nat | CorridorRef nat

type_synonym surfaceRef = "ownerRef \<times> nat"

record player_state =
  meshPosition :: vec3
  velocity :: vec3
  speed :: real
  jumpStrength :: real
  isJumping :: bool
  coresCollected :: nat
  currentSurface :: "surfaceRef option"
  gravity :: vec3

record drift =
  offset :: vec3
  swayTime :: real

text \<open>The four properties of the game-over panel that \<^verbatim>\<open>endGame\<close> writes.\<close>

record gameOverPanel =
  title :: string
  message :: string
  win :: bool
  hidden :: bool

text \<open>
  \<open>collapsedRooms\<close> and \<open>collapsedCorridors\<close> are arrays of references to objects that
  also sit in \<open>rooms\<close> and \<open>corridors\<close>; here they are lists of positions in those lists.
  \<open>randomDraws\<close> counts the calls of \<^verbatim>\<open>Math.random()\<close> so far: the n-th call returns
  \<open>rnd n\<close> for a sequence \<open>rnd\<close> that the functions below take as a parameter.
\<close>

record state =
  player :: player_state
  rooms :: "room list"
  corridors :: "corridor list"
  dataCores :: "dataCore list"
  exitPortal :: "portal option"
  gameActive :: bool
  gameStartTime :: real
  lastCollapseTime :: real
  collapseInterval :: real
  collapsedRooms :: "nat list"
  collapsedCorridors :: "nat list"
  debrisParticles :: "particle list"
  mapDrift :: drift
  gameOver :: gameOverPanel
  randomDraws :: nat

text \<open>
  What a frame receives from outside: the held keys (\<open>keys[code]\<close> is truthy), and the
  camera's forward and right vectors after \<^verbatim>\<open>applyQuaternion\<close>, \<^verbatim>\<open>y = 0\<close> and
  \<^verbatim>\<open>normalize()\<close>, which THREE.js computes from the mouse look.
\<close>

record input =
  keys :: "string \<Rightarrow> bool"
  forward :: vec3
  right :: vec3

section \<open>The surface-snap resolver\<close>

text \<open>
  \<^verbatim>\<open>child.getWorldPosition\<close> of THREE.js, for a group with no rotation and unit scale.
  \<^verbatim>\<open>findNearestSurface\<close> calls it only on children of groups it has not skipped as
  collapsed (and, in the grid file, of corridors, which nothing ever rotates), and the
  code rotates a group only in the fall phase of its collapse.
\<close>

definition getWorldPosition :: "vec3 \<Rightarrow> mesh \<Rightarrow> vec3" where
  "getWorldPosition groupPosition child = vadd groupPosition (localPosition child)"

text \<open>
  The pair \<open>nearestSurface\<close>, \<open>nearestDistance\<close> of the scan: \<open>None\<close> is the initial
  \<^verbatim>\<open>(null, Infinity)\<close>. A hit remembers the mesh and its owner's position, which the
  JavaScript reaches through the object reference.
\<close>

record hit =
  hitRef :: surfaceRef
  hitMesh :: mesh
  hitOwnerPosition :: vec3
  hitDistance :: real

definition lessThanNearest :: "real \<Rightarrow> hit option \<Rightarrow> bool" where
  "lessThanNearest distance nearest =
     (case nearest of None \<Rightarrow> True | Some h \<Rightarrow> distance < hitDistance h)"

text \<open>The body of the inner loop over \<open>children\<close>, for the child at position \<open>j\<close>.\<close>

definition considerChild :: "vec3 \<Rightarrow> ownerRef \<Rightarrow> vec3 \<Rightarrow> nat \<times> mesh \<Rightarrow> hit option \<Rightarrow> hit option" where
  "considerChild playerPos owner ownerPos jc nearest =
     (if \<not> isSurface (snd jc) then nearest
      else
        let surfaceWorldPos = getWorldPosition ownerPos (snd jc);
            distance = distanceTo playerPos surfaceWorldPos
        in if lessThanNearest distance nearest \<and> distance < 10
           then Some \<lparr>hitRef = (owner, fst jc), hitMesh = snd jc,
                       hitOwnerPosition = ownerPos, hitDistance = distance\<rparr>
           else nearest)"

text \<open>
  The outer loop over \<open>rooms\<close> or \<open>corridors\<close>. \<open>skipCollapsed\<close> says whether the loop
  starts with \<^verbatim>\<open>if (g.userData.isCollapsed) continue;\<close>.
\<close>

definition considerGroup ::
  "bool \<Rightarrow> vec3 \<Rightarrow> (nat \<Rightarrow> ownerRef) \<Rightarrow> nat \<times> 'a group_scheme \<Rightarrow> hit option \<Rightarrow> hit option" where
  "considerGroup skipCollapsed playerPos mk ig nearest =
     (if skipCollapsed \<and> isCollapsed (snd ig) then nearest
      else fold (considerChild playerPos (mk (fst ig)) (position (snd ig)))
             (enumerate 0 (children (snd ig))) nearest)"

definition scanGroups ::
  "bool \<Rightarrow> vec3 \<Rightarrow> (nat \<Rightarrow> ownerRef) \<Rightarrow> 'a group_scheme list \<Rightarrow> hit option \<Rightarrow> hit option" where
  "scanGroups skipCollapsed playerPos mk gs nearest =
     fold (considerGroup skipCollapsed playerPos mk) (enumerate 0 gs) nearest"

text \<open>The two loops of \<^verbatim>\<open>main.js\<close>: rooms, then corridors, both skipping collapsed owners.\<close>

definition scanSurfaces :: "state \<Rightarrow> hit option" where
  "scanSurfaces s =
     scanGroups True (meshPosition (player s)) CorridorRef (corridors s)
       (scanGroups True (meshPosition (player s)) RoomRef (rooms s) None)"

text \<open>The grid file's corridor loop has no collapse check.\<close>

definition scanSurfaces_grid :: "state \<Rightarrow> hit option" where
  "scanSurfaces_grid s =
     scanGroups False (meshPosition (player s)) CorridorRef (corridors s)
       (scanGroups True (meshPosition (player s)) RoomRef (rooms s) None)"

text \<open>The tail of \<^verbatim>\<open>findNearestSurface\<close>, the same in both files.\<close>

definition snapToSurface :: "hit option \<Rightarrow> player_state \<Rightarrow> player_state" where
  "snapToSurface nearest p =
     (case nearest of
        Some h \<Rightarrow>
          let p1 = p\<lparr>currentSurface := Some (hitRef h)\<rparr> in
          if hitDistance h < 3 then
            let surfaceWorldPos = getWorldPosition (hitOwnerPosition h) (hitMesh h);
                n = normal (hitMesh h);
                snapDistance = 1;
                p2 = p1\<lparr>meshPosition := vadd surfaceWorldPos (multiplyScalar n snapDistance),
                        gravity := multiplyScalar n (-20)\<rparr>
            in if isJumping p2 \<and> vy (velocity p2) < 0 then p2\<lparr>isJumping := False\<rparr> else p2
          else p1
      | None \<Rightarrow> p\<lparr>currentSurface := None\<rparr>)"

definition findNearestSurface :: "state \<Rightarrow> state" where
  "findNearestSurface s = s\<lparr>player := snapToSurface (scanSurfaces s) (player s)\<rparr>"

definition findNearestSurface_grid :: "state \<Rightarrow> state" where
  "findNearestSurface_grid s = s\<lparr>player := snapToSurface (scanSurfaces_grid s) (player s)\<rparr>"

section \<open>The locomotion controller\<close>

definition endGame :: "bool \<Rightarrow> string \<Rightarrow> state \<Rightarrow> state" where
  "endGame won msg s =
     s\<lparr>gameActive := False,
       gameOver := \<lparr>title = (if won then ''YOU ESCAPED!'' else ''GAME OVER''),
                    message = msg,
                    win = (if won then True else False),
                    hidden = False\<rparr>\<rparr>"

text \<open>\<^verbatim>\<open>collectCore\<close> of \<^verbatim>\<open>main.js\<close>, for the core at position \<open>i\<close> of \<open>dataCores\<close>.\<close>

definition collectCore :: "nat \<Rightarrow> state \<Rightarrow> state" where
  "collectCore i s =
     s\<lparr>dataCores := (dataCores s)[i := (dataCores s ! i)\<lparr>collected := True\<rparr>],
       player := (player s)\<lparr>coresCollected := coresCollected (player s) + 1,
                            speed := speed (player s) + 1.5\<rparr>\<rparr>"

text \<open>The grid file also shortens the collapse interval.\<close>

definition collectCore_grid :: "nat \<Rightarrow> state \<Rightarrow> state" where
  "collectCore_grid i s =
     s\<lparr>dataCores := (dataCores s)[i := (dataCores s ! i)\<lparr>collected := True\<rparr>],
       player := (player s)\<lparr>coresCollected := coresCollected (player s) + 1,
                            speed := speed (player s) + 1.5\<rparr>,
       collapseInterval := max 2000 (collapseInterval s - 1000)\<rparr>"

text \<open>The body of the loop over \<open>dataCores\<close>; \<open>i\<close> ranges over the positions of the list.\<close>

definition checkCore :: "(nat \<Rightarrow> state \<Rightarrow> state) \<Rightarrow> nat \<Rightarrow> state \<Rightarrow> state" where
  "checkCore collect i s =
     (let core = dataCores s ! i in
      if collected core then s
      else
        let distance = distanceTo (meshPosition (player s)) (corePosition core)
        in if distance < 2 then collect i s else s)"

definition checkCollisions :: "state \<Rightarrow> state" where
  "checkCollisions s =
     (let s1 = fold (checkCore collectCore) [0..<length (dataCores s)] s in
      case exitPortal s1 of
        None \<Rightarrow> s1
      | Some ep \<Rightarrow>
          let distance = distanceTo (meshPosition (player s1)) (portalPosition ep)
          in if distance < 3
             then endGame True ''You escaped! The vault collapsed behind you!'' s1
             else s1)"

definition checkCollisions_grid :: "state \<Rightarrow> state" where
  "checkCollisions_grid s =
     (let s1 = fold (checkCore collectCore_grid) [0..<length (dataCores s)] s in
      case exitPortal s1 of
        None \<Rightarrow> s1
      | Some ep \<Rightarrow>
          let distance = distanceTo (meshPosition (player s1)) (portalPosition ep)
          in if distance < 3
             then (if coresCollected (player s1) \<ge> 2
                   then endGame True ''You escaped the collapsing vault!'' s1
                   else s1)
             else s1)"

definition FORWARD_SPEED_MODIFIER :: real where
  "FORWARD_SPEED_MODIFIER = 0.5"

definition STRAFE_SPEED_MODIFIER :: real where
  "STRAFE_SPEED_MODIFIER = 0.7"

text \<open>
  \<^verbatim>\<open>updatePlayer\<close> of \<^verbatim>\<open>main.js\<close>, block by block. First the horizontal velocity: the
  constant forward movement, then W/S, then A/D.
\<close>

definition horizontalVelocity :: "input \<Rightarrow> player_state \<Rightarrow> player_state" where
  "horizontalVelocity inp p =
     (let f = forward inp; r = right inp; k = keys inp;
          v0 = Vector3 (vx f * speed p) (vy (velocity p)) (vz f * speed p);
          v1 = (if k ''KeyW'' \<or> k ''ArrowUp''
                then Vector3 (vx v0 + vx f * speed p * FORWARD_SPEED_MODIFIER) (vy v0)
                             (vz v0 + vz f * speed p * FORWARD_SPEED_MODIFIER)
                else v0);
          v2 = (if k ''KeyS'' \<or> k ''ArrowDown''
                then Vector3 (vx v1 - vx f * speed p * FORWARD_SPEED_MODIFIER) (vy v1)
                             (vz v1 - vz f * speed p * FORWARD_SPEED_MODIFIER)
                else v1);
          v3 = (if k ''KeyA'' \<or> k ''ArrowLeft''
                then Vector3 (vx v2 - vx r * speed p * STRAFE_SPEED_MODIFIER) (vy v2)
                             (vz v2 - vz r * speed p * STRAFE_SPEED_MODIFIER)
                else v2);
          v4 = (if k ''KeyD'' \<or> k ''ArrowRight''
                then Vector3 (vx v3 + vx r * speed p * STRAFE_SPEED_MODIFIER) (vy v3)
                             (vz v3 + vz r * speed p * STRAFE_SPEED_MODIFIER)
                else v3)
      in p\<lparr>velocity := v4\<rparr>)"

text \<open>The grid file has no W/S block and writes the strafe factor as the literal 0.7.\<close>

definition horizontalVelocity_grid :: "input \<Rightarrow> player_state \<Rightarrow> player_state" where
  "horizontalVelocity_grid inp p =
     (let f = forward inp; r = right inp; k = keys inp;
          v0 = Vector3 (vx f * speed p) (vy (velocity p)) (vz f * speed p);
          v1 = (if k ''KeyA'' \<or> k ''ArrowLeft''
                then Vector3 (vx v0 - vx r * speed p * 0.7) (vy v0)
                             (vz v0 - vz r * speed p * 0.7)
                else v0);
          v2 = (if k ''KeyD'' \<or> k ''ArrowRight''
                then Vector3 (vx v1 + vx r * speed p * 0.7) (vy v1)
                             (vz v1 + vz r * speed p * 0.7)
                else v1)
      in p\<lparr>velocity := v2\<rparr>)"

definition jumpStep :: "input \<Rightarrow> player_state \<Rightarrow> player_state" where
  "jumpStep inp p =
     (if keys inp ''Space'' \<and> \<not> isJumping p \<and> currentSurface p \<noteq> None
      then p\<lparr>velocity := Vector3 (vx (velocity p)) (jumpStrength p) (vz (velocity p)),
             isJumping := True\<rparr>
      else p)"

definition jumpStep_grid :: "input \<Rightarrow> player_state \<Rightarrow> player_state" where
  "jumpStep_grid inp p =
     (if (keys inp ''Space'' \<or> keys inp ''KeyW'' \<or> keys inp ''ArrowUp'')
         \<and> \<not> isJumping p \<and> currentSurface p \<noteq> None
      then p\<lparr>velocity := Vector3 (vx (velocity p)) (jumpStrength p) (vz (velocity p)),
             isJumping := True\<rparr>
      else p)"

definition gravityStep :: "real \<Rightarrow> player_state \<Rightarrow> player_state" where
  "gravityStep deltaTime p =
     (if currentSurface p = None \<or> isJumping p
      then p\<lparr>velocity := vadd (velocity p) (multiplyScalar (gravity p) deltaTime)\<rparr>
      else p\<lparr>velocity := Vector3 (vx (velocity p)) 0 (vz (velocity p))\<rparr>)"

definition moveStep :: "real \<Rightarrow> player_state \<Rightarrow> player_state" where
  "moveStep deltaTime p =
     (let movement = multiplyScalar (velocity p) deltaTime
      in p\<lparr>meshPosition := vadd (meshPosition p) movement\<rparr>)"

text \<open>The player after the line \<^verbatim>\<open>player.mesh.position.add(movement)\<close>.\<close>

definition locomotion :: "real \<Rightarrow> input \<Rightarrow> player_state \<Rightarrow> player_state" where
  "locomotion deltaTime inp p =
     moveStep deltaTime (gravityStep deltaTime (jumpStep inp (horizontalVelocity inp p)))"

definition locomotion_grid :: "real \<Rightarrow> input \<Rightarrow> player_state \<Rightarrow> player_state" where
  "locomotion_grid deltaTime inp p =
     moveStep deltaTime
       (gravityStep deltaTime (jumpStep_grid inp (horizontalVelocity_grid inp p)))"

definition updatePlayer :: "real \<Rightarrow> input \<Rightarrow> state \<Rightarrow> state" where
  "updatePlayer deltaTime inp s =
     (if \<not> gameActive s then s
      else
        let s1 = s\<lparr>player := locomotion deltaTime inp (player s)\<rparr>;
            s2 = findNearestSurface s1;
            s3 = checkCollisions s2
        in if vy (meshPosition (player s3)) < -50
           then endGame False ''You fell into the void!'' s3
           else s3)"

definition updatePlayer_grid :: "real \<Rightarrow> input \<Rightarrow> state \<Rightarrow> state" where
  "updatePlayer_grid deltaTime inp s =
     (if \<not> gameActive s then s
      else
        let s1 = s\<lparr>player := locomotion_grid deltaTime inp (player s)\<rparr>;
            s2 = findNearestSurface_grid s1;
            s3 = checkCollisions_grid s2
        in if vy (meshPosition (player s3)) < -50
           then endGame False ''You fell into the void!'' s3
           else s3)"

section \<open>The map drift oscillator\<close>

text \<open>
  The drift applied to one room, corridor, core or portal:
  \<^verbatim>\<open>basePos = o.userData.basePosition || o.position.clone()\<close>, the base position recorded
  if there was none, and \<^verbatim>\<open>o.position.copy(basePos).add(mapDrift.offset)\<close>.
\<close>

definition driftGroup :: "vec3 \<Rightarrow> 'a group_scheme \<Rightarrow> 'a group_scheme" where
  "driftGroup off g =
     (if \<not> isCollapsed g then
        let basePos = (case basePosition g of Some b \<Rightarrow> b | None \<Rightarrow> position g)
        in g\<lparr>basePosition := Some basePos, position := vadd basePos off\<rparr>
      else g)"

definition driftCore :: "vec3 \<Rightarrow> dataCore \<Rightarrow> dataCore" where
  "driftCore off c =
     (if \<not> collected c then
        let basePos = (case coreBasePosition c of Some b \<Rightarrow> b | None \<Rightarrow> corePosition c)
        in c\<lparr>coreBasePosition := Some basePos, corePosition := vadd basePos off\<rparr>
      else c)"

definition driftPortal :: "vec3 \<Rightarrow> portal \<Rightarrow> portal" where
  "driftPortal off ep =
     (let basePos = (case portalBasePosition ep of Some b \<Rightarrow> b | None \<Rightarrow> portalPosition ep)
      in ep\<lparr>portalBasePosition := Some basePos, portalPosition := vadd basePos off\<rparr>)"

text \<open>
  The first two lines of \<^verbatim>\<open>updateMapMovement\<close>; \<open>now\<close> is the value of \<^verbatim>\<open>Date.now()\<close>.
\<close>

definition driftIntensity :: "real \<Rightarrow> real \<Rightarrow> real" where
  "driftIntensity now startTime =
     (let gameTime = (now - startTime) / 1000;
          intensity = min (gameTime / 30) 1.0
      in intensity)"

definition updateMapMovement :: "real \<Rightarrow> real \<Rightarrow> state \<Rightarrow> state" where
  "updateMapMovement deltaTime now s =
     (if \<not> gameActive s then s
      else
        let intensity = driftIntensity now (gameStartTime s);
            t = swayTime (mapDrift s) + deltaTime;
            swayX = sin (t * 0.3) * 0.5 * intensity;
            swayY = sin (t * 0.2) * 0.3 * intensity;
            swayZ = cos (t * 0.25) * 0.5 * intensity;
            off = Vector3 swayX swayY swayZ
        in s\<lparr>mapDrift := \<lparr>offset = off, swayTime = t\<rparr>,
             rooms := map (driftGroup off) (rooms s),
             corridors := map (driftGroup off) (corridors s),
             dataCores := map (driftCore off) (dataCores s),
             exitPortal := map_option (driftPortal off) (exitPortal s)\<rparr>)"

section \<open>The collapse state machine\<close>

datatype error = TypeError

text \<open>
  A \<^verbatim>\<open>for ... of\<close> loop whose body can throw: the loop stops at the first exception.
\<close>

fun forEach :: "('a \<Rightarrow> 's \<Rightarrow> error + 's) \<Rightarrow> 'a list \<Rightarrow> 's \<Rightarrow> error + 's" where
  "forEach body [] s = Inr s"
| "forEach body (x # xs) s =
     (case body x s of Inl e \<Rightarrow> Inl e | Inr s' \<Rightarrow> forEach body xs s')"

subsection \<open>Debris\<close>

text \<open>
  One pass of the loop of \<^verbatim>\<open>createDebrisEffect\<close>. It draws ten random numbers: the size
  of the box (geometry only), three for the position, three for the velocity and three
  for the rotation speed. A new material has opacity 1 and is not transparent.
\<close>

definition spawnParticle :: "vec3 \<Rightarrow> real \<Rightarrow> (nat \<Rightarrow> real) \<Rightarrow> state \<Rightarrow> state" where
  "spawnParticle pos now rnd s =
     (let n = randomDraws s;
          size = 0.2 + rnd n * 0.5;
          p = \<lparr>particlePosition =
                 Vector3 (vx pos + (rnd (n + 1) - 0.5) * 10)
                         (vy pos + rnd (n + 2) * 5)
                         (vz pos + (rnd (n + 3) - 0.5) * 10),
               particleVelocity =
                 Vector3 ((rnd (n + 4) - 0.5) * 5) (rnd (n + 5) * 3 - 1) ((rnd (n + 6) - 0.5) * 5),
               particleRotation = Vector3 0 0 0,
               rotationSpeed =
                 Vector3 ((rnd (n + 7) - 0.5) * 0.1) ((rnd (n + 8) - 0.5) * 0.1)
                         ((rnd (n + 9) - 0.5) * 0.1),
               lifetime = 3000,
               spawnTime = now,
               opacity = 1,
               transparent = False\<rparr>
      in s\<lparr>debrisParticles := debrisParticles s @ [p], randomDraws := n + 10\<rparr>)"

definition createDebrisEffect :: "vec3 \<Rightarrow> real \<Rightarrow> (nat \<Rightarrow> real) \<Rightarrow> state \<Rightarrow> state" where
  "createDebrisEffect pos now rnd s =
     (let numParticles = 10 + nat \<lfloor>rnd (randomDraws s) * 6\<rfloor>;
          s1 = s\<lparr>randomDraws := randomDraws s + 1\<rparr>
      in fold (\<lambda>i. spawnParticle pos now rnd) [0..<numParticles] s1)"

text \<open>What \<^verbatim>\<open>updateDebrisParticles\<close> does to a particle it keeps.\<close>

definition updateParticle :: "real \<Rightarrow> real \<Rightarrow> particle \<Rightarrow> particle" where
  "updateParticle deltaTime currentTime p =
     (let g = -15;
          age = currentTime - spawnTime p;
          v = Vector3 (vx (particleVelocity p)) (vy (particleVelocity p) + g * deltaTime)
                      (vz (particleVelocity p));
          fadeProgress = age / lifetime p
      in p\<lparr>particleVelocity := v,
            particlePosition := vadd (particlePosition p) (multiplyScalar v deltaTime),
            particleRotation := vadd (particleRotation p) (rotationSpeed p),
            opacity := 1 - fadeProgress,
            transparent := True\<rparr>)"

text \<open>
  The loop \<^verbatim>\<open>for (let i = debrisParticles.length - 1; i >= 0; i--)\<close>: the first argument
  is \<open>i + 1\<close>, and \<^verbatim>\<open>splice(i, 1)\<close> removes the element at \<open>i\<close>.
\<close>

fun debrisLoop :: "nat \<Rightarrow> real \<Rightarrow> real \<Rightarrow> particle list \<Rightarrow> particle list" where
  "debrisLoop 0 deltaTime currentTime ps = ps"
| "debrisLoop (Suc i) deltaTime currentTime ps =
     (let p = ps ! i;
          age = currentTime - spawnTime p
      in if age > lifetime p
         then debrisLoop i deltaTime currentTime (take i ps @ drop (Suc i) ps)
         else debrisLoop i deltaTime currentTime (ps[i := updateParticle deltaTime currentTime p]))"

definition updateDebrisParticles :: "real \<Rightarrow> real \<Rightarrow> state \<Rightarrow> state" where
  "updateDebrisParticles deltaTime now s =
     s\<lparr>debrisParticles :=
         debrisLoop (length (debrisParticles s)) deltaTime now (debrisParticles s)\<rparr>"

subsection \<open>Starting a collapse\<close>

text \<open>
  The body of the loop of \<^verbatim>\<open>collapseConnectedCorridors\<close>, for the corridor at position
  \<open>i\<close>. \<^verbatim>\<open>rooms[room1].userData\<close> throws a TypeError when \<open>room1\<close> is not a position of
  \<open>rooms\<close>.
\<close>

definition collapseCorridorAt ::
  "nat \<Rightarrow> real \<Rightarrow> (nat \<Rightarrow> real) \<Rightarrow> nat \<Rightarrow> state \<Rightarrow> error + state" where
  "collapseCorridorAt roomIndex now rnd i s =
     (let corridor = corridors s ! i in
      if isCollapsed corridor then Inr s
      else if fst (connectedRooms corridor) = roomIndex \<or> snd (connectedRooms corridor) = roomIndex
      then
        let room1 = fst (connectedRooms corridor);
            room2 = snd (connectedRooms corridor)
        in if \<not> room1 < length (rooms s) \<or> \<not> room2 < length (rooms s) then Inl TypeError
           else
             let room1Collapsed = isCollapsed (rooms s ! room1);
                 room2Collapsed = isCollapsed (rooms s ! room2)
             in if room1Collapsed \<or> room2Collapsed then
                  let n = randomDraws s;
                      c = corridor\<lparr>isCollapsed := True,
                                   collapseStartTime := now,
                                   collapsePhase := Some Shake,
                                   rotationVelocity :=
                                     Vector3 ((rnd n - 0.5) * 0.06) ((rnd (n + 1) - 0.5) * 0.03)
                                             ((rnd (n + 2) - 0.5) * 0.06)\<rparr>
                  in Inr (s\<lparr>corridors := (corridors s)[i := c],
                            collapsedCorridors := collapsedCorridors s @ [i],
                            randomDraws := n + 3\<rparr>)
                else Inr s
      else Inr s)"

definition collapseConnectedCorridors ::
  "nat \<Rightarrow> real \<Rightarrow> (nat \<Rightarrow> real) \<Rightarrow> state \<Rightarrow> error + state" where
  "collapseConnectedCorridors roomIndex now rnd s =
     forEach (collapseCorridorAt roomIndex now rnd) [0..<length (corridors s)] s"

text \<open>
  The body of the loop of \<^verbatim>\<open>collapseRoomsBehindPlayer\<close>, for the room at position \<open>i\<close>.
\<close>

definition collapseRoomAt ::
  "int \<Rightarrow> real \<Rightarrow> (nat \<Rightarrow> real) \<Rightarrow> nat \<Rightarrow> state \<Rightarrow> error + state" where
  "collapseRoomAt collapseThreshold now rnd i s =
     (let room = rooms s ! i in
      if isCollapsed room then Inr s
      else
        let roomIndex = index room in
        if int roomIndex < collapseThreshold \<and> roomIndex > 0 then
          let n = randomDraws s;
              r = room\<lparr>isCollapsed := True,
                       collapseStartTime := now,
                       collapsePhase := Some Shake,
                       rotationVelocity :=
                         Vector3 ((rnd n - 0.5) * 0.04) ((rnd (n + 1) - 0.5) * 0.02)
                                 ((rnd (n + 2) - 0.5) * 0.04)\<rparr>;
              s1 = s\<lparr>rooms := (rooms s)[i := r],
                     collapsedRooms := collapsedRooms s @ [i],
                     randomDraws := n + 3\<rparr>;
              s2 = createDebrisEffect (position r) now rnd s1
          in collapseConnectedCorridors roomIndex now rnd s2
        else Inr s)"

definition collapseRoomsBehindPlayer :: "real \<Rightarrow> (nat \<Rightarrow> real) \<Rightarrow> state \<Rightarrow> error + state" where
  "collapseRoomsBehindPlayer now rnd s =
     (let playerZ = vz (meshPosition (player s));
          spacing = 25;
          currentRoomIndex = \<lfloor>playerZ / spacing\<rfloor>;
          collapseThreshold = currentRoomIndex - 3
      in forEach (collapseRoomAt collapseThreshold now rnd) [0..<length (rooms s)] s)"

text \<open>
  \<^verbatim>\<open>collapseRandomRoom\<close> of the grid file. \<open>availableRooms\<close> is the list of the positions
  of the rooms that pass the filter; indexing it outside its range gives \<^verbatim>\<open>undefined\<close>,
  and \<^verbatim>\<open>room.userData\<close> then throws.
\<close>

definition collapseRandomRoom :: "real \<Rightarrow> (nat \<Rightarrow> real) \<Rightarrow> state \<Rightarrow> error + state" where
  "collapseRandomRoom now rnd s =
     (let availableRooms =
            filter (\<lambda>i. \<not> isCollapsed (rooms s ! i) \<and> index (rooms s ! i) \<noteq> 0)
              [0..<length (rooms s)]
      in if length availableRooms = 0 then Inr s
         else
           let k = \<lfloor>rnd (randomDraws s) * real (length availableRooms)\<rfloor>;
               s1 = s\<lparr>randomDraws := randomDraws s + 1\<rparr>
           in if k < 0 \<or> \<not> nat k < length availableRooms then Inl TypeError
              else
                let i = availableRooms ! nat k;
                    r = (rooms s1 ! i)\<lparr>isCollapsed := True,
                                        collapseStartTime := now,
                                        collapsePhase := Some Shake\<rparr>
                in Inr (s1\<lparr>rooms := (rooms s1)[i := r],
                           collapsedRooms := collapsedRooms s1 @ [i]\<rparr>))"

subsection \<open>Animating a collapse\<close>

definition setY :: "real \<Rightarrow> vec3 \<Rightarrow> vec3" where
  "setY y' v = Vector3 (vx v) y' (vz v)"

text \<open>The body of the loop of \<^verbatim>\<open>updateCollapsingRooms\<close> of \<^verbatim>\<open>main.js\<close>.\<close>

definition updateCollapsingRoom :: "real \<Rightarrow> room \<Rightarrow> room" where
  "updateCollapsingRoom now room =
     (let elapsed = now - collapseStartTime room in
      if collapsePhase room = Some Shake then
        (if elapsed < 1000 then
           let shake = sin (elapsed * 0.05) * 0.3
           in room\<lparr>position := setY shake (position room)\<rparr>
         else room\<lparr>collapsePhase := Some Fall, fallStartY := vy (position room)\<rparr>)
      else if collapsePhase room = Some Fall then
        let fallTime = (elapsed - 1000) / 1000
        in room\<lparr>position := setY (fallStartY room - fallTime * fallTime * 10) (position room),
                rotation := Vector3 (vx (rotation room) + vx (rotationVelocity room) * fallTime)
                                    (vy (rotation room) + vy (rotationVelocity room) * fallTime)
                                    (vz (rotation room) + vz (rotationVelocity room) * fallTime)\<rparr>
      else room)"

text \<open>The grid file turns a falling room by constant steps.\<close>

definition updateCollapsingRoom_grid :: "real \<Rightarrow> room \<Rightarrow> room" where
  "updateCollapsingRoom_grid now room =
     (let elapsed = now - collapseStartTime room in
      if collapsePhase room = Some Shake then
        (if elapsed < 1000 then
           let shake = sin (elapsed * 0.05) * 0.3
           in room\<lparr>position := setY shake (position room)\<rparr>
         else room\<lparr>collapsePhase := Some Fall, fallStartY := vy (position room)\<rparr>)
      else if collapsePhase room = Some Fall then
        let fallTime = (elapsed - 1000) / 1000
        in room\<lparr>position := setY (fallStartY room - fallTime * fallTime * 10) (position room),
                rotation := Vector3 (vx (rotation room) + 0.02) (vy (rotation room))
                                    (vz (rotation room) + 0.015)\<rparr>
      else room)"

definition updateCollapsingCorridor :: "real \<Rightarrow> corridor \<Rightarrow> corridor" where
  "updateCollapsingCorridor now corridor =
     (let elapsed = now - collapseStartTime corridor in
      if collapsePhase corridor = Some Shake then
        (if elapsed < 500 then
           let shake = sin (elapsed * 0.08) * 0.2
           in corridor\<lparr>position := setY shake (position corridor)\<rparr>
         else corridor\<lparr>collapsePhase := Some Fall, fallStartY := vy (position corridor)\<rparr>)
      else if collapsePhase corridor = Some Fall then
        let fallTime = (elapsed - 500) / 1000
        in corridor\<lparr>position :=
                      setY (fallStartY corridor - fallTime * fallTime * 15) (position corridor),
                    rotation :=
                      Vector3 (vx (rotation corridor) + vx (rotationVelocity corridor) * fallTime)
                              (vy (rotation corridor) + vy (rotationVelocity corridor) * fallTime)
                              (vz (rotation corridor) + vz (rotationVelocity corridor) * fallTime)\<rparr>
      else corridor)"

text \<open>
  The loops run over \<open>collapsedRooms\<close> and \<open>collapsedCorridors\<close> and change the objects
  these arrays refer to. An entry of the lists is always a position of \<open>rooms\<close> or
  \<open>corridors\<close>.
\<close>

definition updateCollapsingRooms :: "real \<Rightarrow> state \<Rightarrow> state" where
  "updateCollapsingRooms now s =
     s\<lparr>rooms := fold (\<lambda>i rs. rs[i := updateCollapsingRoom now (rs ! i)])
                  (collapsedRooms s) (rooms s)\<rparr>"

definition updateCollapsingRooms_grid :: "real \<Rightarrow> state \<Rightarrow> state" where
  "updateCollapsingRooms_grid now s =
     s\<lparr>rooms := fold (\<lambda>i rs. rs[i := updateCollapsingRoom_grid now (rs ! i)])
                  (collapsedRooms s) (rooms s)\<rparr>"

definition updateCollapsingCorridors :: "real \<Rightarrow> state \<Rightarrow> state" where
  "updateCollapsingCorridors now s =
     s\<lparr>corridors := fold (\<lambda>i cs. cs[i := updateCollapsingCorridor now (cs ! i)])
                      (collapsedCorridors s) (corridors s)\<rparr>"

section \<open>The frame\<close>

text \<open>
  The bobbing of the data cores in \<^verbatim>\<open>animate\<close>. Rotations of cores and of the portal, light
  positions, the HUD and the renderer have no effect on the state modelled here.
\<close>

definition animateCore :: "real \<Rightarrow> vec3 \<Rightarrow> dataCore \<Rightarrow> dataCore" where
  "animateCore now off c =
     (if \<not> collected c then
        let baseY = (case coreBasePosition c of Some b \<Rightarrow> vy b | None \<Rightarrow> vy (corePosition c))
        in c\<lparr>corePosition := setY (baseY + vy off + sin (now * 0.003) * 0.1) (corePosition c)\<rparr>
      else c)"

definition animateCore_grid :: "real \<Rightarrow> dataCore \<Rightarrow> dataCore" where
  "animateCore_grid now c =
     (if \<not> collected c
      then c\<lparr>corePosition := setY (vy (corePosition c) + sin (now * 0.003) * 0.01) (corePosition c)\<rparr>
      else c)"

text \<open>
  One call of \<^verbatim>\<open>animate\<close> of \<^verbatim>\<open>main.js\<close>: \<open>deltaTime\<close> is \<^verbatim>\<open>clock.getDelta()\<close>, \<open>now\<close> the
  reading of \<^verbatim>\<open>Date.now()\<close> during the frame, \<open>rnd\<close> the sequence of random numbers and
  \<open>inp\<close> the keys and the look direction.
\<close>

definition animate :: "real \<Rightarrow> real \<Rightarrow> (nat \<Rightarrow> real) \<Rightarrow> input \<Rightarrow> state \<Rightarrow> error + state" where
  "animate deltaTime now rnd inp s =
     (if gameActive s then
        let s1 = updateMapMovement deltaTime now s;
            s2 = updatePlayer deltaTime inp s1;
            s3 = s2\<lparr>dataCores := map (animateCore now (offset (mapDrift s2))) (dataCores s2)\<rparr>
        in case collapseRoomsBehindPlayer now rnd s3 of
             Inl e \<Rightarrow> Inl e
           | Inr s4 \<Rightarrow>
               Inr (updateDebrisParticles deltaTime now
                      (updateCollapsingCorridors now (updateCollapsingRooms now s4)))
      else Inr s)"

definition animate_grid :: "real \<Rightarrow> real \<Rightarrow> (nat \<Rightarrow> real) \<Rightarrow> input \<Rightarrow> state \<Rightarrow> error + state" where
  "animate_grid deltaTime now rnd inp s =
     (if gameActive s then
        let s1 = updatePlayer_grid deltaTime inp s;
            s2 = s1\<lparr>dataCores := map (animateCore_grid now) (dataCores s1)\<rparr>
        in if now - lastCollapseTime s2 > collapseInterval s2 then
             (case collapseRandomRoom now rnd s2 of
                Inl e \<Rightarrow> Inl e
              | Inr s3 \<Rightarrow> Inr (updateCollapsingRooms_grid now (s3\<lparr>lastCollapseTime := now\<rparr>)))
           else Inr (updateCollapsingRooms_grid now s2)
      else Inr s)"

definition startGame :: "real \<Rightarrow> state \<Rightarrow> state" where
  "startGame now s = s\<lparr>gameActive := True, gameStartTime := now, lastCollapseTime := now\<rparr>"

section \<open>Level generation and sessions\<close>

definition newMesh :: "vec3 \<Rightarrow> vec3 \<Rightarrow> mesh" where
  "newMesh pos n = \<lparr>localPosition = pos, isSurface = True, normal = n\<rparr>"

text \<open>A new \<^verbatim>\<open>THREE.Group\<close>: no rotation, empty \<^verbatim>\<open>userData\<close>.\<close>

definition newGroup :: "vec3 \<Rightarrow> mesh list \<Rightarrow> group" where
  "newGroup pos cs =
     \<lparr>position = pos, rotation = Vector3 0 0 0, children = cs, isCollapsed = False,
       collapseStartTime = 0, collapsePhase = None, rotationVelocity = Vector3 0 0 0,
       fallStartY = 0, basePosition = None\<rparr>"

text \<open>\<open>sz\<close> is the parameter \<^verbatim>\<open>size\<close>.\<close>

definition createRoom :: "real \<Rightarrow> real \<Rightarrow> real \<Rightarrow> real \<Rightarrow> group" where
  "createRoom x y z sz =
     (let wallHeight = 8 in
      newGroup (Vector3 x y z)
        [newMesh (Vector3 0 0 0) (Vector3 0 1 0),
         newMesh (Vector3 0 wallHeight 0) (Vector3 0 (-1) 0),
         newMesh (Vector3 0 (wallHeight / 2) (- sz / 2)) (Vector3 0 0 1),
         newMesh (Vector3 0 (wallHeight / 2) (sz / 2)) (Vector3 0 0 (-1)),
         newMesh (Vector3 (sz / 2) (wallHeight / 2) 0) (Vector3 (-1) 0 0),
         newMesh (Vector3 (- sz / 2) (wallHeight / 2) 0) (Vector3 1 0 0)])"

definition createCorridor :: "vec3 \<Rightarrow> vec3 \<Rightarrow> real \<Rightarrow> group" where
  "createCorridor from to width =
     (let midpoint = multiplyScalar (vadd from to) 0.5
      in newGroup (Vector3 0 0 0) [newMesh (setY 0 midpoint) (Vector3 0 1 0)])"

definition createDataCore :: "real \<Rightarrow> real \<Rightarrow> real \<Rightarrow> dataCore" where
  "createDataCore x y z =
     \<lparr>corePosition = Vector3 x y z, collected = False, coreBasePosition = None\<rparr>"

definition createExitPortal :: "real \<Rightarrow> real \<Rightarrow> real \<Rightarrow> portal" where
  "createExitPortal x y z = \<lparr>portalPosition = Vector3 x y z, portalBasePosition = None\<rparr>"

definition asRoom :: "nat \<Rightarrow> group \<Rightarrow> room" where
  "asRoom i g = group.extend (g\<lparr>isCollapsed := False\<rparr>) (room.fields i)"

definition asCorridor :: "nat \<times> nat \<Rightarrow> group \<Rightarrow> corridor" where
  "asCorridor c g = group.extend (g\<lparr>isCollapsed := False\<rparr>) (corridor.fields c)"

text \<open>\<^verbatim>\<open>generateLevel\<close> of \<^verbatim>\<open>main.js\<close>: 25 rooms in a line, with a lateral offset.\<close>

definition numRooms :: nat where
  "numRooms = 25"

definition roomPositions :: "nat \<Rightarrow> real \<times> real" where
  "roomPositions i = (of_int \<lfloor>sin (real i * 0.5) * 1.5\<rfloor>, real i)"

definition generateLevel :: "state \<Rightarrow> state" where
  "generateLevel s =
     (let roomSize = 15; corridorWidth = 3; spacing = 25;
          world = (\<lambda>i. Vector3 (fst (roomPositions i) * spacing) 0 (snd (roomPositions i) * spacing));
          connections = map (\<lambda>i. (i, i + 1)) [0..<numRooms - 1]
      in s\<lparr>rooms := rooms s @
               map (\<lambda>i. asRoom i (createRoom (fst (roomPositions i) * spacing) 0
                                     (snd (roomPositions i) * spacing) roomSize))
                 [0..<numRooms],
             corridors := corridors s @
               map (\<lambda>c. asCorridor c (createCorridor (world (fst c)) (world (snd c)) corridorWidth))
                 connections,
             dataCores := dataCores s @
               map (\<lambda>i. createDataCore (fst (roomPositions i) * spacing) 3
                          (snd (roomPositions i) * spacing))
                 (filter (\<lambda>i. 5 \<le> i \<and> (i - 5) mod 6 = 0) [0..<numRooms - 2]),
             exitPortal := Some (createExitPortal (fst (roomPositions (numRooms - 1)) * spacing) 3
                                   (snd (roomPositions (numRooms - 1)) * spacing))\<rparr>)"

text \<open>
  \<^verbatim>\<open>generateLevel\<close> of the grid file: twelve rooms and seventeen corridors from two
  tables. Its corridors get no \<^verbatim>\<open>userData\<close>: the record's fields \<open>isCollapsed\<close> and
  \<open>connectedRooms\<close> are filled with \<^verbatim>\<open>false\<close> (for the missing property) and the
  connection, and no function of the grid file reads or writes them.
\<close>

definition roomPositions_grid :: "(real \<times> real) list" where
  "roomPositions_grid =
     [(0, 0), (1, 0), (2, 0), (0, 1), (1, 1), (2, 1),
      (0, 2), (1, 2), (2, 2), (0, 3), (1, 3), (2, 3)]"

definition connections_grid :: "(nat \<times> nat) list" where
  "connections_grid =
     [(0, 1), (1, 2), (0, 3), (1, 4), (2, 5),
      (3, 4), (4, 5), (3, 6), (4, 7), (5, 8),
      (6, 7), (7, 8), (6, 9), (7, 10), (8, 11),
      (9, 10), (10, 11)]"

definition generateLevel_grid :: "state \<Rightarrow> state" where
  "generateLevel_grid s =
     (let roomSize = 15; corridorWidth = 3; spacing = 25;
          world = (\<lambda>i. Vector3 (fst (roomPositions_grid ! i) * spacing - spacing) 0
                               (snd (roomPositions_grid ! i) * spacing - spacing));
          coreRooms = [2, 4, 6, 9]
      in s\<lparr>rooms := rooms s @
               map (\<lambda>i. asRoom i (createRoom (fst (roomPositions_grid ! i) * spacing - spacing) 0
                                     (snd (roomPositions_grid ! i) * spacing - spacing) roomSize))
                 [0..<12],
             corridors := corridors s @
               map (\<lambda>c. asCorridor c (createCorridor (world (fst c)) (world (snd c)) corridorWidth))
                 connections_grid,
             dataCores := dataCores s @
               map (\<lambda>i. createDataCore (fst (roomPositions_grid ! i) * spacing - spacing) 3
                          (snd (roomPositions_grid ! i) * spacing - spacing))
                 coreRooms,
             exitPortal := Some (createExitPortal (fst (roomPositions_grid ! 11) * spacing - spacing) 3
                                   (snd (roomPositions_grid ! 11) * spacing - spacing))\<rparr>)"

text \<open>
  The module-level initial values. The game-over panel comes from the HTML page, which
  is not among the sources: it is a parameter.
\<close>

definition initialState :: "gameOverPanel \<Rightarrow> state" where
  "initialState panel =
     \<lparr>player = \<lparr>meshPosition = Vector3 0 0 0, velocity = Vector3 0 0 0, speed = 3.0,
                 jumpStrength = 8, isJumping = False, coresCollected = 0,
                 currentSurface = None, gravity = Vector3 0 (-20) 0\<rparr>,
       rooms = [], corridors = [], dataCores = [], exitPortal = None,
       gameActive = False, gameStartTime = 0, lastCollapseTime = 0, collapseInterval = 5000,
       collapsedRooms = [], collapsedCorridors = [], debrisParticles = [],
       mapDrift = \<lparr>offset = Vector3 0 0 0, swayTime = 0\<rparr>,
       gameOver = panel,
       randomDraws = 0\<rparr>"

text \<open>\<^verbatim>\<open>init\<close>: the level, and the player's mesh at the camera position \<open>(0, 2, 0)\<close>.\<close>

definition init :: "gameOverPanel \<Rightarrow> state" where
  "init panel =
     (let s = generateLevel (initialState panel)
      in s\<lparr>player := (player s)\<lparr>meshPosition := Vector3 0 2 0\<rparr>\<rparr>)"

definition init_grid :: "gameOverPanel \<Rightarrow> state" where
  "init_grid panel =
     (let s = generateLevel_grid (initialState panel)
      in s\<lparr>player := (player s)\<lparr>meshPosition := Vector3 0 2 0\<rparr>\<rparr>)"

text \<open>
  What level generation establishes about the collapse state, whatever the layout: no
  room and no corridor is collapsed, nothing is in the collapse lists, and the session
  has not started.
\<close>

definition freshLevel :: "state \<Rightarrow> bool" where
  "freshLevel s \<longleftrightarrow>
     list_all (\<lambda>r. \<not> isCollapsed r \<and> collapsePhase r = None) (rooms s) \<and>
     list_all (\<lambda>c. \<not> isCollapsed c \<and> collapsePhase c = None) (corridors s) \<and>
     collapsedRooms s = [] \<and> collapsedCorridors s = [] \<and> debrisParticles s = [] \<and>
     \<not> gameActive s"

text \<open>
  The states of a session of \<^verbatim>\<open>main.js\<close>: a freshly generated level, a click that starts
  the game while it is not active, and the frames that do not throw.
\<close>

inductive reachable :: "state \<Rightarrow> bool" where
  generated: "freshLevel s \<Longrightarrow> reachable s"
| click: "reachable s \<Longrightarrow> \<not> gameActive s \<Longrightarrow> reachable (startGame now s)"
| frame: "reachable s \<Longrightarrow> animate deltaTime now rnd inp s = Inr s' \<Longrightarrow> reachable s'"

inductive reachable_grid :: "state \<Rightarrow> bool" where
  generated_grid: "freshLevel s \<Longrightarrow> reachable_grid s"
| click_grid: "reachable_grid s \<Longrightarrow> \<not> gameActive s \<Longrightarrow> reachable_grid (startGame now s)"
| frame_grid:
    "reachable_grid s \<Longrightarrow> animate_grid deltaTime now rnd inp s = Inr s' \<Longrightarrow> reachable_grid s'"

section \<open>Vocabulary of the specification\<close>

text \<open>
  The specification speaks of the surface a reference points to, of its owner being
  collapsed, of its distance from the player and of the surfaces that qualify for the
  nearest-surface search. These definitions follow its words; the theorems relate them
  to what the code computes.
\<close>

text \<open>The room or corridor a reference names, if the list has that position.\<close>

definition ownerOf :: "state \<Rightarrow> ownerRef \<Rightarrow> group option" where
  "ownerOf s ow =
     (case ow of
        RoomRef i \<Rightarrow> if i < length (rooms s) then Some (group.truncate (rooms s ! i)) else None
      | CorridorRef i \<Rightarrow>
          if i < length (corridors s) then Some (group.truncate (corridors s ! i)) else None)"

text \<open>The Euclidean distance from the player to the world position of the surface.\<close>

definition surfaceDistance :: "state \<Rightarrow> surfaceRef \<Rightarrow> real" where
  "surfaceDistance s ref =
     (case ownerOf s (fst ref) of
        None \<Rightarrow> 0
      | Some g \<Rightarrow>
          distanceTo (meshPosition (player s)) (getWorldPosition (position g) (children g ! snd ref)))"

text \<open>The reference names a child that exists and carries \<^verbatim>\<open>isSurface\<close>.\<close>

definition isTraversable :: "state \<Rightarrow> surfaceRef \<Rightarrow> bool" where
  "isTraversable s ref =
     (case ownerOf s (fst ref) of
        None \<Rightarrow> False
      | Some g \<Rightarrow> snd ref < length (children g) \<and> isSurface (children g ! snd ref))"

definition ownerCollapsed :: "state \<Rightarrow> surfaceRef \<Rightarrow> bool" where
  "ownerCollapsed s ref = (case ownerOf s (fst ref) of None \<Rightarrow> False | Some g \<Rightarrow> isCollapsed g)"

text \<open>
  A qualifying surface: traversable, owned by a room or corridor that is not collapsed,
  and strictly less than 10 units away.
\<close>

definition qualifies :: "state \<Rightarrow> surfaceRef \<Rightarrow> bool" where
  "qualifies s ref \<longleftrightarrow>
     isTraversable s ref \<and> \<not> ownerCollapsed s ref \<and> surfaceDistance s ref < 10"

definition isCorridorRef :: "surfaceRef \<Rightarrow> bool" where
  "isCorridorRef ref = (case fst ref of CorridorRef i \<Rightarrow> True | RoomRef i \<Rightarrow> False)"

text \<open>
  What the grid file tests: its corridor loop does not look at the collapse flag (and its
  corridors never collapse).
\<close>

definition qualifies_grid :: "state \<Rightarrow> surfaceRef \<Rightarrow> bool" where
  "qualifies_grid s ref \<longleftrightarrow>
     isTraversable s ref \<and> (isCorridorRef ref \<or> \<not> ownerCollapsed s ref) \<and> surfaceDistance s ref < 10"

text \<open>The world position and the normal of the surface a reference names.\<close>

definition surfaceWorldPosition :: "state \<Rightarrow> surfaceRef \<Rightarrow> vec3" where
  "surfaceWorldPosition s ref =
     (case ownerOf s (fst ref) of
        None \<Rightarrow> Vector3 0 0 0
      | Some g \<Rightarrow> getWorldPosition (position g) (children g ! snd ref))"

definition surfaceNormal :: "state \<Rightarrow> surfaceRef \<Rightarrow> vec3" where
  "surfaceNormal s ref =
     (case ownerOf s (fst ref) of
        None \<Rightarrow> Vector3 0 0 0
      | Some g \<Rightarrow> normal (children g ! snd ref))"

text \<open>The specification's \<open>clamp(x, lo, hi)\<close>.\<close>

definition clamp :: "real \<Rightarrow> real \<Rightarrow> real \<Rightarrow> real" where
  "clamp x lo hi = max lo (min hi x)"

section \<open>Example configurations\<close>

text \<open>
  Small concrete states and inputs on which the theorems below are instantiated: a
  player in the air over an empty level, a player standing on the floor of a single
  room, and the inputs with no key, with Space and with W held, looking along +z.
\<close>

definition airborneState :: state where
  "airborneState =
     \<lparr>player = \<lparr>meshPosition = Vector3 0 2 0, velocity = Vector3 0 0 0, speed = 3,
                 jumpStrength = 8, isJumping = False, coresCollected = 0,
                 currentSurface = None, gravity = Vector3 0 (-20) 0\<rparr>,
       rooms = [], corridors = [], dataCores = [], exitPortal = None,
       gameActive = True, gameStartTime = 0, lastCollapseTime = 0, collapseInterval = 5000,
       collapsedRooms = [], collapsedCorridors = [], debrisParticles = [],
       mapDrift = \<lparr>offset = Vector3 0 0 0, swayTime = 0\<rparr>,
       gameOver = \<lparr>title = [], message = [], win = False, hidden = True\<rparr>,
       randomDraws = 0\<rparr>"

definition floorMesh :: mesh where
  "floorMesh = \<lparr>localPosition = Vector3 0 0 0, isSurface = True, normal = Vector3 0 1 0\<rparr>"

definition intactRoom :: "nat \<Rightarrow> vec3 \<Rightarrow> room" where
  "intactRoom i pos =
     \<lparr>position = pos, rotation = Vector3 0 0 0, children = [floorMesh], isCollapsed = False,
       collapseStartTime = 0, collapsePhase = None, rotationVelocity = Vector3 0 0 0,
       fallStartY = 0, basePosition = None, index = i\<rparr>"

definition groundedState :: state where
  "groundedState =
     airborneState\<lparr>player := (player airborneState)\<lparr>meshPosition := Vector3 0 1 0,
                                                     currentSurface := Some (RoomRef 0, 0)\<rparr>,
                   rooms := [intactRoom 0 (Vector3 0 0 0)]\<rparr>"

definition noKeys :: input where
  "noKeys = \<lparr>keys = (\<lambda>code. False), forward = Vector3 0 0 1, right = Vector3 (-1) 0 0\<rparr>"

definition holdSpace :: input where
  "holdSpace = noKeys\<lparr>keys := (\<lambda>code. code = ''Space'')\<rparr>"

definition holdW :: input where
  "holdW = noKeys\<lparr>keys := (\<lambda>code. code = ''KeyW'')\<rparr>"

text \<open>A player who has fallen below the void threshold.\<close>

definition fallenState :: state where
  "fallenState = airborneState\<lparr>player := (player airborneState)\<lparr>meshPosition := Vector3 0 (-60) 0\<rparr>\<rparr>"

definition collapsedRoom :: "nat \<Rightarrow> vec3 \<Rightarrow> room" where
  "collapsedRoom i pos = (intactRoom i pos)\<lparr>isCollapsed := True, collapsePhase := Some Shake\<rparr>"

text \<open>
  The player one unit above the floor of room 0; room 1 is nearer but collapsed, and
  room 2 is more than 10 units away.
\<close>

definition scanState :: state where
  "scanState =
     groundedState\<lparr>rooms := [intactRoom 0 (Vector3 0 0 0),
                             collapsedRoom 1 (Vector3 0 (1/2) 0),
                             intactRoom 2 (Vector3 0 0 20)]\<rparr>"

text \<open>A freshly generated level of two rooms, the player above the floor of the first.\<close>

definition freshState :: state where
  "freshState =
     groundedState\<lparr>rooms := [intactRoom 0 (Vector3 0 0 0), intactRoom 1 (Vector3 0 0 25)],
                   gameActive := False\<rparr>"

text \<open>A jumping player at the top of the jump, one unit above the floor.\<close>

definition landingState :: state where
  "landingState = groundedState\<lparr>player := (player groundedState)\<lparr>isJumping := True\<rparr>\<rparr>"

text \<open>A jumping player on the way down, one and a half units above the floor.\<close>

definition descendingState :: state where
  "descendingState =
     groundedState\<lparr>player := (player groundedState)\<lparr>meshPosition := Vector3 0 (3/2) 0,
                                                     velocity := Vector3 0 (-2) 3,
                                                     isJumping := True\<rparr>\<rparr>"

text \<open>A player five units above the floor: within the search radius, outside the snap.\<close>

definition hoverState :: state where
  "hoverState =
     groundedState\<lparr>player := (player groundedState)\<lparr>meshPosition := Vector3 0 5 0\<rparr>\<rparr>"

text \<open>
  A level of three rooms in a line and the two corridors between them, without surface
  meshes, and a player far ahead of the rooms: once the session starts, the first frame
  collapses room 1 and with it both corridors.
\<close>

definition bareRoom :: "nat \<Rightarrow> real \<Rightarrow> room" where
  "bareRoom i z =
     \<lparr>position = Vector3 0 0 z, rotation = Vector3 0 0 0, children = [], isCollapsed = False,
       collapseStartTime = 0, collapsePhase = None, rotationVelocity = Vector3 0 0 0,
       fallStartY = 0, basePosition = None, index = i\<rparr>"

definition bareCorridor :: "nat \<times> nat \<Rightarrow> corridor" where
  "bareCorridor c =
     \<lparr>position = Vector3 0 0 0, rotation = Vector3 0 0 0, children = [], isCollapsed = False,
       collapseStartTime = 0, collapsePhase = None, rotationVelocity = Vector3 0 0 0,
       fallStartY = 0, basePosition = None, connectedRooms = c\<rparr>"

definition runLevel :: state where
  "runLevel =
     airborneState\<lparr>player := (player airborneState)\<lparr>meshPosition := Vector3 0 1 130\<rparr>,
                   rooms := [bareRoom 0 0, bareRoom 1 25, bareRoom 2 50],
                   corridors := [bareCorridor (0, 1), bareCorridor (1, 2)],
                   gameActive := False\<rparr>"

definition half :: "nat \<Rightarrow> real" where
  "half n = 1 / 2"

definition runStart :: state where
  "runStart = startGame 0 runLevel"

definition frame1 :: state where
  "frame1 = projr (animate (1/10) 0 half noKeys runStart)"

definition gridFrame1 :: state where
  "gridFrame1 = projr (animate_grid (1/10) 6000 half noKeys runStart)"

definition frame2 :: state where
  "frame2 = projr (animate (1/10) 1200 half noKeys frame1)"

definition driftedRoom :: "nat \<Rightarrow> real \<Rightarrow> room" where
  "driftedRoom i z = (bareRoom i z)\<lparr>basePosition := Some (Vector3 0 0 z)\<rparr>"

definition driftedCorridor :: "nat \<times> nat \<Rightarrow> corridor" where
  "driftedCorridor c = (bareCorridor c)\<lparr>basePosition := Some (Vector3 0 0 0)\<rparr>"

definition shaking :: "'a group_scheme \<Rightarrow> 'a group_scheme" where
  "shaking g = g\<lparr>isCollapsed := True, collapsePhase := Some Shake\<rparr>"

definition frameShake :: state where
  "frameShake = projr (animate (1/10) 300 half noKeys frame1)"

definition frame3 :: state where
  "frame3 = projr (animate (1/10) 2000 half noKeys frame2)"

definition player2 :: player_state where
  "player2 = \<lparr>meshPosition = Vector3 0 (2/5) (653/5), velocity = Vector3 0 (-4) 3, speed = 3,
      jumpStrength = 8, isJumping = False, coresCollected = 0,
      currentSurface = None, gravity = Vector3 0 (-20) 0\<rparr>"

section \<open>Auxiliary definitions for the proofs\<close>

text \<open>
  The scan as a fold of one selection step over the list of all candidate hits, and the
  part of a state the collapse invariants depend on.
\<close>

definition pick :: "hit \<Rightarrow> hit option \<Rightarrow> hit option" where
  "pick h acc = (if lessThanNearest (hitDistance h) acc \<and> hitDistance h < 10 then Some h else acc)"

definition mkHit :: "vec3 \<Rightarrow> ownerRef \<Rightarrow> vec3 \<Rightarrow> nat \<times> mesh \<Rightarrow> hit" where
  "mkHit p ow op jc = \<lparr>hitRef = (ow, fst jc), hitMesh = snd jc, hitOwnerPosition = op,
      hitDistance = distanceTo p (getWorldPosition op (snd jc))\<rparr>"

definition groupHits :: "bool \<Rightarrow> vec3 \<Rightarrow> (nat \<Rightarrow> ownerRef) \<Rightarrow> nat \<times> 'a group_scheme \<Rightarrow> hit list" where
  "groupHits skip p mk ig =
     (if skip \<and> isCollapsed (snd ig) then []
      else map (mkHit p (mk (fst ig)) (position (snd ig)))
             (filter (\<lambda>jc. isSurface (snd jc)) (enumerate 0 (children (snd ig)))))"

definition allHits :: "bool \<Rightarrow> state \<Rightarrow> hit list" where
  "allHits skipCorridors s =
     concat (map (groupHits True (meshPosition (player s)) RoomRef) (enumerate 0 (rooms s))) @
     concat (map (groupHits skipCorridors (meshPosition (player s)) CorridorRef)
               (enumerate 0 (corridors s)))"

definition hitOf :: "state \<Rightarrow> surfaceRef \<Rightarrow> hit" where
  "hitOf s ref =
     (let g = the (ownerOf s (fst ref))
      in \<lparr>hitRef = ref, hitMesh = children g ! snd ref, hitOwnerPosition = position g,
           hitDistance = surfaceDistance s ref\<rparr>)"

definition roomView :: "room \<Rightarrow> nat \<times> bool \<times> bool" where
  "roomView r = (index r, isCollapsed r, collapsePhase r = None)"

definition corridorView :: "corridor \<Rightarrow> (nat \<times> nat) \<times> bool \<times> bool" where
  "corridorView c = (connectedRooms c, isCollapsed c, collapsePhase c = None)"

definition collapseView ::
  "state \<Rightarrow> (nat \<times> bool \<times> bool) list \<times> ((nat \<times> nat) \<times> bool \<times> bool) list \<times> nat list \<times> nat list" where
  "collapseView s =
     (map roomView (rooms s), map corridorView (corridors s), collapsedRooms s, collapsedCorridors s)"

definition corridorsDerived :: "state \<Rightarrow> bool" where
  "corridorsDerived s \<longleftrightarrow>
     (\<forall>c\<in>set (corridors s).
        isCollapsed c \<or> collapsePhase c \<noteq> None \<longrightarrow>
          fst (connectedRooms c) < length (rooms s) \<and> snd (connectedRooms c) < length (rooms s) \<and>
          (isCollapsed (rooms s ! fst (connectedRooms c)) \<or>
           isCollapsed (rooms s ! snd (connectedRooms c))))"

definition startRoomIntact :: "state \<Rightarrow> bool" where
  "startRoomIntact s \<longleftrightarrow>
     (\<forall>r\<in>set (rooms s). index r = 0 \<longrightarrow> \<not> isCollapsed r \<and> collapsePhase r = None)"

definition corridorsIntact :: "state \<Rightarrow> bool" where
  "corridorsIntact s \<longleftrightarrow> (\<forall>c\<in>set (corridors s). \<not> isCollapsed c \<and> collapsePhase c = None)"

definition listsOk :: "state \<Rightarrow> bool" where
  "listsOk s \<longleftrightarrow>
     distinct (collapsedRooms s) \<and>
     (\<forall>i. i \<in> set (collapsedRooms s) \<longleftrightarrow> i < length (rooms s) \<and> isCollapsed (rooms s ! i)) \<and>
     distinct (collapsedCorridors s) \<and>
     (\<forall>i. i \<in> set (collapsedCorridors s) \<longleftrightarrow>
          i < length (corridors s) \<and> isCollapsed (corridors s ! i))"

definition phasesOk :: "state \<Rightarrow> bool" where
  "phasesOk s \<longleftrightarrow>
     (\<forall>r\<in>set (rooms s). isCollapsed r \<longleftrightarrow> collapsePhase r \<noteq> None) \<and>
     (\<forall>c\<in>set (corridors s). isCollapsed c \<longleftrightarrow> collapsePhase c \<noteq> None)"

text \<open>The state of a frame of \<^verbatim>\<open>main.js\<close> just before the collapse evaluation.\<close>

definition beforeCollapse :: "real \<Rightarrow> real \<Rightarrow> input \<Rightarrow> state \<Rightarrow> state" where
  "beforeCollapse dt now inp s =
     (let s2 = updatePlayer dt inp (updateMapMovement dt now s)
      in s2\<lparr>dataCores := map (animateCore now (offset (mapDrift s2))) (dataCores s2)\<rparr>)"

definition bare :: "state \<Rightarrow> bool" where
  "bare s \<longleftrightarrow> (\<forall>g\<in>set (rooms s). children g = []) \<and> (\<forall>g\<in>set (corridors s). children g = []) \<and>
     dataCores s = [] \<and> exitPortal s = None"

section \<open>The example configurations evaluated\<close>

lemma holdW_simps:
  "keys holdW code = (code = ''KeyW'')" "forward holdW = Vector3 0 0 1" "right holdW = Vector3 (-1) 0 0"
  by (simp_all add: holdW_def noKeys_def)

lemma noKeys_simps:
  "keys noKeys code = False" "forward noKeys = Vector3 0 0 1" "right noKeys = Vector3 (-1) 0 0"
  by (simp_all add: noKeys_def)

lemma holdSpace_simps:
  "keys holdSpace code = (code = ''Space'')" "forward holdSpace = Vector3 0 0 1"
  "right holdSpace = Vector3 (-1) 0 0"
  by (simp_all add: holdSpace_def noKeys_def)

lemma airborneState_simps:
  "gameActive airborneState"
  "player airborneState = \<lparr>meshPosition = Vector3 0 2 0, velocity = Vector3 0 0 0, speed = 3,
                 jumpStrength = 8, isJumping = False, coresCollected = 0,
                 currentSurface = None, gravity = Vector3 0 (-20) 0\<rparr>"
  by (simp_all add: airborneState_def)

lemma groundedState_simps:
  "gameActive groundedState"
  "player groundedState = \<lparr>meshPosition = Vector3 0 1 0, velocity = Vector3 0 0 0, speed = 3,
                 jumpStrength = 8, isJumping = False, coresCollected = 0,
                 currentSurface = Some (RoomRef 0, 0), gravity = Vector3 0 (-20) 0\<rparr>"
  by (simp_all add: groundedState_def airborneState_def)

section \<open>The locomotion controller: properties\<close>

lemma velocity_findNearestSurface [simp]:
  "velocity (player (findNearestSurface s)) = velocity (player s)"
  by (simp add: findNearestSurface_def snapToSurface_def Let_def split: option.splits)

lemma velocity_findNearestSurface_grid [simp]:
  "velocity (player (findNearestSurface_grid s)) = velocity (player s)"
  by (simp add: findNearestSurface_grid_def snapToSurface_def Let_def split: option.splits)

lemma velocity_endGame [simp]: "velocity (player (endGame w m s)) = velocity (player s)"
  by (simp add: endGame_def)

lemma meshPosition_endGame [simp]: "meshPosition (player (endGame w m s)) = meshPosition (player s)"
  by (simp add: endGame_def)

lemma fold_checkCore_keeps:
  assumes "\<And>i s. P (collect i s) = P s"
  shows "P (fold (checkCore collect) is s) = P s"
  by (induction "is" arbitrary: s) (simp_all add: checkCore_def Let_def assms)

lemma velocity_checkCollisions [simp]:
  "velocity (player (checkCollisions s)) = velocity (player s)"
proof -
  have "velocity (player (fold (checkCore collectCore) is s)) = velocity (player s)" for "is"
    by (rule fold_checkCore_keeps[where P="\<lambda>s. velocity (player s)"]) (simp add: collectCore_def)
  then show ?thesis
    by (simp add: checkCollisions_def Let_def split: option.splits)
qed

lemma velocity_checkCollisions_grid [simp]:
  "velocity (player (checkCollisions_grid s)) = velocity (player s)"
proof -
  have "velocity (player (fold (checkCore collectCore_grid) is s)) = velocity (player s)" for "is"
    by (rule fold_checkCore_keeps[where P="\<lambda>s. velocity (player s)"]) (simp add: collectCore_grid_def)
  then show ?thesis
    by (simp add: checkCollisions_grid_def Let_def split: option.splits)
qed

lemma velocity_updatePlayer:
  "gameActive s \<Longrightarrow>
     velocity (player (updatePlayer dt inp s)) = velocity (locomotion dt inp (player s))"
  by (simp add: updatePlayer_def Let_def)

lemma velocity_updatePlayer_grid:
  "gameActive s \<Longrightarrow>
     velocity (player (updatePlayer_grid dt inp s)) = velocity (locomotion_grid dt inp (player s))"
  by (simp add: updatePlayer_grid_def Let_def)

lemma horizontalVelocity_fields [simp]:
  "meshPosition (horizontalVelocity inp p) = meshPosition p"
  "speed (horizontalVelocity inp p) = speed p"
  "jumpStrength (horizontalVelocity inp p) = jumpStrength p"
  "isJumping (horizontalVelocity inp p) = isJumping p"
  "currentSurface (horizontalVelocity inp p) = currentSurface p"
  "gravity (horizontalVelocity inp p) = gravity p"
  by (simp_all add: horizontalVelocity_def Let_def)

lemma horizontalVelocity_grid_fields [simp]:
  "meshPosition (horizontalVelocity_grid inp p) = meshPosition p"
  "speed (horizontalVelocity_grid inp p) = speed p"
  "jumpStrength (horizontalVelocity_grid inp p) = jumpStrength p"
  "isJumping (horizontalVelocity_grid inp p) = isJumping p"
  "currentSurface (horizontalVelocity_grid inp p) = currentSurface p"
  "gravity (horizontalVelocity_grid inp p) = gravity p"
  by (simp_all add: horizontalVelocity_grid_def Let_def)

lemma vy_horizontalVelocity [simp]:
  "vy (velocity (horizontalVelocity inp p)) = vy (velocity p)"
  "vy (velocity (horizontalVelocity_grid inp p)) = vy (velocity p)"
  by (simp_all add: horizontalVelocity_def horizontalVelocity_grid_def Let_def)

lemma jumpStep_fields [simp]:
  "meshPosition (jumpStep inp p) = meshPosition p"
  "currentSurface (jumpStep inp p) = currentSurface p"
  "gravity (jumpStep inp p) = gravity p"
  "vx (velocity (jumpStep inp p)) = vx (velocity p)"
  "vz (velocity (jumpStep inp p)) = vz (velocity p)"
  "meshPosition (jumpStep_grid inp p) = meshPosition p"
  "currentSurface (jumpStep_grid inp p) = currentSurface p"
  "gravity (jumpStep_grid inp p) = gravity p"
  "vx (velocity (jumpStep_grid inp p)) = vx (velocity p)"
  "vz (velocity (jumpStep_grid inp p)) = vz (velocity p)"
  by (simp_all add: jumpStep_def jumpStep_grid_def)

lemma isJumping_jumpStep:
  "isJumping (jumpStep inp p) \<longleftrightarrow>
     isJumping p \<or> (keys inp ''Space'' \<and> currentSurface p \<noteq> None)"
  "isJumping (jumpStep_grid inp p) \<longleftrightarrow>
     isJumping p \<or> ((keys inp ''Space'' \<or> keys inp ''KeyW'' \<or> keys inp ''ArrowUp'')
                     \<and> currentSurface p \<noteq> None)"
  by (auto simp add: jumpStep_def jumpStep_grid_def)

lemma vy_jumpStep:
  "vy (velocity (jumpStep inp p)) =
     (if \<not> isJumping p \<and> isJumping (jumpStep inp p) then jumpStrength p else vy (velocity p))"
  "vy (velocity (jumpStep_grid inp p)) =
     (if \<not> isJumping p \<and> isJumping (jumpStep_grid inp p) then jumpStrength p else vy (velocity p))"
  by (simp_all add: jumpStep_def jumpStep_grid_def)

lemma velocity_gravityStep:
  "velocity (gravityStep dt q) =
     (if currentSurface q = None \<or> isJumping q
      then vadd (velocity q) (multiplyScalar (gravity q) dt)
      else Vector3 (vx (velocity q)) 0 (vz (velocity q)))"
  by (simp add: gravityStep_def)

lemma gravityStep_fields [simp]: "meshPosition (gravityStep dt q) = meshPosition q"
  by (simp add: gravityStep_def)

lemma moveStep_fields:
  "velocity (moveStep dt q) = velocity q"
  "meshPosition (moveStep dt q) = vadd (meshPosition q) (multiplyScalar (velocity q) dt)"
  by (simp_all add: moveStep_def Let_def)

lemma velocity_locomotion:
  "velocity (locomotion dt inp p) =
     velocity (gravityStep dt (jumpStep inp (horizontalVelocity inp p)))"
  "velocity (locomotion_grid dt inp p) =
     velocity (gravityStep dt (jumpStep_grid inp (horizontalVelocity_grid inp p)))"
  by (simp_all add: locomotion_def locomotion_grid_def moveStep_fields)

lemma meshPosition_locomotion:
  "meshPosition (locomotion dt inp p) =
     vadd (meshPosition p) (multiplyScalar (velocity (locomotion dt inp p)) dt)"
  "meshPosition (locomotion_grid dt inp p) =
     vadd (meshPosition p) (multiplyScalar (velocity (locomotion_grid dt inp p)) dt)"
  by (simp_all add: locomotion_def locomotion_grid_def moveStep_fields)

lemma vy_vadd [simp]: "vy (vadd a b) = vy a + vy b" "vx (vadd a b) = vx a + vx b" "vz (vadd a b) = vz a + vz b"
  by (simp_all add: vadd_def)

lemma multiplyScalar_sel [simp]:
  "vx (multiplyScalar a k) = vx a * k" "vy (multiplyScalar a k) = vy a * k"
  "vz (multiplyScalar a k) = vz a * k"
  by (simp_all add: multiplyScalar_def)

section \<open>The surface-snap resolver: properties\<close>

lemma considerChild_pick:
  "considerChild p ow op jc acc = (if isSurface (snd jc) then pick (mkHit p ow op jc) acc else acc)"
  by (simp add: considerChild_def pick_def mkHit_def Let_def)

lemma fold_considerChild:
  "fold (considerChild p ow op) jcs acc =
     fold pick (map (mkHit p ow op) (filter (\<lambda>jc. isSurface (snd jc)) jcs)) acc"
  by (induction jcs arbitrary: acc) (simp_all add: considerChild_pick)

lemma considerGroup_pick:
  "considerGroup skip p mk ig acc = fold pick (groupHits skip p mk ig) acc"
  by (simp add: considerGroup_def groupHits_def fold_considerChild)

lemma fold_considerGroup:
  "fold (considerGroup skip p mk) igs acc = fold pick (concat (map (groupHits skip p mk) igs)) acc"
  by (induction igs arbitrary: acc) (simp_all add: considerGroup_pick)

lemma scanGroups_pick:
  "scanGroups skip p mk gs acc = fold pick (concat (map (groupHits skip p mk) (enumerate 0 gs))) acc"
  by (simp add: scanGroups_def fold_considerGroup)

lemma fold_pick_None:
  "fold pick hs acc = None \<longleftrightarrow> acc = None \<and> (\<forall>h\<in>set hs. \<not> hitDistance h < 10)"
  by (induction hs arbitrary: acc) (auto simp: pick_def lessThanNearest_def split: option.splits)

lemma fold_pick_Some:
  "fold pick hs acc = Some h \<Longrightarrow>
     ((h \<in> set hs \<and> hitDistance h < 10) \<or> acc = Some h) \<and>
     (\<forall>h'\<in>set hs. hitDistance h' < 10 \<longrightarrow> hitDistance h \<le> hitDistance h') \<and>
     (\<forall>a. acc = Some a \<longrightarrow> hitDistance h \<le> hitDistance a)"
proof (induction hs arbitrary: acc)
  case Nil
  then show ?case by simp
next
  case (Cons x xs)
  from Cons.prems have "fold pick xs (pick x acc) = Some h" by simp
  from Cons.IH[OF this] show ?case
    by (auto simp: pick_def lessThanNearest_def split: option.splits if_splits)
qed

lemma in_groupHits1:
  "h \<in> set (groupHits skip p mk (i, g)) \<longleftrightarrow>
     \<not> (skip \<and> isCollapsed g) \<and>
     (\<exists>j. j < length (children g) \<and> isSurface (children g ! j) \<and>
          h = mkHit p (mk i) (position g) (j, children g ! j))"
proof (cases "skip \<and> isCollapsed g")
  case True
  then show ?thesis by (simp add: groupHits_def)
next
  case False
  have "h \<in> mkHit p (mk i) (position g) ` {jc \<in> set (enumerate 0 (children g)). isSurface (snd jc)} \<longleftrightarrow>
        (\<exists>j. j < length (children g) \<and> isSurface (children g ! j) \<and>
          h = mkHit p (mk i) (position g) (j, children g ! j))"
    by (force simp: in_set_enumerate_eq image_iff)
  with False show ?thesis by (auto simp add: groupHits_def)
qed

lemma in_groupHits:
  "h \<in> set (concat (map (groupHits skip p mk) (enumerate 0 gs))) \<longleftrightarrow>
     (\<exists>i j. i < length gs \<and> \<not> (skip \<and> isCollapsed (gs ! i)) \<and>
            j < length (children (gs ! i)) \<and> isSurface (children (gs ! i) ! j) \<and>
            h = mkHit p (mk i) (position (gs ! i)) (j, children (gs ! i) ! j))"
proof -
  have "h \<in> set (concat (map (groupHits skip p mk) (enumerate 0 gs))) \<longleftrightarrow>
        (\<exists>i. i < length gs \<and> h \<in> set (groupHits skip p mk (i, gs ! i)))"
    by (force simp: in_set_enumerate_eq)
  then show ?thesis unfolding in_groupHits1 by blast
qed

lemma scanSurfaces_pick: "scanSurfaces s = fold pick (allHits True s) None"
  by (simp add: scanSurfaces_def scanGroups_pick allHits_def)

lemma scanSurfaces_grid_pick: "scanSurfaces_grid s = fold pick (allHits False s) None"
  by (simp add: scanSurfaces_grid_def scanGroups_pick allHits_def)

lemma in_allHits:
  "h \<in> set (allHits skipc s) \<longleftrightarrow>
     (\<exists>ref. isTraversable s ref \<and>
            (if isCorridorRef ref then \<not> (skipc \<and> ownerCollapsed s ref) else \<not> ownerCollapsed s ref) \<and>
            h = hitOf s ref)"
  (is "?L \<longleftrightarrow> ?R")
proof
  assume ?L
  then show ?R
    unfolding allHits_def set_append Un_iff in_groupHits
  proof (elim disjE exE conjE)
    fix i j
    assume "i < length (rooms s)" "\<not> (True \<and> isCollapsed (rooms s ! i))"
      "j < length (children (rooms s ! i))" "isSurface (children (rooms s ! i) ! j)"
      "h = mkHit (meshPosition (player s)) (RoomRef i) (position (rooms s ! i)) (j, children (rooms s ! i) ! j)"
    then show ?R
      by (intro exI[of _ "(RoomRef i, j)"])
        (simp add: isTraversable_def ownerCollapsed_def isCorridorRef_def hitOf_def mkHit_def
          ownerOf_def surfaceDistance_def group.defs)
  next
    fix i j
    assume "i < length (corridors s)" "\<not> (skipc \<and> isCollapsed (corridors s ! i))"
      "j < length (children (corridors s ! i))" "isSurface (children (corridors s ! i) ! j)"
      "h = mkHit (meshPosition (player s)) (CorridorRef i) (position (corridors s ! i)) (j, children (corridors s ! i) ! j)"
    then show ?R
      by (intro exI[of _ "(CorridorRef i, j)"])
        (simp add: isTraversable_def ownerCollapsed_def isCorridorRef_def hitOf_def mkHit_def
          ownerOf_def surfaceDistance_def group.defs)
  qed
next
  assume ?R
  then obtain ow j where r: "isTraversable s (ow, j)"
      "if isCorridorRef (ow, j) then \<not> (skipc \<and> ownerCollapsed s (ow, j)) else \<not> ownerCollapsed s (ow, j)"
      "h = hitOf s (ow, j)"
    by auto
  show ?L
  proof (cases ow)
    case (RoomRef i)
    with r show ?thesis
      unfolding allHits_def set_append Un_iff in_groupHits
      by (intro disjI1 exI[of _ i] exI[of _ j])
        (simp add: isTraversable_def ownerCollapsed_def isCorridorRef_def hitOf_def mkHit_def
          ownerOf_def surfaceDistance_def group.defs split: if_splits)
  next
    case (CorridorRef i)
    with r show ?thesis
      unfolding allHits_def set_append Un_iff in_groupHits
      by (intro disjI2 exI[of _ i] exI[of _ j])
        (simp add: isTraversable_def ownerCollapsed_def isCorridorRef_def hitOf_def mkHit_def
          ownerOf_def surfaceDistance_def group.defs split: if_splits)
  qed
qed

lemma hitOf_simps [simp]:
  "hitRef (hitOf s ref) = ref" "hitDistance (hitOf s ref) = surfaceDistance s ref"
  by (simp_all add: hitOf_def Let_def)

lemma scanSurfaces_Some:
  assumes "scanSurfaces s = Some h"
  shows "h = hitOf s (hitRef h) \<and> qualifies s (hitRef h) \<and>
         (\<forall>ref. qualifies s ref \<longrightarrow> hitDistance h \<le> surfaceDistance s ref)"
proof -
  from assms have f: "fold pick (allHits True s) None = Some h"
    by (simp add: scanSurfaces_pick)
  from fold_pick_Some[OF f] have mem: "h \<in> set (allHits True s)" and lt: "hitDistance h < 10"
    and least: "\<forall>h'\<in>set (allHits True s). hitDistance h' < 10 \<longrightarrow> hitDistance h \<le> hitDistance h'"
    by auto
  from mem obtain ref where ref: "isTraversable s ref" "\<not> ownerCollapsed s ref" "h = hitOf s ref"
    unfolding in_allHits by (auto split: if_splits)
  have "hitDistance h \<le> surfaceDistance s ref'" if q: "qualifies s ref'" for ref'
  proof -
    from q have "hitOf s ref' \<in> set (allHits True s)"
      unfolding in_allHits qualifies_def by (intro exI[of _ ref']) simp
    with least q show ?thesis by (auto simp: qualifies_def)
  qed
  with ref lt show ?thesis by (simp add: qualifies_def)
qed

lemma scanSurfaces_None:
  "scanSurfaces s = None \<longleftrightarrow> (\<forall>ref. \<not> qualifies s ref)"
proof -
  have "(\<forall>h\<in>set (allHits True s). \<not> hitDistance h < 10) \<longleftrightarrow> (\<forall>ref. \<not> qualifies s ref)"
  proof (intro iffI allI ballI notI)
    fix ref
    assume a: "\<forall>h\<in>set (allHits True s). \<not> hitDistance h < 10" and q: "qualifies s ref"
    from q have "hitOf s ref \<in> set (allHits True s)"
      unfolding in_allHits qualifies_def by (intro exI[of _ ref]) simp
    with a q show False by (auto simp: qualifies_def)
  next
    fix h
    assume a: "\<forall>ref. \<not> qualifies s ref" and mem: "h \<in> set (allHits True s)"
      and lt: "hitDistance h < 10"
    from mem obtain ref where "isTraversable s ref" "\<not> ownerCollapsed s ref" "h = hitOf s ref"
      unfolding in_allHits by (auto split: if_splits)
    with lt have "qualifies s ref" by (simp add: qualifies_def)
    with a show False by blast
  qed
  then show ?thesis by (simp add: scanSurfaces_pick fold_pick_None)
qed

lemma scanSurfaces_grid_Some:
  assumes "scanSurfaces_grid s = Some h"
  shows "h = hitOf s (hitRef h) \<and> qualifies_grid s (hitRef h) \<and>
         (\<forall>ref. qualifies_grid s ref \<longrightarrow> hitDistance h \<le> surfaceDistance s ref)"
proof -
  from assms have f: "fold pick (allHits False s) None = Some h"
    by (simp add: scanSurfaces_grid_pick)
  from fold_pick_Some[OF f] have mem: "h \<in> set (allHits False s)" and lt: "hitDistance h < 10"
    and least: "\<forall>h'\<in>set (allHits False s). hitDistance h' < 10 \<longrightarrow> hitDistance h \<le> hitDistance h'"
    by auto
  from mem obtain ref where ref: "isTraversable s ref" "isCorridorRef ref \<or> \<not> ownerCollapsed s ref" "h = hitOf s ref"
    unfolding in_allHits by (auto split: if_splits)
  have "hitDistance h \<le> surfaceDistance s ref'" if q: "qualifies_grid s ref'" for ref'
  proof -
    from q have "hitOf s ref' \<in> set (allHits False s)"
      unfolding in_allHits qualifies_grid_def by (intro exI[of _ ref']) auto
    with least q show ?thesis by (auto simp: qualifies_grid_def)
  qed
  with ref lt show ?thesis by (simp add: qualifies_grid_def)
qed

lemma scanSurfaces_grid_None:
  "scanSurfaces_grid s = None \<longleftrightarrow> (\<forall>ref. \<not> qualifies_grid s ref)"
proof -
  have "(\<forall>h\<in>set (allHits False s). \<not> hitDistance h < 10) \<longleftrightarrow> (\<forall>ref. \<not> qualifies_grid s ref)"
  proof (intro iffI allI ballI notI)
    fix ref
    assume a: "\<forall>h\<in>set (allHits False s). \<not> hitDistance h < 10" and q: "qualifies_grid s ref"
    from q have "hitOf s ref \<in> set (allHits False s)"
      unfolding in_allHits qualifies_grid_def by (intro exI[of _ ref]) auto
    with a q show False by (auto simp: qualifies_grid_def)
  next
    fix h
    assume a: "\<forall>ref. \<not> qualifies_grid s ref" and mem: "h \<in> set (allHits False s)"
      and lt: "hitDistance h < 10"
    from mem obtain ref where "isTraversable s ref" "isCorridorRef ref \<or> \<not> ownerCollapsed s ref"
        "h = hitOf s ref"
      unfolding in_allHits by (auto split: if_splits)
    with lt have "qualifies_grid s ref" by (simp add: qualifies_grid_def)
    with a show False by blast
  qed
  then show ?thesis by (simp add: scanSurfaces_grid_pick fold_pick_None)
qed

lemma currentSurface_snapToSurface:
  "currentSurface (snapToSurface nearest p) = map_option hitRef nearest"
  by (simp add: snapToSurface_def Let_def split: option.splits)

lemma currentSurface_findNearestSurface:
  "currentSurface (player (findNearestSurface s)) = map_option hitRef (scanSurfaces s)"
  "currentSurface (player (findNearestSurface_grid s)) = map_option hitRef (scanSurfaces_grid s)"
  by (simp_all add: findNearestSurface_def findNearestSurface_grid_def currentSurface_snapToSurface)

lemma sqrt_less_10 [simp]: "sqrt x < 10 \<longleftrightarrow> x < 100"
proof -
  have "sqrt 100 = 10" using real_sqrt_abs[of 10] by simp
  then show ?thesis using real_sqrt_less_iff[of x 100] by simp
qed

lemma sqrt_less_3 [simp]: "sqrt x < 3 \<longleftrightarrow> x < 9"
proof -
  have "sqrt 9 = 3" using real_sqrt_abs[of 3] by simp
  then show ?thesis using real_sqrt_less_iff[of x 9] by simp
qed

lemmas scan_eval =
  scanSurfaces_def scanSurfaces_grid_def scanGroups_def considerGroup_def considerChild_def
  lessThanNearest_def getWorldPosition_def distanceTo_def distanceToSquared_def vadd_def
  intactRoom_def floorMesh_def Let_def snapToSurface_def multiplyScalar_def

lemma snapToSurface_Some:
  "snapToSurface (Some h) p =
     (if hitDistance h < 3
      then p\<lparr>currentSurface := Some (hitRef h),
             meshPosition := vadd (getWorldPosition (hitOwnerPosition h) (hitMesh h))
                                  (multiplyScalar (normal (hitMesh h)) 1),
             gravity := multiplyScalar (normal (hitMesh h)) (-20),
             isJumping := isJumping p \<and> \<not> vy (velocity p) < 0\<rparr>
      else p\<lparr>currentSurface := Some (hitRef h)\<rparr>)"
  by (cases "isJumping p") (simp_all add: snapToSurface_def Let_def)

lemma snapToSurface_None: "snapToSurface None p = p\<lparr>currentSurface := None\<rparr>"
  by (simp add: snapToSurface_def)

lemma hitOf_surface:
  assumes "isTraversable s ref"
  shows "getWorldPosition (hitOwnerPosition (hitOf s ref)) (hitMesh (hitOf s ref)) =
           surfaceWorldPosition s ref"
    and "normal (hitMesh (hitOf s ref)) = surfaceNormal s ref"
  using assms
  by (auto simp: isTraversable_def hitOf_def surfaceWorldPosition_def surfaceNormal_def Let_def
      split: option.splits)

lemma sqrt_25_4: "sqrt (9 / 4) = 3 / 2"
  using real_sqrt_abs[of "3/2"] by (simp add: power2_eq_square)

lemma sqrt_25: "sqrt 25 = 5"
  using real_sqrt_abs[of 5] by simp

section \<open>The collapse state machine: invariants\<close>

lemma map_fold_list_update:
  assumes "\<And>x. g (f x) = g x"
  shows "map g (fold (\<lambda>i xs. xs[i := f (xs ! i)]) js xs) = map g xs"
proof (induction js arbitrary: xs)
  case Nil
  then show ?case by simp
next
  case (Cons j js)
  have "map g (xs[j := f (xs ! j)]) = map g xs"
  proof (cases "j < length xs")
    case True
    then have "(map g xs)[j := g (xs ! j)] = map g xs"
      by (metis list_update_id nth_map)
    then show ?thesis by (simp add: map_update assms)
  next
    case False
    then have "xs[j := f (xs ! j)] = xs" by (intro list_update_beyond) simp
    then show ?thesis by simp
  qed
  with Cons.IH[of "xs[j := f (xs ! j)]"] show ?case by simp
qed

lemma roomView_driftGroup [simp]: "roomView (driftGroup off r) = roomView r"
  by (simp add: roomView_def driftGroup_def Let_def)

lemma corridorView_driftGroup [simp]: "corridorView (driftGroup off c) = corridorView c"
  by (simp add: corridorView_def driftGroup_def Let_def)

lemma roomView_updateCollapsingRoom [simp]: "roomView (updateCollapsingRoom now r) = roomView r"
  by (auto simp add: roomView_def updateCollapsingRoom_def Let_def)

lemma roomView_updateCollapsingRoom_grid [simp]:
  "roomView (updateCollapsingRoom_grid now r) = roomView r"
  by (auto simp add: roomView_def updateCollapsingRoom_grid_def Let_def)

lemma corridorView_updateCollapsingCorridor [simp]:
  "corridorView (updateCollapsingCorridor now c) = corridorView c"
  by (auto simp add: corridorView_def updateCollapsingCorridor_def Let_def)

lemma collapseView_startGame [simp]: "collapseView (startGame now s) = collapseView s"
  by (simp add: collapseView_def startGame_def)

lemma collapseView_updateMapMovement [simp]:
  "collapseView (updateMapMovement dt now s) = collapseView s"
  by (simp add: collapseView_def updateMapMovement_def Let_def comp_def)

lemma endGame_level [simp]:
  "rooms (endGame w m s) = rooms s"
  "corridors (endGame w m s) = corridors s"
  "collapsedRooms (endGame w m s) = collapsedRooms s"
  "collapsedCorridors (endGame w m s) = collapsedCorridors s"
  "debrisParticles (endGame w m s) = debrisParticles s"
  by (simp_all add: endGame_def)

lemma checkCollisions_keeps:
  assumes "\<And>i s. P (collectCore i s) = P s" and "\<And>w m s. P (endGame w m s) = P s"
  shows "P (checkCollisions s) = P s"
proof -
  have "P (fold (checkCore collectCore) is s) = P s" for "is"
    by (rule fold_checkCore_keeps) (rule assms(1))
  then show ?thesis by (simp add: checkCollisions_def Let_def assms(2) split: option.splits)
qed

lemma checkCollisions_grid_keeps:
  assumes "\<And>i s. P (collectCore_grid i s) = P s" and "\<And>w m s. P (endGame w m s) = P s"
  shows "P (checkCollisions_grid s) = P s"
proof -
  have "P (fold (checkCore collectCore_grid) is s) = P s" for "is"
    by (rule fold_checkCore_keeps) (rule assms(1))
  then show ?thesis by (simp add: checkCollisions_grid_def Let_def assms(2) split: option.splits)
qed

lemma checkCollisions_level [simp]:
  "rooms (checkCollisions s) = rooms s"
  "corridors (checkCollisions s) = corridors s"
  "collapsedRooms (checkCollisions s) = collapsedRooms s"
  "collapsedCorridors (checkCollisions s) = collapsedCorridors s"
  "debrisParticles (checkCollisions s) = debrisParticles s"
  by (rule checkCollisions_keeps; simp add: collectCore_def)+

lemma checkCollisions_grid_level [simp]:
  "rooms (checkCollisions_grid s) = rooms s"
  "corridors (checkCollisions_grid s) = corridors s"
  "collapsedRooms (checkCollisions_grid s) = collapsedRooms s"
  "collapsedCorridors (checkCollisions_grid s) = collapsedCorridors s"
  "debrisParticles (checkCollisions_grid s) = debrisParticles s"
  by (rule checkCollisions_grid_keeps; simp add: collectCore_grid_def)+

lemma updatePlayer_level [simp]:
  "rooms (updatePlayer dt inp s) = rooms s"
  "corridors (updatePlayer dt inp s) = corridors s"
  "collapsedRooms (updatePlayer dt inp s) = collapsedRooms s"
  "collapsedCorridors (updatePlayer dt inp s) = collapsedCorridors s"
  "debrisParticles (updatePlayer dt inp s) = debrisParticles s"
  by (simp_all add: updatePlayer_def findNearestSurface_def Let_def)

lemma updatePlayer_grid_level [simp]:
  "rooms (updatePlayer_grid dt inp s) = rooms s"
  "corridors (updatePlayer_grid dt inp s) = corridors s"
  "collapsedRooms (updatePlayer_grid dt inp s) = collapsedRooms s"
  "collapsedCorridors (updatePlayer_grid dt inp s) = collapsedCorridors s"
  "debrisParticles (updatePlayer_grid dt inp s) = debrisParticles s"
  by (simp_all add: updatePlayer_grid_def findNearestSurface_grid_def Let_def)

lemma collapseView_updatePlayer [simp]: "collapseView (updatePlayer dt inp s) = collapseView s"
  and collapseView_updatePlayer_grid [simp]:
    "collapseView (updatePlayer_grid dt inp s) = collapseView s"
  by (simp_all add: collapseView_def)

lemma collapseView_updateCollapsingRooms [simp]:
  "collapseView (updateCollapsingRooms now s) = collapseView s"
  by (simp add: collapseView_def updateCollapsingRooms_def map_fold_list_update)

lemma collapseView_updateCollapsingRooms_grid [simp]:
  "collapseView (updateCollapsingRooms_grid now s) = collapseView s"
  by (simp add: collapseView_def updateCollapsingRooms_grid_def map_fold_list_update)

lemma collapseView_updateCollapsingCorridors [simp]:
  "collapseView (updateCollapsingCorridors now s) = collapseView s"
  by (simp add: collapseView_def updateCollapsingCorridors_def map_fold_list_update)

lemma collapseView_updateDebrisParticles [simp]:
  "collapseView (updateDebrisParticles dt now s) = collapseView s"
  by (simp add: collapseView_def updateDebrisParticles_def)

lemma collapseView_spawnParticle [simp]:
  "collapseView (spawnParticle pos now rnd s) = collapseView s"
  by (simp add: collapseView_def spawnParticle_def Let_def)

lemma collapseView_createDebrisEffect [simp]:
  "collapseView (createDebrisEffect pos now rnd s) = collapseView s"
proof -
  have "collapseView (fold (\<lambda>i. spawnParticle pos now rnd) js s) = collapseView s"
    for js :: "nat list" and s
    by (induction js arbitrary: s) simp_all
  moreover have "collapseView (s\<lparr>randomDraws := n\<rparr>) = collapseView s" for n
    by (simp add: collapseView_def)
  ultimately show ?thesis by (simp add: createDebrisEffect_def Let_def)
qed

lemma collapseView_dataCores_update [simp]:
  "collapseView (s\<lparr>dataCores := cs\<rparr>) = collapseView s"
  "collapseView (s\<lparr>lastCollapseTime := t\<rparr>) = collapseView s"
  by (simp_all add: collapseView_def)

lemma forEach_invariant:
  assumes "forEach body xs s = Inr s'" and "P s"
    and "\<And>x t t'. P t \<Longrightarrow> body x t = Inr t' \<Longrightarrow> P t'"
  shows "P s'"
  using assms(1,2)
proof (induction xs arbitrary: s)
  case Nil
  then show ?case by simp
next
  case (Cons x xs)
  then show ?case by (auto split: sum.splits intro: assms(3))
qed

lemma collapseView_eqD:
  assumes "collapseView s' = collapseView s"
  shows "length (rooms s') = length (rooms s)"
    and "i < length (rooms s) \<Longrightarrow> roomView (rooms s' ! i) = roomView (rooms s ! i)"
    and "c' \<in> set (corridors s') \<Longrightarrow> \<exists>c\<in>set (corridors s). corridorView c' = corridorView c"
    and "r' \<in> set (rooms s') \<Longrightarrow> \<exists>r\<in>set (rooms s). roomView r' = roomView r"
proof -
  from assms have r: "map roomView (rooms s') = map roomView (rooms s)"
    and c: "map corridorView (corridors s') = map corridorView (corridors s)"
    by (simp_all add: collapseView_def)
  from r show len: "length (rooms s') = length (rooms s)" by (rule map_eq_imp_length_eq)
  show "roomView (rooms s' ! i) = roomView (rooms s ! i)" if "i < length (rooms s)"
    using that len r by (metis nth_map)
  show "\<exists>c\<in>set (corridors s). corridorView c' = corridorView c" if "c' \<in> set (corridors s')"
  proof -
    from that have "corridorView c' \<in> set (map corridorView (corridors s'))" by simp
    with c show ?thesis by auto
  qed
  show "\<exists>r\<in>set (rooms s). roomView r' = roomView r" if "r' \<in> set (rooms s')"
  proof -
    from that have "roomView r' \<in> set (map roomView (rooms s'))" by simp
    with r show ?thesis by auto
  qed
qed

lemma corridorsDerived_cong:
  assumes v: "collapseView s' = collapseView s" and d: "corridorsDerived s"
  shows "corridorsDerived s'"
  unfolding corridorsDerived_def
proof (intro ballI impI)
  fix c'
  assume c': "c' \<in> set (corridors s')" and col: "isCollapsed c' \<or> collapsePhase c' \<noteq> None"
  from collapseView_eqD(3)[OF v c'] obtain c where c: "c \<in> set (corridors s)"
    and cv: "corridorView c' = corridorView c" by blast
  from cv col have col': "isCollapsed c \<or> collapsePhase c \<noteq> None"
    and cr: "connectedRooms c' = connectedRooms c"
    by (auto simp: corridorView_def)
  from d c col' have a: "fst (connectedRooms c) < length (rooms s)"
    and b: "snd (connectedRooms c) < length (rooms s)"
    and ab: "isCollapsed (rooms s ! fst (connectedRooms c)) \<or>
             isCollapsed (rooms s ! snd (connectedRooms c))"
    unfolding corridorsDerived_def by blast+
  from collapseView_eqD(2)[OF v a] collapseView_eqD(2)[OF v b] ab
  have "isCollapsed (rooms s' ! fst (connectedRooms c)) \<or>
        isCollapsed (rooms s' ! snd (connectedRooms c))"
    by (simp add: roomView_def)
  with a b cr collapseView_eqD(1)[OF v]
  show "fst (connectedRooms c') < length (rooms s') \<and> snd (connectedRooms c') < length (rooms s') \<and>
        (isCollapsed (rooms s' ! fst (connectedRooms c')) \<or>
         isCollapsed (rooms s' ! snd (connectedRooms c')))"
    by simp
qed

lemma startRoomIntact_cong:
  assumes v: "collapseView s' = collapseView s" and d: "startRoomIntact s"
  shows "startRoomIntact s'"
  unfolding startRoomIntact_def
proof (intro ballI impI)
  fix r'
  assume r': "r' \<in> set (rooms s')" and z: "index r' = 0"
  from collapseView_eqD(4)[OF v r'] obtain r where "r \<in> set (rooms s)" "roomView r' = roomView r"
    by blast
  with d z show "\<not> isCollapsed r' \<and> collapsePhase r' = None"
    by (auto simp: startRoomIntact_def roomView_def)
qed

lemma collapseCorridorAt_derived:
  assumes "collapseCorridorAt roomIndex now rnd i s = Inr s'" and "corridorsDerived s"
  shows "corridorsDerived s'"
proof (cases "s' = s")
  case True
  with assms show ?thesis by simp
next
  case False
  define c where "c = corridors s ! i"
  define c' where "c' = c\<lparr>isCollapsed := True, collapseStartTime := now, collapsePhase := Some Shake,
     rotationVelocity := Vector3 ((rnd (randomDraws s) - 0.5) * 0.06)
        ((rnd (randomDraws s + 1) - 0.5) * 0.03) ((rnd (randomDraws s + 2) - 0.5) * 0.06)\<rparr>"
  from assms(1) False have
    a: "fst (connectedRooms c) < length (rooms s)" and b: "snd (connectedRooms c) < length (rooms s)"
    and ab: "isCollapsed (rooms s ! fst (connectedRooms c)) \<or> isCollapsed (rooms s ! snd (connectedRooms c))"
    and s': "s' = s\<lparr>corridors := (corridors s)[i := c'], collapsedCorridors := collapsedCorridors s @ [i],
                    randomDraws := randomDraws s + 3\<rparr>"
    unfolding c_def c'_def
    by (auto simp: collapseCorridorAt_def Let_def split: if_splits)
  show ?thesis
    unfolding corridorsDerived_def
  proof (intro ballI impI)
    fix x
    assume "x \<in> set (corridors s')" and col: "isCollapsed x \<or> collapsePhase x \<noteq> None"
    then have "x = c' \<or> x \<in> set (corridors s)"
      using set_update_subset_insert[of "corridors s" i c'] by (auto simp: s')
    then show "fst (connectedRooms x) < length (rooms s') \<and> snd (connectedRooms x) < length (rooms s') \<and>
        (isCollapsed (rooms s' ! fst (connectedRooms x)) \<or> isCollapsed (rooms s' ! snd (connectedRooms x)))"
    proof
      assume "x = c'"
      with a b ab show ?thesis by (simp add: s' c'_def)
    next
      assume "x \<in> set (corridors s)"
      with assms(2) col show ?thesis unfolding corridorsDerived_def by (auto simp: s')
    qed
  qed
qed

lemma collapseCorridorAt_rooms:
  "collapseCorridorAt roomIndex now rnd i s = Inr s' \<Longrightarrow> rooms s' = rooms s"
  by (auto simp: collapseCorridorAt_def Let_def split: if_splits)

lemma collapseConnectedCorridors_derived:
  assumes "collapseConnectedCorridors roomIndex now rnd s = Inr s'" and "corridorsDerived s"
  shows "corridorsDerived s'"
  using assms unfolding collapseConnectedCorridors_def
  by (rule forEach_invariant) (rule collapseCorridorAt_derived)

lemma collapseConnectedCorridors_rooms:
  assumes "collapseConnectedCorridors roomIndex now rnd s = Inr s'"
  shows "rooms s' = rooms s"
proof -
  have "rooms s' = rooms s \<and> True"
    using assms unfolding collapseConnectedCorridors_def
    by (rule forEach_invariant[where P="\<lambda>t. rooms t = rooms s \<and> True"])
      (auto dest: collapseCorridorAt_rooms)
  then show ?thesis by simp
qed

lemma corridorsDerived_room_collapses:
  assumes d: "corridorsDerived s" and r: "isCollapsed r"
  shows "corridorsDerived (s\<lparr>rooms := (rooms s)[i := r], collapsedRooms := cr, randomDraws := n\<rparr>)"
  unfolding corridorsDerived_def
proof (intro ballI impI)
  fix c
  let ?s' = "s\<lparr>rooms := (rooms s)[i := r], collapsedRooms := cr, randomDraws := n\<rparr>"
  assume "c \<in> set (corridors ?s')" and "isCollapsed c \<or> collapsePhase c \<noteq> None"
  with d have a: "fst (connectedRooms c) < length (rooms s)"
    and b: "snd (connectedRooms c) < length (rooms s)"
    and ab: "isCollapsed (rooms s ! fst (connectedRooms c)) \<or>
             isCollapsed (rooms s ! snd (connectedRooms c))"
    unfolding corridorsDerived_def by auto
  from a b ab r
  show "fst (connectedRooms c) < length (rooms ?s') \<and> snd (connectedRooms c) < length (rooms ?s') \<and>
        (isCollapsed (rooms ?s' ! fst (connectedRooms c)) \<or>
         isCollapsed (rooms ?s' ! snd (connectedRooms c)))"
    by (cases "i < length (rooms s)") (auto simp: nth_list_update)
qed

lemma startRoomIntact_other_room:
  assumes d: "startRoomIntact s" and r: "index r \<noteq> 0"
  shows "startRoomIntact (s\<lparr>rooms := (rooms s)[i := r], collapsedRooms := cr, randomDraws := n\<rparr>)"
  unfolding startRoomIntact_def
proof (intro ballI impI)
  fix x
  assume "x \<in> set (rooms (s\<lparr>rooms := (rooms s)[i := r], collapsedRooms := cr, randomDraws := n\<rparr>))"
    and z: "index x = 0"
  then have "x = r \<or> x \<in> set (rooms s)"
    using set_update_subset_insert[of "rooms s" i r] by auto
  with r z d show "\<not> isCollapsed x \<and> collapsePhase x = None"
    by (auto simp: startRoomIntact_def)
qed

lemma startRoomIntact_rooms_eq:
  "rooms s' = rooms s \<Longrightarrow> startRoomIntact s \<Longrightarrow> startRoomIntact s'"
  by (simp add: startRoomIntact_def)

lemma collapseRoomAt_invariants:
  assumes step: "collapseRoomAt threshold now rnd i s = Inr s'"
    and inv: "corridorsDerived s \<and> startRoomIntact s"
  shows "corridorsDerived s' \<and> startRoomIntact s'"
proof (cases "s' = s")
  case True
  with inv show ?thesis by simp
next
  case False
  define r where "r = (rooms s ! i)\<lparr>isCollapsed := True, collapseStartTime := now,
      collapsePhase := Some Shake,
      rotationVelocity := Vector3 ((rnd (randomDraws s) - 0.5) * 0.04)
        ((rnd (randomDraws s + 1) - 0.5) * 0.02) ((rnd (randomDraws s + 2) - 0.5) * 0.04)\<rparr>"
  define s1 where "s1 = s\<lparr>rooms := (rooms s)[i := r], collapsedRooms := collapsedRooms s @ [i],
      randomDraws := randomDraws s + 3\<rparr>"
  define s2 where "s2 = createDebrisEffect (position r) now rnd s1"
  from step False have pos: "index (rooms s ! i) > 0"
    and cc: "collapseConnectedCorridors (index (rooms s ! i)) now rnd s2 = Inr s'"
    unfolding s2_def s1_def r_def
    by (auto simp: collapseRoomAt_def Let_def split: if_splits)
  have "isCollapsed r" and "index r \<noteq> 0" using pos by (simp_all add: r_def)
  with inv have "corridorsDerived s1" and i1: "startRoomIntact s1"
    unfolding s1_def
    by (simp_all add: corridorsDerived_room_collapses startRoomIntact_other_room)
  then have "corridorsDerived s2" and i2: "startRoomIntact s2"
    unfolding s2_def
    by (simp_all add: corridorsDerived_cong[of _ s1] startRoomIntact_cong[of _ s1])
  with cc show ?thesis
    by (auto intro: collapseConnectedCorridors_derived
        startRoomIntact_rooms_eq[OF collapseConnectedCorridors_rooms])
qed

lemma collapseRoomsBehindPlayer_invariants:
  assumes "collapseRoomsBehindPlayer now rnd s = Inr s'"
    and "corridorsDerived s \<and> startRoomIntact s"
  shows "corridorsDerived s' \<and> startRoomIntact s'"
  using assms unfolding collapseRoomsBehindPlayer_def Let_def
  by (rule forEach_invariant) (rule collapseRoomAt_invariants)

lemma animate_invariants:
  assumes step: "animate dt now rnd inp s = Inr s'"
    and inv: "corridorsDerived s \<and> startRoomIntact s"
  shows "corridorsDerived s' \<and> startRoomIntact s'"
proof (cases "gameActive s")
  case False
  with step inv show ?thesis by (simp add: animate_def)
next
  case True
  define s3 where "s3 = (let s2 = updatePlayer dt inp (updateMapMovement dt now s)
     in s2\<lparr>dataCores := map (animateCore now (offset (mapDrift s2))) (dataCores s2)\<rparr>)"
  have v3: "collapseView s3 = collapseView s" by (simp add: s3_def Let_def)
  from step True obtain s4 where s4: "collapseRoomsBehindPlayer now rnd s3 = Inr s4"
    and s': "s' = updateDebrisParticles dt now
                    (updateCollapsingCorridors now (updateCollapsingRooms now s4))"
    unfolding s3_def by (auto simp: animate_def Let_def split: sum.splits)
  from inv v3 have "corridorsDerived s3 \<and> startRoomIntact s3"
    by (auto intro: corridorsDerived_cong startRoomIntact_cong)
  with s4 have "corridorsDerived s4 \<and> startRoomIntact s4"
    by (rule collapseRoomsBehindPlayer_invariants)
  moreover have "collapseView s' = collapseView s4" by (simp add: s')
  ultimately show ?thesis
    by (auto intro: corridorsDerived_cong startRoomIntact_cong)
qed

lemma freshLevel_invariants:
  assumes "freshLevel s"
  shows "corridorsDerived s \<and> startRoomIntact s"
  using assms
  by (auto simp: freshLevel_def corridorsDerived_def startRoomIntact_def list_all_iff)

lemma reachable_invariants:
  "reachable s \<Longrightarrow> corridorsDerived s \<and> startRoomIntact s"
proof (induction rule: reachable.induct)
  case (generated s)
  then show ?case by (rule freshLevel_invariants)
next
  case (click s now)
  then show ?case
    by (auto intro: corridorsDerived_cong[of _ s] startRoomIntact_cong[of _ s])
next
  case (frame s deltaTime now rnd inp s')
  from frame.hyps(2) frame.IH show ?case by (rule animate_invariants)
qed

lemma collapseRandomRoom_invariants:
  assumes step: "collapseRandomRoom now rnd s = Inr s'"
    and inv: "startRoomIntact s"
  shows "startRoomIntact s' \<and> corridors s' = corridors s"
proof (cases "s' = s")
  case True
  with inv show ?thesis by simp
next
  case False
  define avail where "avail = filter (\<lambda>i. \<not> isCollapsed (rooms s ! i) \<and> index (rooms s ! i) \<noteq> 0)
              [0..<length (rooms s)]"
  define k where "k = nat \<lfloor>rnd (randomDraws s) * real (length avail)\<rfloor>"
  define r where "r = (rooms s ! (avail ! k))\<lparr>isCollapsed := True, collapseStartTime := now,
      collapsePhase := Some Shake\<rparr>"
  from step False have k: "k < length avail"
    and s': "s' = s\<lparr>randomDraws := randomDraws s + 1, rooms := (rooms s)[avail ! k := r],
                    collapsedRooms := collapsedRooms s @ [avail ! k]\<rparr>"
    unfolding r_def k_def avail_def
    by (auto simp: collapseRandomRoom_def Let_def split: if_splits)
  from k have "avail ! k \<in> set avail" by simp
  then have "index (rooms s ! (avail ! k)) \<noteq> 0" by (simp add: avail_def)
  then have "index r \<noteq> 0" by (simp add: r_def)
  from startRoomIntact_other_room[OF inv this, where i = "avail ! k"
      and cr = "collapsedRooms s @ [avail ! k]" and n = "randomDraws s + 1"]
  have "startRoomIntact s'"
    by (simp add: s' startRoomIntact_def)
  then show ?thesis by (simp add: s')
qed

lemma animate_grid_invariants:
  assumes step: "animate_grid dt now rnd inp s = Inr s'"
    and inv: "startRoomIntact s"
  shows "startRoomIntact s' \<and> corridors s' = corridors s"
proof (cases "gameActive s")
  case False
  with step inv show ?thesis by (simp add: animate_grid_def)
next
  case True
  define s2 where "s2 = (let s1 = updatePlayer_grid dt inp s
     in s1\<lparr>dataCores := map (animateCore_grid now) (dataCores s1)\<rparr>)"
  have v2: "collapseView s2 = collapseView s" and c2: "corridors s2 = corridors s"
    by (simp_all add: s2_def Let_def)
  from inv v2 have i2: "startRoomIntact s2" by (auto intro: startRoomIntact_cong)
  show ?thesis
  proof (cases "now - lastCollapseTime s2 > collapseInterval s2")
    case False
    with step True have s': "s' = updateCollapsingRooms_grid now s2"
      unfolding s2_def by (auto simp: animate_grid_def Let_def)
    then have "collapseView s' = collapseView s2" by simp
    with i2 c2 s' show ?thesis
      by (auto intro: startRoomIntact_cong simp: updateCollapsingRooms_grid_def)
  next
    case c: True
    with step True obtain s3 where s3: "collapseRandomRoom now rnd s2 = Inr s3"
      and s': "s' = updateCollapsingRooms_grid now (s3\<lparr>lastCollapseTime := now\<rparr>)"
      unfolding s2_def by (auto simp: animate_grid_def Let_def split: sum.splits)
    from collapseRandomRoom_invariants[OF s3 i2]
    have i3: "startRoomIntact s3" and c3: "corridors s3 = corridors s2" by simp_all
    have "collapseView s' = collapseView s3" by (simp add: s')
    with i3 c3 c2 s' show ?thesis
      by (auto intro: startRoomIntact_cong simp: updateCollapsingRooms_grid_def)
  qed
qed

lemma reachable_grid_invariants:
  "reachable_grid s \<Longrightarrow> startRoomIntact s \<and> corridorsIntact s"
proof (induction rule: reachable_grid.induct)
  case (generated_grid s)
  then show ?case
    by (auto simp: freshLevel_def corridorsIntact_def startRoomIntact_def list_all_iff)
next
  case (click_grid s now)
  then have "startRoomIntact (startGame now s)"
    by (auto intro: startRoomIntact_cong[of _ s])
  moreover have "corridors (startGame now s) = corridors s"
    by (simp add: startGame_def)
  ultimately show ?case using click_grid.IH by (simp add: corridorsIntact_def)
next
  case (frame_grid s deltaTime now rnd inp s')
  from animate_grid_invariants[OF frame_grid.hyps(2)] frame_grid.IH show ?case
    by (simp add: corridorsIntact_def)
qed

lemma collapseView_eqD2:
  assumes "collapseView s' = collapseView s"
  shows "length (corridors s') = length (corridors s)"
    and "i < length (corridors s) \<Longrightarrow> corridorView (corridors s' ! i) = corridorView (corridors s ! i)"
    and "collapsedRooms s' = collapsedRooms s"
    and "collapsedCorridors s' = collapsedCorridors s"
proof -
  from assms have c: "map corridorView (corridors s') = map corridorView (corridors s)"
    and l: "collapsedRooms s' = collapsedRooms s" "collapsedCorridors s' = collapsedCorridors s"
    by (simp_all add: collapseView_def)
  from c show len: "length (corridors s') = length (corridors s)" by (rule map_eq_imp_length_eq)
  show "corridorView (corridors s' ! i) = corridorView (corridors s ! i)" if "i < length (corridors s)"
    using that len c by (metis nth_map)
  from l show "collapsedRooms s' = collapsedRooms s" "collapsedCorridors s' = collapsedCorridors s"
    by simp_all
qed

lemma listsOk_cong:
  assumes v: "collapseView s' = collapseView s" and d: "listsOk s"
  shows "listsOk s'"
proof -
  have r: "i < length (rooms s') \<and> isCollapsed (rooms s' ! i) \<longleftrightarrow>
           i < length (rooms s) \<and> isCollapsed (rooms s ! i)" for i
    using collapseView_eqD(1)[OF v] collapseView_eqD(2)[OF v, of i]
    by (auto simp: roomView_def)
  have c: "i < length (corridors s') \<and> isCollapsed (corridors s' ! i) \<longleftrightarrow>
           i < length (corridors s) \<and> isCollapsed (corridors s ! i)" for i
    using collapseView_eqD2(1)[OF v] collapseView_eqD2(2)[OF v, of i]
    by (auto simp: corridorView_def)
  from d show ?thesis
    unfolding listsOk_def r c collapseView_eqD2(3)[OF v] collapseView_eqD2(4)[OF v] .
qed

lemma phasesOk_cong:
  assumes v: "collapseView s' = collapseView s" and d: "phasesOk s"
  shows "phasesOk s'"
  unfolding phasesOk_def
proof (intro conjI ballI)
  fix r'
  assume "r' \<in> set (rooms s')"
  from collapseView_eqD(4)[OF v this] obtain r where "r \<in> set (rooms s)" "roomView r' = roomView r"
    by blast
  with d show "isCollapsed r' \<longleftrightarrow> collapsePhase r' \<noteq> None"
    by (auto simp: phasesOk_def roomView_def)
next
  fix c'
  assume "c' \<in> set (corridors s')"
  from collapseView_eqD(3)[OF v this] obtain c where "c \<in> set (corridors s)"
    "corridorView c' = corridorView c"
    by blast
  with d show "isCollapsed c' \<longleftrightarrow> collapsePhase c' \<noteq> None"
    by (auto simp: phasesOk_def corridorView_def)
qed

lemma forEach_invariant_set:
  assumes "forEach body xs s = Inr s'" and "P s"
    and "\<And>x t t'. x \<in> set xs \<Longrightarrow> P t \<Longrightarrow> body x t = Inr t' \<Longrightarrow> P t'"
  shows "P s'"
  using assms
proof (induction xs arbitrary: s)
  case Nil
  then show ?case by simp
next
  case (Cons x xs)
  from Cons.prems(1) obtain t where t: "body x s = Inr t" and r: "forEach body xs t = Inr s'"
    by (auto split: sum.splits)
  from Cons.prems(3)[OF _ Cons.prems(2) t] have "P t" by simp
  show ?case
  proof (rule Cons.IH[OF r \<open>P t\<close>])
    fix y u u'
    assume "y \<in> set xs" "P u" "body y u = Inr u'"
    then show "P u'" using Cons.prems(3)[of y u u'] by simp
  qed
qed

lemma collapseCorridorAt_explicit:
  assumes "collapseCorridorAt roomIndex now rnd i s = Inr s'"
  shows "s' = s \<or>
         (\<not> isCollapsed (corridors s ! i) \<and>
          s' = s\<lparr>corridors := (corridors s)[i := (corridors s ! i)
                      \<lparr>isCollapsed := True, collapseStartTime := now, collapsePhase := Some Shake,
                       rotationVelocity :=
                         Vector3 ((rnd (randomDraws s) - 0.5) * 0.06)
                                 ((rnd (randomDraws s + 1) - 0.5) * 0.03)
                                 ((rnd (randomDraws s + 2) - 0.5) * 0.06)\<rparr>],
                 collapsedCorridors := collapsedCorridors s @ [i],
                 randomDraws := randomDraws s + 3\<rparr>)"
  using assms
  by (auto simp: collapseCorridorAt_def Let_def split: if_splits)

lemma collapseCorridorAt_cases:
  assumes "collapseCorridorAt roomIndex now rnd i s = Inr s'"
  shows "s' = s \<or>
         (\<not> isCollapsed (corridors s ! i) \<and>
          (\<exists>c'. isCollapsed c' \<and> collapsePhase c' = Some Shake \<and>
                s' = s\<lparr>corridors := (corridors s)[i := c'],
                       collapsedCorridors := collapsedCorridors s @ [i],
                       randomDraws := randomDraws s + 3\<rparr>))"
  using collapseCorridorAt_explicit[OF assms]
proof (elim disjE conjE)
  assume "s' = s"
  then show ?thesis by simp
next
  let ?c = "(corridors s ! i)
              \<lparr>isCollapsed := True, collapseStartTime := now, collapsePhase := Some Shake,
               rotationVelocity :=
                 Vector3 ((rnd (randomDraws s) - 0.5) * 0.06)
                         ((rnd (randomDraws s + 1) - 0.5) * 0.03)
                         ((rnd (randomDraws s + 2) - 0.5) * 0.06)\<rparr>"
  assume n: "\<not> isCollapsed (corridors s ! i)"
    and s': "s' = s\<lparr>corridors := (corridors s)[i := ?c],
                     collapsedCorridors := collapsedCorridors s @ [i],
                     randomDraws := randomDraws s + 3\<rparr>"
  have "isCollapsed ?c \<and> collapsePhase ?c = Some Shake" by simp
  with n s' show ?thesis by blast
qed

lemma list_update_collapsed_iff:
  assumes "i < length xs" and "\<not> isCollapsed (xs ! i)" and "isCollapsed x"
  shows "(j < length (xs[i := x]) \<and> isCollapsed (xs[i := x] ! j)) \<longleftrightarrow>
         (j = i \<or> (j < length xs \<and> isCollapsed (xs ! j)))"
  using assms by (auto simp: nth_list_update)

lemma listsOk_corridor_collapses:
  assumes ok: "listsOk s" and i: "i < length (corridors s)"
    and n: "\<not> isCollapsed (corridors s ! i)" and c: "isCollapsed c'"
  shows "listsOk (s\<lparr>corridors := (corridors s)[i := c'],
                   collapsedCorridors := collapsedCorridors s @ [i], randomDraws := k\<rparr>)"
proof -
  from ok n i have "i \<notin> set (collapsedCorridors s)" by (auto simp: listsOk_def)
  with ok show ?thesis
    unfolding listsOk_def
    by (simp add: list_update_collapsed_iff[OF i n c] del: length_list_update)
qed

lemma listsOk_room_collapses:
  assumes ok: "listsOk s" and i: "i < length (rooms s)"
    and n: "\<not> isCollapsed (rooms s ! i)" and c: "isCollapsed r"
  shows "listsOk (s\<lparr>rooms := (rooms s)[i := r],
                   collapsedRooms := collapsedRooms s @ [i], randomDraws := k\<rparr>)"
proof -
  from ok n i have "i \<notin> set (collapsedRooms s)" by (auto simp: listsOk_def)
  with ok show ?thesis
    unfolding listsOk_def
    by (simp add: list_update_collapsed_iff[OF i n c] del: length_list_update)
qed

lemma phasesOk_corridor_collapses:
  assumes ok: "phasesOk s" and c: "isCollapsed c'" "collapsePhase c' = Some Shake"
  shows "phasesOk (s\<lparr>corridors := (corridors s)[i := c'],
                   collapsedCorridors := cc, randomDraws := k\<rparr>)"
  unfolding phasesOk_def
proof (intro conjI ballI)
  fix r
  assume "r \<in> set (rooms (s\<lparr>corridors := (corridors s)[i := c'], collapsedCorridors := cc, randomDraws := k\<rparr>))"
  with ok show "isCollapsed r \<longleftrightarrow> collapsePhase r \<noteq> None" by (simp add: phasesOk_def)
next
  fix x
  assume "x \<in> set (corridors (s\<lparr>corridors := (corridors s)[i := c'], collapsedCorridors := cc, randomDraws := k\<rparr>))"
  then have "x = c' \<or> x \<in> set (corridors s)"
    using set_update_subset_insert[of "corridors s" i c'] by auto
  with ok c show "isCollapsed x \<longleftrightarrow> collapsePhase x \<noteq> None" by (auto simp: phasesOk_def)
qed

lemma phasesOk_room_collapses:
  assumes ok: "phasesOk s" and c: "isCollapsed r" "collapsePhase r = Some Shake"
  shows "phasesOk (s\<lparr>rooms := (rooms s)[i := r], collapsedRooms := cr, randomDraws := k\<rparr>)"
  unfolding phasesOk_def
proof (intro conjI ballI)
  fix x
  assume "x \<in> set (corridors (s\<lparr>rooms := (rooms s)[i := r], collapsedRooms := cr, randomDraws := k\<rparr>))"
  with ok show "isCollapsed x \<longleftrightarrow> collapsePhase x \<noteq> None" by (simp add: phasesOk_def)
next
  fix x
  assume "x \<in> set (rooms (s\<lparr>rooms := (rooms s)[i := r], collapsedRooms := cr, randomDraws := k\<rparr>))"
  then have "x = r \<or> x \<in> set (rooms s)"
    using set_update_subset_insert[of "rooms s" i r] by auto
  with ok c show "isCollapsed x \<longleftrightarrow> collapsePhase x \<noteq> None" by (auto simp: phasesOk_def)
qed

lemma collapseCorridorAt_lists:
  assumes step: "collapseCorridorAt roomIndex now rnd i s = Inr s'"
    and i: "i < n"
    and inv: "listsOk s \<and> phasesOk s \<and> length (corridors s) = n"
  shows "listsOk s' \<and> phasesOk s' \<and> length (corridors s') = n"
  using collapseCorridorAt_cases[OF step]
proof (elim disjE conjE exE)
  assume "s' = s"
  with inv show ?thesis by simp
next
  fix c'
  assume "\<not> isCollapsed (corridors s ! i)" "isCollapsed c'" "collapsePhase c' = Some Shake"
    and s': "s' = s\<lparr>corridors := (corridors s)[i := c'],
                     collapsedCorridors := collapsedCorridors s @ [i],
                     randomDraws := randomDraws s + 3\<rparr>"
  with inv i show ?thesis
    unfolding s'
    by (simp add: listsOk_corridor_collapses phasesOk_corridor_collapses)
qed

lemma collapseConnectedCorridors_lists:
  assumes step: "collapseConnectedCorridors roomIndex now rnd s = Inr s'"
    and inv: "listsOk s \<and> phasesOk s"
  shows "listsOk s' \<and> phasesOk s' \<and> length (corridors s') = length (corridors s)"
proof (rule forEach_invariant_set[OF step[unfolded collapseConnectedCorridors_def],
      where P = "\<lambda>t. listsOk t \<and> phasesOk t \<and> length (corridors t) = length (corridors s)"])
  from inv show "listsOk s \<and> phasesOk s \<and> length (corridors s) = length (corridors s)" by simp
next
  fix x t t'
  assume "x \<in> set [0..<length (corridors s)]"
    and "listsOk t \<and> phasesOk t \<and> length (corridors t) = length (corridors s)"
    and "collapseCorridorAt roomIndex now rnd x t = Inr t'"
  then show "listsOk t' \<and> phasesOk t' \<and> length (corridors t') = length (corridors s)"
    using collapseCorridorAt_lists[of roomIndex now rnd x t t' "length (corridors s)"] by simp
qed


lemma collapseRoomAt_explicit:
  assumes "collapseRoomAt threshold now rnd i s = Inr s'"
  shows "s' = s \<or>
         (\<not> isCollapsed (rooms s ! i) \<and>
          (\<exists>r. isCollapsed r \<and> collapsePhase r = Some Shake \<and>
               collapseConnectedCorridors (index (rooms s ! i)) now rnd
                 (createDebrisEffect (position r) now rnd
                    (s\<lparr>rooms := (rooms s)[i := r],
                       collapsedRooms := collapsedRooms s @ [i],
                       randomDraws := randomDraws s + 3\<rparr>)) = Inr s'))"
proof (cases "s' = s")
  case True
  then show ?thesis by simp
next
  case False
  let ?r = "(rooms s ! i)\<lparr>isCollapsed := True, collapseStartTime := now,
      collapsePhase := Some Shake,
      rotationVelocity := Vector3 ((rnd (randomDraws s) - 0.5) * 0.04)
        ((rnd (randomDraws s + 1) - 0.5) * 0.02) ((rnd (randomDraws s + 2) - 0.5) * 0.04)\<rparr>"
  from assms False have n: "\<not> isCollapsed (rooms s ! i)"
    and cc: "collapseConnectedCorridors (index (rooms s ! i)) now rnd
                 (createDebrisEffect (position ?r) now rnd
                    (s\<lparr>rooms := (rooms s)[i := ?r],
                       collapsedRooms := collapsedRooms s @ [i],
                       randomDraws := randomDraws s + 3\<rparr>)) = Inr s'"
    by (auto simp: collapseRoomAt_def Let_def split: if_splits)
  have "isCollapsed ?r \<and> collapsePhase ?r = Some Shake" by simp
  with n cc show ?thesis by blast
qed

lemma collapseConnectedCorridors_rooms_length:
  assumes "collapseConnectedCorridors roomIndex now rnd s = Inr s'"
  shows "length (rooms s') = length (rooms s)"
  using collapseConnectedCorridors_rooms[OF assms] by simp

lemma collapseRoomAt_lists:
  assumes step: "collapseRoomAt threshold now rnd i s = Inr s'"
    and i: "i < n"
    and inv: "listsOk s \<and> phasesOk s \<and> length (rooms s) = n"
  shows "listsOk s' \<and> phasesOk s' \<and> length (rooms s') = n"
  using collapseRoomAt_explicit[OF step]
proof (elim disjE conjE exE)
  assume "s' = s"
  with inv show ?thesis by simp
next
  fix r
  assume n: "\<not> isCollapsed (rooms s ! i)" and r: "isCollapsed r" "collapsePhase r = Some Shake"
    and cc: "collapseConnectedCorridors (index (rooms s ! i)) now rnd
                 (createDebrisEffect (position r) now rnd
                    (s\<lparr>rooms := (rooms s)[i := r],
                       collapsedRooms := collapsedRooms s @ [i],
                       randomDraws := randomDraws s + 3\<rparr>)) = Inr s'"
  define s1 where "s1 = s\<lparr>rooms := (rooms s)[i := r], collapsedRooms := collapsedRooms s @ [i],
      randomDraws := randomDraws s + 3\<rparr>"
  define s2 where "s2 = createDebrisEffect (position r) now rnd s1"
  from inv i n r have 1: "listsOk s1" "phasesOk s1" "length (rooms s1) = n"
    unfolding s1_def by (simp_all add: listsOk_room_collapses phasesOk_room_collapses)
  have v: "collapseView s2 = collapseView s1" by (simp add: s2_def)
  from 1 have 2: "listsOk s2" "phasesOk s2"
    by (auto intro: listsOk_cong[OF v] phasesOk_cong[OF v])
  have l2: "length (rooms s2) = n" using collapseView_eqD(1)[OF v] 1(3) by simp
  from cc have cc': "collapseConnectedCorridors (index (rooms s ! i)) now rnd s2 = Inr s'"
    by (simp add: s2_def s1_def)
  from collapseConnectedCorridors_lists[OF cc'] 2
    collapseConnectedCorridors_rooms_length[OF cc'] l2
  show ?thesis by simp
qed

lemma collapseRoomsBehindPlayer_lists:
  assumes step: "collapseRoomsBehindPlayer now rnd s = Inr s'"
    and inv: "listsOk s \<and> phasesOk s"
  shows "listsOk s' \<and> phasesOk s' \<and> length (rooms s') = length (rooms s)"
proof (rule forEach_invariant_set[OF step[unfolded collapseRoomsBehindPlayer_def Let_def],
      where P = "\<lambda>t. listsOk t \<and> phasesOk t \<and> length (rooms t) = length (rooms s)"])
  from inv show "listsOk s \<and> phasesOk s \<and> length (rooms s) = length (rooms s)" by simp
next
  fix x t t'
  assume "x \<in> set [0..<length (rooms s)]"
    and "listsOk t \<and> phasesOk t \<and> length (rooms t) = length (rooms s)"
    and "collapseRoomAt (\<lfloor>vz (meshPosition (player s)) / 25\<rfloor> - 3) now rnd x t = Inr t'"
  then show "listsOk t' \<and> phasesOk t' \<and> length (rooms t') = length (rooms s)"
    using collapseRoomAt_lists[of _ now rnd x t t' "length (rooms s)"] by simp
qed

lemma animate_active:
  assumes "gameActive s"
  shows "animate dt now rnd inp s =
     (case collapseRoomsBehindPlayer now rnd (beforeCollapse dt now inp s) of
        Inl e \<Rightarrow> Inl e
      | Inr s4 \<Rightarrow> Inr (updateDebrisParticles dt now
                      (updateCollapsingCorridors now (updateCollapsingRooms now s4))))"
  using assms by (simp add: animate_def beforeCollapse_def Let_def)

lemma collapseView_beforeCollapse [simp]:
  "collapseView (beforeCollapse dt now inp s) = collapseView s"
  by (simp add: beforeCollapse_def Let_def)

lemma animate_lists:
  assumes step: "animate dt now rnd inp s = Inr s'"
    and inv: "listsOk s \<and> phasesOk s"
  shows "listsOk s' \<and> phasesOk s'"
proof (cases "gameActive s")
  case False
  with step inv show ?thesis by (simp add: animate_def)
next
  case True
  from step obtain s4 where s4: "collapseRoomsBehindPlayer now rnd (beforeCollapse dt now inp s) = Inr s4"
    and s': "s' = updateDebrisParticles dt now
                    (updateCollapsingCorridors now (updateCollapsingRooms now s4))"
    unfolding animate_active[OF True] by (auto split: sum.splits)
  from inv have "listsOk (beforeCollapse dt now inp s) \<and> phasesOk (beforeCollapse dt now inp s)"
    by (auto intro: listsOk_cong phasesOk_cong)
  with collapseRoomsBehindPlayer_lists[OF s4] have "listsOk s4 \<and> phasesOk s4" by simp
  moreover have "collapseView s' = collapseView s4" by (simp add: s')
  ultimately show ?thesis by (auto intro: listsOk_cong phasesOk_cong)
qed

lemma reachable_lists:
  "reachable s \<Longrightarrow> listsOk s \<and> phasesOk s"
proof (induction rule: reachable.induct)
  case (generated s)
  then show ?case
    by (auto simp: freshLevel_def listsOk_def phasesOk_def list_all_iff)
next
  case (click s now)
  then show ?case
    by (auto intro: listsOk_cong[of _ s] phasesOk_cong[of _ s])
next
  case (frame s deltaTime now rnd inp s')
  from frame.hyps(2) frame.IH show ?case by (rule animate_lists)
qed


lemma length_fold_list_update [simp]:
  "length (fold (\<lambda>j xs. xs[j := f (xs ! j)]) js xs) = length xs"
  by (induction js arbitrary: xs) simp_all

lemma nth_fold_list_update:
  assumes "distinct js" and "i < length xs"
  shows "fold (\<lambda>j xs. xs[j := f (xs ! j)]) js xs ! i = (if i \<in> set js then f (xs ! i) else xs ! i)"
  using assms
proof (induction js arbitrary: xs)
  case Nil
  then show ?case by simp
next
  case (Cons j js)
  from Cons.prems have d: "distinct js" and nj: "j \<notin> set js" by simp_all
  have l: "i < length (xs[j := f (xs ! j)])" using Cons.prems(2) by simp
  show ?case
  proof (cases "i = j")
    case True
    with nj Cons.IH[OF d l] Cons.prems(2) show ?thesis by simp
  next
    case False
    with Cons.IH[OF d l] show ?thesis by simp
  qed
qed

lemma createDebrisEffect_level [simp]:
  "rooms (createDebrisEffect pos now rnd s) = rooms s"
  "corridors (createDebrisEffect pos now rnd s) = corridors s"
proof -
  have "rooms (fold (\<lambda>i. spawnParticle pos now rnd) js s) = rooms s \<and>
        corridors (fold (\<lambda>i. spawnParticle pos now rnd) js s) = corridors s"
    for js :: "nat list" and s
    by (induction js arbitrary: s) (simp_all add: spawnParticle_def Let_def)
  then show "rooms (createDebrisEffect pos now rnd s) = rooms s"
    "corridors (createDebrisEffect pos now rnd s) = corridors s"
    by (simp_all add: createDebrisEffect_def Let_def)
qed

lemma driftGroup_collapsed: "isCollapsed g \<Longrightarrow> driftGroup off g = g"
  by (simp add: driftGroup_def)

lemma updateMapMovement_level:
  assumes "gameActive s"
  shows "rooms (updateMapMovement dt now s) =
           map (driftGroup (offset (mapDrift (updateMapMovement dt now s)))) (rooms s)"
    and "corridors (updateMapMovement dt now s) =
           map (driftGroup (offset (mapDrift (updateMapMovement dt now s)))) (corridors s)"
  using assms by (simp_all add: updateMapMovement_def Let_def)

lemma beforeCollapse_level:
  assumes "gameActive s"
  shows "\<exists>off. rooms (beforeCollapse dt now inp s) = map (driftGroup off) (rooms s) \<and>
               corridors (beforeCollapse dt now inp s) = map (driftGroup off) (corridors s)"
  using updateMapMovement_level[OF assms, of dt now]
  by (intro exI[of _ "offset (mapDrift (updateMapMovement dt now s))"])
    (simp add: beforeCollapse_def Let_def)

lemma beforeCollapse_collapsed_room:
  assumes "gameActive s" "i < length (rooms s)" "isCollapsed (rooms s ! i)"
  shows "rooms (beforeCollapse dt now inp s) ! i = rooms s ! i"
  using beforeCollapse_level[OF assms(1), of dt now inp] assms(2,3)
  by (auto simp: driftGroup_collapsed)

lemma beforeCollapse_collapsed_corridor:
  assumes "gameActive s" "i < length (corridors s)" "isCollapsed (corridors s ! i)"
  shows "corridors (beforeCollapse dt now inp s) ! i = corridors s ! i"
  using beforeCollapse_level[OF assms(1), of dt now inp] assms(2,3)
  by (auto simp: driftGroup_collapsed)

lemma collapseCorridorAt_keeps_collapsed:
  assumes step: "collapseCorridorAt roomIndex now rnd j t = Inr t'"
    and c: "isCollapsed c" and k: "corridors t ! i = c \<and> rooms t = rs"
  shows "corridors t' ! i = c \<and> rooms t' = rs"
  using collapseCorridorAt_explicit[OF step]
proof (elim disjE conjE)
  assume "t' = t"
  with k show ?thesis by simp
next
  assume n: "\<not> isCollapsed (corridors t ! j)"
    and t': "t' = t\<lparr>corridors := (corridors t)[j := (corridors t ! j)
                      \<lparr>isCollapsed := True, collapseStartTime := now, collapsePhase := Some Shake,
                       rotationVelocity :=
                         Vector3 ((rnd (randomDraws t) - 0.5) * 0.06)
                                 ((rnd (randomDraws t + 1) - 0.5) * 0.03)
                                 ((rnd (randomDraws t + 2) - 0.5) * 0.06)\<rparr>],
                 collapsedCorridors := collapsedCorridors t @ [j],
                 randomDraws := randomDraws t + 3\<rparr>"
  from n c k have "j \<noteq> i" by auto
  with k show ?thesis unfolding t' by simp
qed

lemma collapseConnectedCorridors_keeps_collapsed:
  assumes step: "collapseConnectedCorridors roomIndex now rnd t = Inr t'"
    and c: "isCollapsed c" and k: "corridors t ! i = c \<and> rooms t = rs"
  shows "corridors t' ! i = c \<and> rooms t' = rs"
  using step[unfolded collapseConnectedCorridors_def] k
  by (rule forEach_invariant) (rule collapseCorridorAt_keeps_collapsed[OF _ c])

lemma collapseRoomAt_keeps_collapsed:
  assumes step: "collapseRoomAt threshold now rnd j t = Inr t'"
    and c: "isCollapsed c"
    and k: "corridors t ! i = c"
  shows "corridors t' ! i = c"
proof (cases "t' = t")
  case True
  with k show ?thesis by simp
next
  case False
  let ?r = "(rooms t ! j)\<lparr>isCollapsed := True, collapseStartTime := now,
      collapsePhase := Some Shake,
      rotationVelocity := Vector3 ((rnd (randomDraws t) - 0.5) * 0.04)
        ((rnd (randomDraws t + 1) - 0.5) * 0.02) ((rnd (randomDraws t + 2) - 0.5) * 0.04)\<rparr>"
  let ?t2 = "createDebrisEffect (position ?r) now rnd
                    (t\<lparr>rooms := (rooms t)[j := ?r],
                       collapsedRooms := collapsedRooms t @ [j],
                       randomDraws := randomDraws t + 3\<rparr>)"
  from step False have cc: "collapseConnectedCorridors (index (rooms t ! j)) now rnd ?t2 = Inr t'"
    by (auto simp: collapseRoomAt_def Let_def split: if_splits)
  from k have "corridors ?t2 ! i = c \<and> rooms ?t2 = rooms ?t2" by simp
  from collapseConnectedCorridors_keeps_collapsed[OF cc c this] show ?thesis by simp
qed

lemma collapseRoomAt_keeps_collapsed_room:
  assumes step: "collapseRoomAt threshold now rnd j t = Inr t'"
    and c: "isCollapsed r"
    and k: "rooms t ! i = r"
  shows "rooms t' ! i = r"
proof (cases "t' = t")
  case True
  with k show ?thesis by simp
next
  case False
  let ?r = "(rooms t ! j)\<lparr>isCollapsed := True, collapseStartTime := now,
      collapsePhase := Some Shake,
      rotationVelocity := Vector3 ((rnd (randomDraws t) - 0.5) * 0.04)
        ((rnd (randomDraws t + 1) - 0.5) * 0.02) ((rnd (randomDraws t + 2) - 0.5) * 0.04)\<rparr>"
  let ?t2 = "createDebrisEffect (position ?r) now rnd
                    (t\<lparr>rooms := (rooms t)[j := ?r],
                       collapsedRooms := collapsedRooms t @ [j],
                       randomDraws := randomDraws t + 3\<rparr>)"
  from step False have n: "\<not> isCollapsed (rooms t ! j)"
    and cc: "collapseConnectedCorridors (index (rooms t ! j)) now rnd ?t2 = Inr t'"
    by (auto simp: collapseRoomAt_def Let_def split: if_splits)
  from n c k have "j \<noteq> i" by auto
  with k have "rooms ?t2 ! i = r" by simp
  with collapseConnectedCorridors_rooms[OF cc] show ?thesis by simp
qed

lemma collapseRoomsBehindPlayer_keeps_collapsed:
  assumes step: "collapseRoomsBehindPlayer now rnd t = Inr t'"
  shows "isCollapsed r \<Longrightarrow> rooms t ! i = r \<Longrightarrow> rooms t' ! i = r"
    and "isCollapsed c \<Longrightarrow> corridors t ! j = c \<Longrightarrow> corridors t' ! j = c"
proof -
  show "rooms t' ! i = r" if "isCollapsed r" "rooms t ! i = r"
    using step[unfolded collapseRoomsBehindPlayer_def Let_def] that(2)
    by (rule forEach_invariant) (rule collapseRoomAt_keeps_collapsed_room[OF _ that(1)])
  show "corridors t' ! j = c" if "isCollapsed c" "corridors t ! j = c"
    using step[unfolded collapseRoomsBehindPlayer_def Let_def] that(2)
    by (rule forEach_invariant) (rule collapseRoomAt_keeps_collapsed[OF _ that(1)])
qed


lemma late_frame_level [simp]:
  "rooms (updateDebrisParticles dt now s) = rooms s"
  "corridors (updateDebrisParticles dt now s) = corridors s"
  "rooms (updateCollapsingCorridors now s) = rooms s"
  "corridors (updateCollapsingRooms now s) = corridors s"
  "collapsedCorridors (updateCollapsingRooms now s) = collapsedCorridors s"
  by (simp_all add: updateDebrisParticles_def updateCollapsingCorridors_def
      updateCollapsingRooms_def)

lemma frame_collapsed_room:
  assumes inv: "listsOk s \<and> phasesOk s" and active: "gameActive s"
    and step: "animate dt now rnd inp s = Inr s'"
    and i: "i < length (rooms s)" and c: "isCollapsed (rooms s ! i)"
  shows "rooms s' ! i = updateCollapsingRoom now (rooms s ! i)"
proof -
  let ?b = "beforeCollapse dt now inp s"
  from step obtain s4 where s4: "collapseRoomsBehindPlayer now rnd ?b = Inr s4"
    and s': "s' = updateDebrisParticles dt now
                    (updateCollapsingCorridors now (updateCollapsingRooms now s4))"
    unfolding animate_active[OF active] by (auto split: sum.splits)
  have vb: "collapseView ?b = collapseView s" by simp
  have lb: "listsOk ?b \<and> phasesOk ?b"
    using inv by (auto intro: listsOk_cong[OF vb] phasesOk_cong[OF vb])
  have len: "length (rooms ?b) = length (rooms s)" by (rule collapseView_eqD(1)[OF vb])
  have rb: "rooms ?b ! i = rooms s ! i"
    by (rule beforeCollapse_collapsed_room[OF active i c])
  have r4: "rooms s4 ! i = rooms s ! i"
    by (rule collapseRoomsBehindPlayer_keeps_collapsed(1)[OF s4 c rb])
  from collapseRoomsBehindPlayer_lists[OF s4 lb] len
  have l4: "listsOk s4" and len4: "length (rooms s4) = length (rooms s)" by simp_all
  from l4 i c r4 len4 have mem: "i \<in> set (collapsedRooms s4)"
    and dist: "distinct (collapsedRooms s4)"
    by (auto simp: listsOk_def)
  have "rooms s' ! i = rooms (updateCollapsingRooms now s4) ! i" by (simp add: s')
  also have "\<dots> = updateCollapsingRoom now (rooms s4 ! i)"
    using nth_fold_list_update[OF dist, of i "rooms s4" "updateCollapsingRoom now"] mem i len4
    by (simp add: updateCollapsingRooms_def)
  finally show ?thesis by (simp add: r4)
qed

lemma frame_collapsed_corridor:
  assumes inv: "listsOk s \<and> phasesOk s" and active: "gameActive s"
    and step: "animate dt now rnd inp s = Inr s'"
    and i: "i < length (corridors s)" and c: "isCollapsed (corridors s ! i)"
  shows "corridors s' ! i = updateCollapsingCorridor now (corridors s ! i)"
proof -
  let ?b = "beforeCollapse dt now inp s"
  from step obtain s4 where s4: "collapseRoomsBehindPlayer now rnd ?b = Inr s4"
    and s': "s' = updateDebrisParticles dt now
                    (updateCollapsingCorridors now (updateCollapsingRooms now s4))"
    unfolding animate_active[OF active] by (auto split: sum.splits)
  have vb: "collapseView ?b = collapseView s" by simp
  have lb: "listsOk ?b \<and> phasesOk ?b"
    using inv by (auto intro: listsOk_cong[OF vb] phasesOk_cong[OF vb])
  have len: "length (corridors ?b) = length (corridors s)" by (rule collapseView_eqD2(1)[OF vb])
  have rb: "corridors ?b ! i = corridors s ! i"
    by (rule beforeCollapse_collapsed_corridor[OF active i c])
  have r4: "corridors s4 ! i = corridors s ! i"
    by (rule collapseRoomsBehindPlayer_keeps_collapsed(2)[OF s4 c rb])
  from collapseRoomsBehindPlayer_lists[OF s4 lb]
  have l4: "listsOk s4" by simp
  have len4: "length (corridors s4) = length (corridors s)"
  proof -
    have "length (corridors s4) = length (corridors ?b) \<and> True"
      using s4[unfolded collapseRoomsBehindPlayer_def Let_def]
    proof (rule forEach_invariant[where P = "\<lambda>t. length (corridors t) = length (corridors ?b) \<and> True"])
      show "length (corridors ?b) = length (corridors ?b) \<and> True" by simp
    next
      fix x t t'
      assume a: "length (corridors t) = length (corridors ?b) \<and> True"
        and b: "collapseRoomAt (\<lfloor>vz (meshPosition (player ?b)) / 25\<rfloor> - 3) now rnd x t = Inr t'"
      have k: "length (corridors u') = length (corridors u)"
        if "collapseConnectedCorridors ri now rnd u = Inr u'" for ri u u'
      proof -
        have "length (corridors u') = length (corridors u) \<and> True"
          using that[unfolded collapseConnectedCorridors_def]
          by (rule forEach_invariant[where P = "\<lambda>t. length (corridors t) = length (corridors u) \<and> True"])
            (auto dest!: collapseCorridorAt_explicit)
        then show ?thesis by simp
      qed
      from collapseRoomAt_explicit[OF b] a
      show "length (corridors t') = length (corridors ?b) \<and> True"
        by (auto dest!: k)
    qed
    with len show ?thesis by simp
  qed
  from l4 i c r4 len4 have mem: "i \<in> set (collapsedCorridors s4)"
    and dist: "distinct (collapsedCorridors s4)"
    by (auto simp: listsOk_def)
  have "corridors s' ! i = corridors (updateCollapsingCorridors now (updateCollapsingRooms now s4)) ! i"
    by (simp add: s')
  also have "\<dots> = updateCollapsingCorridor now (corridors s4 ! i)"
    using nth_fold_list_update[OF dist, of i "corridors s4" "updateCollapsingCorridor now"] mem i len4
    by (simp add: updateCollapsingCorridors_def)
  finally show ?thesis by (simp add: r4)
qed

section \<open>A three-room run: evaluation of its frames\<close>

lemma fold_considerGroup_bare:
  "(\<And>ig. ig \<in> set igs \<Longrightarrow> children (snd ig) = []) \<Longrightarrow>
     fold (considerGroup skip p mk) igs acc = acc"
  by (induction igs arbitrary: acc) (simp_all add: considerGroup_def)

lemma scanGroups_bare:
  assumes "\<And>g. g \<in> set gs \<Longrightarrow> children g = []"
  shows "scanGroups skip p mk gs acc = acc"
  unfolding scanGroups_def
proof (rule fold_considerGroup_bare)
  fix ig
  assume a: "ig \<in> set (enumerate 0 gs)"
  obtain i x where ig: "ig = (i, x)" by (cases ig)
  from a have "snd ig \<in> set gs" unfolding ig by (auto simp: in_set_enumerate_eq)
  then show "children (snd ig) = []" by (rule assms)
qed

lemma updatePlayer_bare:
  assumes "gameActive s" "bare s"
    and "\<not> vy (meshPosition (locomotion dt inp (player s))) < -50"
  shows "updatePlayer dt inp s = s\<lparr>player := (locomotion dt inp (player s))\<lparr>currentSurface := None\<rparr>\<rparr>"
proof -
  let ?s1 = "s\<lparr>player := locomotion dt inp (player s)\<rparr>"
  from assms(2) have "scanSurfaces ?s1 = None"
    by (simp add: scanSurfaces_def scanGroups_bare bare_def)
  then have f: "findNearestSurface ?s1 = s\<lparr>player := (locomotion dt inp (player s))\<lparr>currentSurface := None\<rparr>\<rparr>"
    by (simp add: findNearestSurface_def snapToSurface_None)
  from assms(2) have c: "checkCollisions (s\<lparr>player := p\<rparr>) = s\<lparr>player := p\<rparr>" for p
    by (simp add: checkCollisions_def bare_def)
  from assms(1,3) show ?thesis
    by (simp add: updatePlayer_def Let_def f c)
qed

lemma createDebrisEffect_fields [simp]:
  "collapsedRooms (createDebrisEffect pos now rnd s) = collapsedRooms s"
  "collapsedCorridors (createDebrisEffect pos now rnd s) = collapsedCorridors s"
  "gameActive (createDebrisEffect pos now rnd s) = gameActive s"
  "player (createDebrisEffect pos now rnd s) = player s"
  "lastCollapseTime (createDebrisEffect pos now rnd s) = lastCollapseTime s"
  "gameStartTime (createDebrisEffect pos now rnd s) = gameStartTime s"
  "dataCores (createDebrisEffect pos now rnd s) = dataCores s"
  "exitPortal (createDebrisEffect pos now rnd s) = exitPortal s"
proof -
  have "collapsedRooms (fold (\<lambda>i. spawnParticle pos now rnd) js s) = collapsedRooms s \<and>
        collapsedCorridors (fold (\<lambda>i. spawnParticle pos now rnd) js s) = collapsedCorridors s \<and>
        gameActive (fold (\<lambda>i. spawnParticle pos now rnd) js s) = gameActive s \<and>
        player (fold (\<lambda>i. spawnParticle pos now rnd) js s) = player s \<and>
        lastCollapseTime (fold (\<lambda>i. spawnParticle pos now rnd) js s) = lastCollapseTime s \<and>
        gameStartTime (fold (\<lambda>i. spawnParticle pos now rnd) js s) = gameStartTime s \<and>
        dataCores (fold (\<lambda>i. spawnParticle pos now rnd) js s) = dataCores s \<and>
        exitPortal (fold (\<lambda>i. spawnParticle pos now rnd) js s) = exitPortal s"
    for js :: "nat list" and s
    by (induction js arbitrary: s) (simp_all add: spawnParticle_def Let_def)
  then show "collapsedRooms (createDebrisEffect pos now rnd s) = collapsedRooms s"
  "collapsedCorridors (createDebrisEffect pos now rnd s) = collapsedCorridors s"
  "gameActive (createDebrisEffect pos now rnd s) = gameActive s"
  "player (createDebrisEffect pos now rnd s) = player s"
  "lastCollapseTime (createDebrisEffect pos now rnd s) = lastCollapseTime s"
  "gameStartTime (createDebrisEffect pos now rnd s) = gameStartTime s"
  "dataCores (createDebrisEffect pos now rnd s) = dataCores s"
  "exitPortal (createDebrisEffect pos now rnd s) = exitPortal s"
    by (simp_all add: createDebrisEffect_def Let_def)
qed

lemma upt_3: "[0..<3] = [0, 1, 2]" "[0..<2] = [0, 1]"
  by (simp_all add: upt_rec)

lemma collapse_eval:
  fixes b :: state
  assumes r: "rooms b = [R0, R1, R2]" and c: "corridors b = [C0, C1]"
    and i: "index R0 = 0" "index R1 = 1" "index R2 = 2"
    and n: "\<not> isCollapsed R1" "\<not> isCollapsed C0" "\<not> isCollapsed C1"
    and k: "connectedRooms C0 = (0, 1)" "connectedRooms C1 = (1, 2)"
    and z: "vz (meshPosition (player b)) = 1303 / 10"
    and l: "collapsedRooms b = []" "collapsedCorridors b = []"
  shows "\<exists>s4. collapseRoomsBehindPlayer now half b = Inr s4 \<and>
           rooms s4 = [R0, R1\<lparr>isCollapsed := True, collapseStartTime := now,
                               collapsePhase := Some Shake, rotationVelocity := Vector3 0 0 0\<rparr>, R2] \<and>
           corridors s4 = [C0\<lparr>isCollapsed := True, collapseStartTime := now,
                               collapsePhase := Some Shake, rotationVelocity := Vector3 0 0 0\<rparr>,
                           C1\<lparr>isCollapsed := True, collapseStartTime := now,
                               collapsePhase := Some Shake, rotationVelocity := Vector3 0 0 0\<rparr>] \<and>
           collapsedRooms s4 = [1] \<and> collapsedCorridors s4 = [0, 1] \<and>
           gameActive s4 = gameActive b \<and> player s4 = player b \<and>
           dataCores s4 = dataCores b \<and> exitPortal s4 = exitPortal b"
  by (simp add: collapseRoomsBehindPlayer_def collapseRoomAt_def collapseConnectedCorridors_def
      collapseCorridorAt_def Let_def upt_3 assms half_def)

lemma runStart_simps:
  "gameActive runStart" "gameStartTime runStart = 0" "lastCollapseTime runStart = 0"
  "player runStart = \<lparr>meshPosition = Vector3 0 1 130, velocity = Vector3 0 0 0, speed = 3,
                 jumpStrength = 8, isJumping = False, coresCollected = 0,
                 currentSurface = None, gravity = Vector3 0 (-20) 0\<rparr>"
  "rooms runStart = [bareRoom 0 0, bareRoom 1 25, bareRoom 2 50]"
  "corridors runStart = [bareCorridor (0, 1), bareCorridor (1, 2)]"
  "dataCores runStart = []" "exitPortal runStart = None"
  "collapsedRooms runStart = []" "collapsedCorridors runStart = []"
  "collapseInterval runStart = 5000"
  by (simp_all add: runStart_def startGame_def runLevel_def airborneState_def)

lemma runLevel_fresh: "freshLevel runLevel"
  by (simp add: freshLevel_def runLevel_def airborneState_def bareRoom_def bareCorridor_def)

lemma reachable_runStart: "reachable runStart"
  unfolding runStart_def
  by (rule click, rule generated, rule runLevel_fresh) (simp add: runLevel_def)

lemma reachable_grid_runStart: "reachable_grid runStart"
  unfolding runStart_def
  by (rule click_grid, rule generated_grid, rule runLevel_fresh) (simp add: runLevel_def)

lemma drift_runStart:
  "rooms (updateMapMovement (1/10) 0 runStart) = [driftedRoom 0 0, driftedRoom 1 25, driftedRoom 2 50]"
  "corridors (updateMapMovement (1/10) 0 runStart) = [driftedCorridor (0, 1), driftedCorridor (1, 2)]"
  "dataCores (updateMapMovement (1/10) 0 runStart) = []"
  "exitPortal (updateMapMovement (1/10) 0 runStart) = None"
  "gameActive (updateMapMovement (1/10) 0 runStart)"
  "player (updateMapMovement (1/10) 0 runStart) = player runStart"
  "collapsedRooms (updateMapMovement (1/10) 0 runStart) = []"
  "collapsedCorridors (updateMapMovement (1/10) 0 runStart) = []"
  by (simp_all add: updateMapMovement_def Let_def runStart_simps driftIntensity_def driftGroup_def
      driftedRoom_def driftedCorridor_def bareRoom_def bareCorridor_def vadd_def)

lemma locomotion_runStart:
  "locomotion (1/10) noKeys (player runStart) =
     \<lparr>meshPosition = Vector3 0 (4/5) (1303/10), velocity = Vector3 0 (-2) 3, speed = 3,
      jumpStrength = 8, isJumping = False, coresCollected = 0,
      currentSurface = None, gravity = Vector3 0 (-20) 0\<rparr>"
  by (simp add: runStart_simps locomotion_def moveStep_def gravityStep_def jumpStep_def
      horizontalVelocity_def noKeys_simps Let_def vadd_def multiplyScalar_def)

lemma beforeCollapse_runStart:
  "rooms (beforeCollapse (1/10) 0 noKeys runStart) = [driftedRoom 0 0, driftedRoom 1 25, driftedRoom 2 50]"
  "corridors (beforeCollapse (1/10) 0 noKeys runStart) = [driftedCorridor (0, 1), driftedCorridor (1, 2)]"
  "gameActive (beforeCollapse (1/10) 0 noKeys runStart)"
  "player (beforeCollapse (1/10) 0 noKeys runStart) =
     \<lparr>meshPosition = Vector3 0 (4/5) (1303/10), velocity = Vector3 0 (-2) 3, speed = 3,
      jumpStrength = 8, isJumping = False, coresCollected = 0,
      currentSurface = None, gravity = Vector3 0 (-20) 0\<rparr>"
  "collapsedRooms (beforeCollapse (1/10) 0 noKeys runStart) = []"
  "collapsedCorridors (beforeCollapse (1/10) 0 noKeys runStart) = []"
  "dataCores (beforeCollapse (1/10) 0 noKeys runStart) = []"
  "exitPortal (beforeCollapse (1/10) 0 noKeys runStart) = None"
proof -
  let ?s1 = "updateMapMovement (1/10) 0 runStart"
  have b: "bare ?s1"
    by (simp add: bare_def drift_runStart driftedRoom_def driftedCorridor_def bareRoom_def
        bareCorridor_def)
  have u: "updatePlayer (1/10) noKeys ?s1 =
      ?s1\<lparr>player := (locomotion (1/10) noKeys (player ?s1))\<lparr>currentSurface := None\<rparr>\<rparr>"
    by (rule updatePlayer_bare[OF drift_runStart(5) b])
      (simp add: drift_runStart(6) locomotion_runStart)
  show "rooms (beforeCollapse (1/10) 0 noKeys runStart) = [driftedRoom 0 0, driftedRoom 1 25, driftedRoom 2 50]"
  "corridors (beforeCollapse (1/10) 0 noKeys runStart) = [driftedCorridor (0, 1), driftedCorridor (1, 2)]"
  "gameActive (beforeCollapse (1/10) 0 noKeys runStart)"
  "player (beforeCollapse (1/10) 0 noKeys runStart) =
     \<lparr>meshPosition = Vector3 0 (4/5) (1303/10), velocity = Vector3 0 (-2) 3, speed = 3,
      jumpStrength = 8, isJumping = False, coresCollected = 0,
      currentSurface = None, gravity = Vector3 0 (-20) 0\<rparr>"
  "collapsedRooms (beforeCollapse (1/10) 0 noKeys runStart) = []"
  "collapsedCorridors (beforeCollapse (1/10) 0 noKeys runStart) = []"
  "dataCores (beforeCollapse (1/10) 0 noKeys runStart) = []"
  "exitPortal (beforeCollapse (1/10) 0 noKeys runStart) = None"
    by (simp_all add: beforeCollapse_def Let_def u drift_runStart locomotion_runStart)
qed

lemma frame1_facts:
  "animate (1/10) 0 half noKeys runStart = Inr frame1"
  "rooms frame1 = [driftedRoom 0 0, shaking (driftedRoom 1 25), driftedRoom 2 50]"
  "corridors frame1 = [shaking (driftedCorridor (0, 1)), shaking (driftedCorridor (1, 2))]"
  "gameActive frame1"
  "player frame1 =
     \<lparr>meshPosition = Vector3 0 (4/5) (1303/10), velocity = Vector3 0 (-2) 3, speed = 3,
      jumpStrength = 8, isJumping = False, coresCollected = 0,
      currentSurface = None, gravity = Vector3 0 (-20) 0\<rparr>"
  "dataCores frame1 = []" "exitPortal frame1 = None"
proof -
  let ?b = "beforeCollapse (1/10) 0 noKeys runStart"
  have "\<exists>s4. collapseRoomsBehindPlayer 0 half ?b = Inr s4 \<and>
           rooms s4 = [driftedRoom 0 0, (driftedRoom 1 25)\<lparr>isCollapsed := True, collapseStartTime := 0,
                               collapsePhase := Some Shake, rotationVelocity := Vector3 0 0 0\<rparr>,
                       driftedRoom 2 50] \<and>
           corridors s4 = [(driftedCorridor (0, 1))\<lparr>isCollapsed := True, collapseStartTime := 0,
                               collapsePhase := Some Shake, rotationVelocity := Vector3 0 0 0\<rparr>,
                           (driftedCorridor (1, 2))\<lparr>isCollapsed := True, collapseStartTime := 0,
                               collapsePhase := Some Shake, rotationVelocity := Vector3 0 0 0\<rparr>] \<and>
           collapsedRooms s4 = [1] \<and> collapsedCorridors s4 = [0, 1] \<and>
           gameActive s4 = gameActive ?b \<and> player s4 = player ?b \<and>
           dataCores s4 = dataCores ?b \<and> exitPortal s4 = exitPortal ?b"
    by (rule collapse_eval)
      (simp_all add: beforeCollapse_runStart driftedRoom_def driftedCorridor_def bareRoom_def
        bareCorridor_def)
  then obtain s4 where s4: "collapseRoomsBehindPlayer 0 half ?b = Inr s4"
    and r4: "rooms s4 = [driftedRoom 0 0, shaking (driftedRoom 1 25), driftedRoom 2 50]"
    and c4: "corridors s4 = [shaking (driftedCorridor (0, 1)), shaking (driftedCorridor (1, 2))]"
    and l4: "collapsedRooms s4 = [1]" "collapsedCorridors s4 = [0, 1]"
    and g4: "gameActive s4" and p4: "player s4 = player ?b"
    and d4: "dataCores s4 = []" "exitPortal s4 = None"
    by (auto simp: shaking_def driftedRoom_def driftedCorridor_def bareRoom_def bareCorridor_def
        beforeCollapse_runStart)
  let ?s' = "updateDebrisParticles (1/10) 0 (updateCollapsingCorridors 0 (updateCollapsingRooms 0 s4))"
  have a: "animate (1/10) 0 half noKeys runStart = Inr ?s'"
    by (simp add: animate_active[OF runStart_simps(1)] s4)
  then have f: "frame1 = ?s'" by (simp add: frame1_def)
  from a show "animate (1/10) 0 half noKeys runStart = Inr frame1" by (simp add: f)
  show "rooms frame1 = [driftedRoom 0 0, shaking (driftedRoom 1 25), driftedRoom 2 50]"
    by (simp add: f updateCollapsingRooms_def r4 l4 updateCollapsingRoom_def shaking_def
        driftedRoom_def bareRoom_def setY_def)
  show "corridors frame1 = [shaking (driftedCorridor (0, 1)), shaking (driftedCorridor (1, 2))]"
    by (simp add: f updateCollapsingCorridors_def c4 l4 updateCollapsingCorridor_def shaking_def
        driftedCorridor_def bareCorridor_def setY_def)
  show "gameActive frame1"
    by (simp add: f g4 updateDebrisParticles_def updateCollapsingCorridors_def
        updateCollapsingRooms_def)
  show "player frame1 =
     \<lparr>meshPosition = Vector3 0 (4/5) (1303/10), velocity = Vector3 0 (-2) 3, speed = 3,
      jumpStrength = 8, isJumping = False, coresCollected = 0,
      currentSurface = None, gravity = Vector3 0 (-20) 0\<rparr>"
    by (simp add: f p4 beforeCollapse_runStart updateDebrisParticles_def
        updateCollapsingCorridors_def updateCollapsingRooms_def)
  show "dataCores frame1 = []" "exitPortal frame1 = None"
    by (simp_all add: f d4 updateDebrisParticles_def updateCollapsingCorridors_def
        updateCollapsingRooms_def)
qed

lemma reachable_frame1: "reachable frame1"
  by (rule frame[OF reachable_runStart frame1_facts(1)])

lemma updatePlayer_grid_bare:
  assumes "gameActive s" "bare s"
    and "\<not> vy (meshPosition (locomotion_grid dt inp (player s))) < -50"
  shows "updatePlayer_grid dt inp s =
           s\<lparr>player := (locomotion_grid dt inp (player s))\<lparr>currentSurface := None\<rparr>\<rparr>"
proof -
  let ?s1 = "s\<lparr>player := locomotion_grid dt inp (player s)\<rparr>"
  from assms(2) have "scanSurfaces_grid ?s1 = None"
    by (simp add: scanSurfaces_grid_def scanGroups_bare bare_def)
  then have f: "findNearestSurface_grid ?s1 =
      s\<lparr>player := (locomotion_grid dt inp (player s))\<lparr>currentSurface := None\<rparr>\<rparr>"
    by (simp add: findNearestSurface_grid_def snapToSurface_None)
  from assms(2) have c: "checkCollisions_grid (s\<lparr>player := p\<rparr>) = s\<lparr>player := p\<rparr>" for p
    by (simp add: checkCollisions_grid_def bare_def)
  from assms(1,3) show ?thesis
    by (simp add: updatePlayer_grid_def Let_def f c)
qed

lemma locomotion_grid_runStart:
  "locomotion_grid (1/10) noKeys (player runStart) =
     \<lparr>meshPosition = Vector3 0 (4/5) (1303/10), velocity = Vector3 0 (-2) 3, speed = 3,
      jumpStrength = 8, isJumping = False, coresCollected = 0,
      currentSurface = None, gravity = Vector3 0 (-20) 0\<rparr>"
  by (simp add: runStart_simps locomotion_grid_def moveStep_def gravityStep_def jumpStep_grid_def
      horizontalVelocity_grid_def noKeys_simps Let_def vadd_def multiplyScalar_def)

lemma gridFrame1_facts:
  "animate_grid (1/10) 6000 half noKeys runStart = Inr gridFrame1"
  "rooms gridFrame1 =
     [bareRoom 0 0, bareRoom 1 25, shaking ((bareRoom 2 50)\<lparr>collapseStartTime := 6000\<rparr>)]"
proof -
  define p where "p = (locomotion_grid (1/10) noKeys (player runStart))\<lparr>currentSurface := None\<rparr>"
  have b: "bare runStart"
    by (simp add: bare_def runStart_simps bareRoom_def bareCorridor_def)
  have u: "updatePlayer_grid (1/10) noKeys runStart = runStart\<lparr>player := p\<rparr>"
    unfolding p_def
    by (rule updatePlayer_grid_bare[OF runStart_simps(1) b]) (simp add: locomotion_grid_runStart)
  define s2 where "s2 = runStart\<lparr>player := p, dataCores := []\<rparr>"
  have s2: "rooms s2 = [bareRoom 0 0, bareRoom 1 25, bareRoom 2 50]" "collapsedRooms s2 = []"
    "lastCollapseTime s2 = 0" "collapseInterval s2 = 5000"
    by (simp_all add: s2_def runStart_simps)
  define s3 where "s3 = s2\<lparr>randomDraws := randomDraws s2 + 1,
                  rooms := [bareRoom 0 0, bareRoom 1 25,
                            (bareRoom 2 50)\<lparr>isCollapsed := True, collapseStartTime := 6000,
                                             collapsePhase := Some Shake\<rparr>],
                  collapsedRooms := [2]\<rparr>"
  have c: "collapseRandomRoom 6000 half s2 = Inr s3"
    unfolding s3_def
    by (simp add: collapseRandomRoom_def Let_def s2 upt_3 half_def bareRoom_def)
  have d: "(updatePlayer_grid (1/10) noKeys runStart)
             \<lparr>dataCores := map (animateCore_grid 6000)
                 (dataCores (updatePlayer_grid (1/10) noKeys runStart))\<rparr> = s2"
    by (simp add: u s2_def runStart_simps)
  have a: "animate_grid (1/10) 6000 half noKeys runStart =
             Inr (updateCollapsingRooms_grid 6000 (s3\<lparr>lastCollapseTime := 6000\<rparr>))"
    unfolding animate_grid_def Let_def d
    by (simp add: runStart_simps(1) s2 c)
  then have f: "gridFrame1 = updateCollapsingRooms_grid 6000 (s3\<lparr>lastCollapseTime := 6000\<rparr>)"
    by (simp add: gridFrame1_def)
  from a show "animate_grid (1/10) 6000 half noKeys runStart = Inr gridFrame1" by (simp add: f)
  show "rooms gridFrame1 =
     [bareRoom 0 0, bareRoom 1 25, shaking ((bareRoom 2 50)\<lparr>collapseStartTime := 6000\<rparr>)]"
    unfolding f
    by (simp add: updateCollapsingRooms_grid_def updateCollapsingRoom_grid_def shaking_def
        s3_def bareRoom_def setY_def)
qed

lemma reachable_gridFrame1: "reachable_grid gridFrame1"
  by (rule frame_grid[OF reachable_grid_runStart gridFrame1_facts(1)])

lemma init_fresh: "freshLevel (init panel)" "freshLevel (init_grid panel)"
  by (simp_all add: init_def init_grid_def generateLevel_def generateLevel_grid_def
      initialState_def freshLevel_def Let_def list_all_iff asRoom_def asCorridor_def
      group.defs room.defs corridor.defs createRoom_def createCorridor_def newGroup_def)

lemma forEach_id:
  "(\<And>x. x \<in> set xs \<Longrightarrow> body x s = Inr s) \<Longrightarrow> forEach body xs s = Inr s"
  by (induction xs) simp_all

lemma bare_cong:
  assumes "map children (rooms s') = map children (rooms s)"
    and "map children (corridors s') = map children (corridors s)"
    and "dataCores s' = dataCores s" and "exitPortal s' = exitPortal s"
  shows "bare s' = bare s"
proof -
  have "(\<forall>g\<in>set xs. children g = []) \<longleftrightarrow> (\<forall>c\<in>set (map children xs). c = [])"
    for xs :: "'a group_scheme list"
    by simp
  then show ?thesis
    unfolding bare_def using assms by metis
qed

lemma children_driftGroup [simp]: "children (driftGroup off g) = children g"
  by (simp add: driftGroup_def Let_def)

lemma bare_updateMapMovement:
  assumes "bare s"
  shows "bare (updateMapMovement dt now s)"
proof (cases "gameActive s")
  case False
  with assms show ?thesis by (simp add: updateMapMovement_def)
next
  case True
  have "bare (updateMapMovement dt now s) = bare (s\<lparr>dataCores := [], exitPortal := None\<rparr>)"
    using True assms
    by (intro bare_cong) (simp_all add: updateMapMovement_def Let_def comp_def bare_def)
  with assms show ?thesis by (simp add: bare_def)
qed

lemma children_updateCollapsing [simp]:
  "children (updateCollapsingRoom now r) = children r"
  "children (updateCollapsingCorridor now c) = children c"
  by (simp_all add: updateCollapsingRoom_def updateCollapsingCorridor_def Let_def)

lemma bare_late_frame:
  "bare (updateDebrisParticles dt now (updateCollapsingCorridors now (updateCollapsingRooms now s)))
     = bare s"
  by (intro bare_cong)
    (simp_all add: updateDebrisParticles_def updateCollapsingCorridors_def
      updateCollapsingRooms_def map_fold_list_update)

lemma quiet_frame:
  assumes active: "gameActive s" and bare: "bare s"
    and height: "\<not> vy (meshPosition (locomotion dt inp (player s))) < -50"
    and behind: "\<And>r. r \<in> set (rooms s) \<Longrightarrow>
        isCollapsed r \<or> index r = 0 \<or>
        \<not> int (index r) < \<lfloor>vz (meshPosition (locomotion dt inp (player s))) / 25\<rfloor> - 3"
  shows "\<exists>s'. animate dt now rnd inp s = Inr s' \<and> gameActive s' \<and> bare s' \<and>
              collapseView s' = collapseView s \<and>
              player s' = (locomotion dt inp (player s))\<lparr>currentSurface := None\<rparr>"
proof -
  let ?s1 = "updateMapMovement dt now s"
  let ?p = "(locomotion dt inp (player s))\<lparr>currentSurface := None\<rparr>"
  have a1: "gameActive ?s1" and p1: "player ?s1 = player s"
    using active by (simp_all add: updateMapMovement_def Let_def)
  have b1: "bare ?s1" using bare by (rule bare_updateMapMovement)
  have u: "updatePlayer dt inp ?s1 = ?s1\<lparr>player := ?p\<rparr>"
    using updatePlayer_bare[OF a1 b1, of dt inp] height by (simp add: p1)
  let ?b = "beforeCollapse dt now inp s"
  have b: "?b = ?s1\<lparr>player := ?p, dataCores := []\<rparr>"
    using b1 by (simp add: beforeCollapse_def Let_def u bare_def)
  have vb: "collapseView ?b = collapseView s" by simp
  have bb: "bare ?b" using b1 unfolding b by (simp add: bare_def)
  have ab: "gameActive ?b" "player ?b = ?p" using a1 by (simp_all add: b)
  have skip: "collapseRoomAt (\<lfloor>vz (meshPosition (player ?b)) / 25\<rfloor> - 3) now rnd i ?b = Inr ?b"
    if "i \<in> set [0..<length (rooms ?b)]" for i
  proof -
    from that have i: "i < length (rooms s)" using collapseView_eqD(1)[OF vb] by simp
    then have "rooms s ! i \<in> set (rooms s)" by simp
    from behind[OF this] collapseView_eqD(2)[OF vb i]
    have "isCollapsed (rooms ?b ! i) \<or> index (rooms ?b ! i) = 0 \<or>
        \<not> int (index (rooms ?b ! i)) < \<lfloor>vz (meshPosition (locomotion dt inp (player s))) / 25\<rfloor> - 3"
      by (auto simp: roomView_def)
    then show ?thesis
      by (auto simp: collapseRoomAt_def Let_def ab(2))
  qed
  have c: "collapseRoomsBehindPlayer now rnd ?b = Inr ?b"
    unfolding collapseRoomsBehindPlayer_def Let_def
    by (rule forEach_id) (use skip in simp)
  let ?s' = "updateDebrisParticles dt now (updateCollapsingCorridors now (updateCollapsingRooms now ?b))"
  have "animate dt now rnd inp s = Inr ?s'"
    by (simp add: animate_active[OF active] c)
  moreover have "gameActive ?s'" "player ?s' = ?p"
    using ab by (simp_all add: updateDebrisParticles_def updateCollapsingCorridors_def
        updateCollapsingRooms_def)
  moreover have "bare ?s'" using bb by (simp add: bare_late_frame)
  moreover have "collapseView ?s' = collapseView s" by simp
  ultimately show ?thesis by blast
qed

lemma bare_frame1: "bare frame1"
  by (simp add: bare_def frame1_facts shaking_def driftedRoom_def driftedCorridor_def
      bareRoom_def bareCorridor_def)

lemma locomotion_frame1: "(locomotion (1/10) noKeys (player frame1))\<lparr>currentSurface := None\<rparr> = player2"
  by (simp add: frame1_facts(5) player2_def locomotion_def moveStep_def gravityStep_def
      jumpStep_def horizontalVelocity_def noKeys_simps Let_def vadd_def multiplyScalar_def)

lemma locomotion_player2:
  "meshPosition (locomotion (1/10) noKeys player2) = Vector3 0 (-1/5) (1309/10)"
  by (simp add: player2_def locomotion_def moveStep_def gravityStep_def
      jumpStep_def horizontalVelocity_def noKeys_simps Let_def vadd_def multiplyScalar_def)

lemma behind_frame1:
  assumes "collapseView s = collapseView frame1" and "r \<in> set (rooms s)"
  shows "isCollapsed r \<or> index r = 0 \<or> \<not> int (index r) < 2"
proof -
  from collapseView_eqD(4)[OF assms] obtain r0 where "r0 \<in> set (rooms frame1)"
    and "roomView r = roomView r0" by blast
  then show ?thesis
    by (auto simp: frame1_facts(2) roomView_def shaking_def driftedRoom_def bareRoom_def)
qed

lemma after_frame1:
  "\<exists>s'. animate (1/10) now half noKeys frame1 = Inr s' \<and> gameActive s' \<and> bare s' \<and>
         collapseView s' = collapseView frame1 \<and> player s' = player2"
proof -
  have z: "\<lfloor>vz (meshPosition (locomotion (1/10) noKeys (player frame1))) / 25\<rfloor> - 3 = 2"
    "\<not> vy (meshPosition (locomotion (1/10) noKeys (player frame1))) < -50"
    by (simp_all add: frame1_facts(5) locomotion_def moveStep_def
        gravityStep_def jumpStep_def horizontalVelocity_def noKeys_simps Let_def vadd_def
        multiplyScalar_def)
  from quiet_frame[OF frame1_facts(4) bare_frame1 z(2), of now half] behind_frame1[of frame1]
  show ?thesis by (simp add: z(1) locomotion_frame1)
qed

lemma frame2_facts:
  "animate (1/10) 1200 half noKeys frame1 = Inr frame2" "gameActive frame2" "bare frame2"
  "collapseView frame2 = collapseView frame1" "player frame2 = player2"
  using after_frame1[of 1200] by (auto simp: frame2_def)

lemma frameShake_facts:
  "animate (1/10) 300 half noKeys frame1 = Inr frameShake"
  using after_frame1[of 300] by (auto simp: frameShake_def)

lemma frame3_facts:
  "animate (1/10) 2000 half noKeys frame2 = Inr frame3"
proof -
  have z: "\<lfloor>vz (meshPosition (locomotion (1/10) noKeys (player frame2))) / 25\<rfloor> - 3 = 2"
    "\<not> vy (meshPosition (locomotion (1/10) noKeys (player frame2))) < -50"
    by (simp_all add: frame2_facts(5) locomotion_player2)
  from quiet_frame[OF frame2_facts(2,3) z(2), of 2000 half]
    behind_frame1[OF frame2_facts(4)]
  show ?thesis by (auto simp: z(1) frame3_def)
qed

lemma reachable_frame2: "reachable frame2"
  by (rule frame[OF reachable_frame1 frame2_facts(1)])

lemma frame1_room1:
  "length (rooms frame1) = 3" "isCollapsed (rooms frame1 ! 1)"
  "collapsePhase (rooms frame1 ! 1) = Some Shake" "collapseStartTime (rooms frame1 ! 1) = 0"
  "position (rooms frame1 ! 1) = Vector3 0 0 25"
  "length (corridors frame1) = 2" "isCollapsed (corridors frame1 ! 0)"
  "collapsePhase (corridors frame1 ! 0) = Some Shake" "collapseStartTime (corridors frame1 ! 0) = 0"
  "position (corridors frame1 ! 0) = Vector3 0 0 0"
  by (simp_all add: frame1_facts(2,3) shaking_def driftedRoom_def driftedCorridor_def
      bareRoom_def bareCorridor_def)

subsection \<open>Gravity and surface lock\<close>

text \<open>
  C1. In a frame with the session active the gravity test of \<^verbatim>\<open>updatePlayer\<close> reads the
  player as the jump block leaves it (\<open>q\<close> below: same surface and gravity as before the
  frame, jumping if it was jumping or if a jump starts in this frame). If
  \<open>currentSurface\<close> is null or the player is jumping, the frame adds \<open>gravity * deltaTime\<close>
  to the velocity, so that a player who entered the frame without a surface or jumping
  has \<open>v_y' = v_y + gravity_y * deltaTime\<close>. If \<open>currentSurface\<close> is not null and the
  player is not jumping, the vertical velocity is set to 0. The position is then
  integrated with that velocity, and nothing later in the frame changes the velocity.
  The same holds for the grid file, whose jump keys are Space, W and ArrowUp.
\<close>

theorem updatePlayer_gravity:
  fixes s :: state and dt :: real and inp :: input
  defines "p \<equiv> player s"
  defines "q \<equiv> jumpStep inp (horizontalVelocity inp p)"
  defines "q_grid \<equiv> jumpStep_grid inp (horizontalVelocity_grid inp p)"
  defines "v' \<equiv> velocity (player (updatePlayer dt inp s))"
  defines "w' \<equiv> velocity (player (updatePlayer_grid dt inp s))"
  assumes active: "gameActive s"
  shows "currentSurface q = currentSurface p \<and> gravity q = gravity p \<and>
         (isJumping q \<longleftrightarrow> isJumping p \<or> (keys inp ''Space'' \<and> currentSurface p \<noteq> None)) \<and>
         (currentSurface p = None \<or> isJumping q \<longrightarrow>
            v' = vadd (velocity q) (multiplyScalar (gravity p) dt)) \<and>
         (currentSurface p = None \<or> isJumping p \<longrightarrow>
            vy v' = vy (velocity p) + vy (gravity p) * dt) \<and>
         (currentSurface p \<noteq> None \<and> \<not> isJumping q \<longrightarrow>
            v' = Vector3 (vx (velocity q)) 0 (vz (velocity q))) \<and>
         meshPosition (locomotion dt inp p) = vadd (meshPosition p) (multiplyScalar v' dt) \<and>
         currentSurface q_grid = currentSurface p \<and> gravity q_grid = gravity p \<and>
         (isJumping q_grid \<longleftrightarrow>
            isJumping p \<or> ((keys inp ''Space'' \<or> keys inp ''KeyW'' \<or> keys inp ''ArrowUp'')
                            \<and> currentSurface p \<noteq> None)) \<and>
         (currentSurface p = None \<or> isJumping q_grid \<longrightarrow>
            w' = vadd (velocity q_grid) (multiplyScalar (gravity p) dt)) \<and>
         (currentSurface p = None \<or> isJumping p \<longrightarrow>
            vy w' = vy (velocity p) + vy (gravity p) * dt) \<and>
         (currentSurface p \<noteq> None \<and> \<not> isJumping q_grid \<longrightarrow>
            w' = Vector3 (vx (velocity q_grid)) 0 (vz (velocity q_grid))) \<and>
         meshPosition (locomotion_grid dt inp p) = vadd (meshPosition p) (multiplyScalar w' dt)"
proof -
  have v: "v' = velocity (gravityStep dt q)" and vl: "v' = velocity (locomotion dt inp p)"
    using active by (simp_all add: v'_def q_def p_def velocity_updatePlayer velocity_locomotion)
  have w: "w' = velocity (gravityStep dt q_grid)" and wl: "w' = velocity (locomotion_grid dt inp p)"
    using active
    by (simp_all add: w'_def q_grid_def p_def velocity_updatePlayer_grid velocity_locomotion)
  have q1: "currentSurface q = currentSurface p" "gravity q = gravity p"
    and g1: "currentSurface q_grid = currentSurface p" "gravity q_grid = gravity p"
    by (simp_all add: q_def q_grid_def)
  have q2: "isJumping q \<longleftrightarrow> isJumping p \<or> (keys inp ''Space'' \<and> currentSurface p \<noteq> None)"
    by (simp add: q_def isJumping_jumpStep)
  have g2: "isJumping q_grid \<longleftrightarrow>
      isJumping p \<or> ((keys inp ''Space'' \<or> keys inp ''KeyW'' \<or> keys inp ''ArrowUp'')
                      \<and> currentSurface p \<noteq> None)"
    by (simp add: q_grid_def isJumping_jumpStep)
  have q3: "currentSurface p = None \<or> isJumping q \<longrightarrow>
      v' = vadd (velocity q) (multiplyScalar (gravity p) dt)"
    by (simp add: v velocity_gravityStep q1)
  have g3: "currentSurface p = None \<or> isJumping q_grid \<longrightarrow>
      w' = vadd (velocity q_grid) (multiplyScalar (gravity p) dt)"
    by (simp add: w velocity_gravityStep g1)
  have qy: "currentSurface p = None \<or> isJumping p \<Longrightarrow> vy (velocity q) = vy (velocity p)"
    by (auto simp add: q_def vy_jumpStep isJumping_jumpStep)
  have gy: "currentSurface p = None \<or> isJumping p \<Longrightarrow> vy (velocity q_grid) = vy (velocity p)"
    by (auto simp add: q_grid_def vy_jumpStep isJumping_jumpStep)
  have q4: "currentSurface p = None \<or> isJumping p \<longrightarrow>
      vy v' = vy (velocity p) + vy (gravity p) * dt"
  proof
    assume a: "currentSurface p = None \<or> isJumping p"
    then have "currentSurface p = None \<or> isJumping q" by (auto simp: q2)
    with q3 qy[OF a] show "vy v' = vy (velocity p) + vy (gravity p) * dt" by simp
  qed
  have g4: "currentSurface p = None \<or> isJumping p \<longrightarrow>
      vy w' = vy (velocity p) + vy (gravity p) * dt"
  proof
    assume a: "currentSurface p = None \<or> isJumping p"
    then have "currentSurface p = None \<or> isJumping q_grid" by (auto simp: g2)
    with g3 gy[OF a] show "vy w' = vy (velocity p) + vy (gravity p) * dt" by simp
  qed
  have q5: "currentSurface p \<noteq> None \<and> \<not> isJumping q \<longrightarrow>
      v' = Vector3 (vx (velocity q)) 0 (vz (velocity q))"
    by (simp add: v velocity_gravityStep q1)
  have g5: "currentSurface p \<noteq> None \<and> \<not> isJumping q_grid \<longrightarrow>
      w' = Vector3 (vx (velocity q_grid)) 0 (vz (velocity q_grid))"
    by (simp add: w velocity_gravityStep g1)
  have q6: "meshPosition (locomotion dt inp p) = vadd (meshPosition p) (multiplyScalar v' dt)"
    unfolding vl by (rule meshPosition_locomotion)
  have g6: "meshPosition (locomotion_grid dt inp p) = vadd (meshPosition p) (multiplyScalar w' dt)"
    unfolding wl by (rule meshPosition_locomotion)
  from q1 q2 q3 q4 q5 q6 g1 g2 g3 g4 g5 g6 show ?thesis by blast
qed

theorem updatePlayer_gravity_witness:
  "velocity (player (updatePlayer (1/10) noKeys airborneState)) = Vector3 0 (-2) 3 \<and>
   velocity (player (updatePlayer (1/10) noKeys groundedState)) = Vector3 0 0 3 \<and>
   velocity (player (updatePlayer (1/10) holdSpace groundedState)) = Vector3 0 6 3 \<and>
   velocity (player (updatePlayer_grid (1/10) noKeys airborneState)) = Vector3 0 (-2) 3 \<and>
   velocity (player (updatePlayer_grid (1/10) noKeys groundedState)) = Vector3 0 0 3 \<and>
   velocity (player (updatePlayer_grid (1/10) holdW groundedState)) = Vector3 0 6 3"
proof -
  note defs = jumpStep_def jumpStep_grid_def horizontalVelocity_def horizontalVelocity_grid_def
      vadd_def multiplyScalar_def Let_def
  from updatePlayer_gravity [OF airborneState_simps(1), of noKeys "1/10"]
  have 1: "velocity (player (updatePlayer (1/10) noKeys airborneState)) = Vector3 0 (-2) 3"
    and 4: "velocity (player (updatePlayer_grid (1/10) noKeys airborneState)) = Vector3 0 (-2) 3"
    by (simp_all add: airborneState_simps(2) noKeys_simps defs)
  from updatePlayer_gravity [OF groundedState_simps(1), of noKeys "1/10"]
  have 2: "velocity (player (updatePlayer (1/10) noKeys groundedState)) = Vector3 0 0 3"
    and 5: "velocity (player (updatePlayer_grid (1/10) noKeys groundedState)) = Vector3 0 0 3"
    by (simp_all add: groundedState_simps(2) noKeys_simps defs)
  from updatePlayer_gravity [OF groundedState_simps(1), of holdSpace "1/10"]
  have 3: "velocity (player (updatePlayer (1/10) holdSpace groundedState)) = Vector3 0 6 3"
    by (simp add: groundedState_simps(2) holdSpace_simps defs)
  from updatePlayer_gravity [OF groundedState_simps(1), of holdW "1/10"]
  have 6: "velocity (player (updatePlayer_grid (1/10) holdW groundedState)) = Vector3 0 6 3"
    by (simp add: groundedState_simps(2) holdW_simps defs)
  from 1 2 3 4 5 6 show ?thesis by simp
qed

subsection \<open>Horizontal velocity and the keys\<close>

lemma vx_horizontalVelocity:
  "vx (velocity (horizontalVelocity inp p)) =
     vx (forward inp) * speed p
     + ((if keys inp ''KeyW'' \<or> keys inp ''ArrowUp'' then 1 else 0)
        - (if keys inp ''KeyS'' \<or> keys inp ''ArrowDown'' then 1 else 0))
       * (vx (forward inp) * speed p * 0.5)
     + ((if keys inp ''KeyD'' \<or> keys inp ''ArrowRight'' then 1 else 0)
        - (if keys inp ''KeyA'' \<or> keys inp ''ArrowLeft'' then 1 else 0))
       * (vx (right inp) * speed p * 0.7)"
  by (simp add: horizontalVelocity_def Let_def FORWARD_SPEED_MODIFIER_def STRAFE_SPEED_MODIFIER_def)

lemma vz_horizontalVelocity:
  "vz (velocity (horizontalVelocity inp p)) =
     vz (forward inp) * speed p
     + ((if keys inp ''KeyW'' \<or> keys inp ''ArrowUp'' then 1 else 0)
        - (if keys inp ''KeyS'' \<or> keys inp ''ArrowDown'' then 1 else 0))
       * (vz (forward inp) * speed p * 0.5)
     + ((if keys inp ''KeyD'' \<or> keys inp ''ArrowRight'' then 1 else 0)
        - (if keys inp ''KeyA'' \<or> keys inp ''ArrowLeft'' then 1 else 0))
       * (vz (right inp) * speed p * 0.7)"
  by (simp add: horizontalVelocity_def Let_def FORWARD_SPEED_MODIFIER_def STRAFE_SPEED_MODIFIER_def)

lemma vx_horizontalVelocity_grid:
  "vx (velocity (horizontalVelocity_grid inp p)) =
     vx (forward inp) * speed p
     + ((if keys inp ''KeyD'' \<or> keys inp ''ArrowRight'' then 1 else 0)
        - (if keys inp ''KeyA'' \<or> keys inp ''ArrowLeft'' then 1 else 0))
       * (vx (right inp) * speed p * 0.7)"
  by (simp add: horizontalVelocity_grid_def Let_def)

lemma vz_horizontalVelocity_grid:
  "vz (velocity (horizontalVelocity_grid inp p)) =
     vz (forward inp) * speed p
     + ((if keys inp ''KeyD'' \<or> keys inp ''ArrowRight'' then 1 else 0)
        - (if keys inp ''KeyA'' \<or> keys inp ''ArrowLeft'' then 1 else 0))
       * (vz (right inp) * speed p * 0.7)"
  by (simp add: horizontalVelocity_grid_def Let_def)

lemma horizontal_gravityStep:
  "vx (velocity (gravityStep dt q)) =
     vx (velocity q) + vx (if currentSurface q = None \<or> isJumping q
                           then multiplyScalar (gravity q) dt else Vector3 0 0 0)"
  "vz (velocity (gravityStep dt q)) =
     vz (velocity q) + vz (if currentSurface q = None \<or> isJumping q
                           then multiplyScalar (gravity q) dt else Vector3 0 0 0)"
  by (simp_all add: velocity_gravityStep)

text \<open>
  C6 (amended). In \<^verbatim>\<open>main.js\<close> the horizontal velocity is assigned \<open>forward * speed\<close>,
  whatever it was before; W or ArrowUp adds \<open>forward * speed * 0.5\<close>, S or ArrowDown
  subtracts it, D or ArrowRight adds \<open>right * speed * 0.7\<close> and A or ArrowLeft subtracts
  it. The grid file assigns \<open>forward * speed\<close> and applies the strafe keys in the same
  way, but has no forward or backward term. In both files the gravity step then adds the
  horizontal part of \<open>gravity * deltaTime\<close> when the player has no surface or is jumping.
\<close>

theorem horizontalVelocity_keys:
  fixes s :: state and dt :: real and inp :: input
  defines "p \<equiv> player s"
  defines "f \<equiv> forward inp" and "r \<equiv> right inp" and "k \<equiv> keys inp"
  defines "fwd \<equiv> (if k ''KeyW'' \<or> k ''ArrowUp'' then 1 else 0)
                 - (if k ''KeyS'' \<or> k ''ArrowDown'' then 1 else (0::real))"
  defines "strafe \<equiv> (if k ''KeyD'' \<or> k ''ArrowRight'' then 1 else 0)
                    - (if k ''KeyA'' \<or> k ''ArrowLeft'' then 1 else (0::real))"
  defines "g \<equiv> (if currentSurface p = None \<or> isJumping (jumpStep inp p)
                then multiplyScalar (gravity p) dt else Vector3 0 0 0)"
  defines "g_grid \<equiv> (if currentSurface p = None \<or> isJumping (jumpStep_grid inp p)
                     then multiplyScalar (gravity p) dt else Vector3 0 0 0)"
  assumes active: "gameActive s"
  shows "vx (velocity (horizontalVelocity inp p)) =
           vx f * speed p + fwd * (vx f * speed p * 0.5) + strafe * (vx r * speed p * 0.7) \<and>
         vz (velocity (horizontalVelocity inp p)) =
           vz f * speed p + fwd * (vz f * speed p * 0.5) + strafe * (vz r * speed p * 0.7) \<and>
         vx (velocity (player (updatePlayer dt inp s))) =
           vx (velocity (horizontalVelocity inp p)) + vx g \<and>
         vz (velocity (player (updatePlayer dt inp s))) =
           vz (velocity (horizontalVelocity inp p)) + vz g \<and>
         vx (velocity (horizontalVelocity_grid inp p)) =
           vx f * speed p + strafe * (vx r * speed p * 0.7) \<and>
         vz (velocity (horizontalVelocity_grid inp p)) =
           vz f * speed p + strafe * (vz r * speed p * 0.7) \<and>
         vx (velocity (player (updatePlayer_grid dt inp s))) =
           vx (velocity (horizontalVelocity_grid inp p)) + vx g_grid \<and>
         vz (velocity (player (updatePlayer_grid dt inp s))) =
           vz (velocity (horizontalVelocity_grid inp p)) + vz g_grid"
proof -
  have j: "isJumping (jumpStep inp (horizontalVelocity inp p)) = isJumping (jumpStep inp p)"
    "isJumping (jumpStep_grid inp (horizontalVelocity_grid inp p)) = isJumping (jumpStep_grid inp p)"
    by (simp_all add: isJumping_jumpStep)
  have 1: "vx (velocity (horizontalVelocity inp p)) =
           vx f * speed p + fwd * (vx f * speed p * 0.5) + strafe * (vx r * speed p * 0.7)"
    unfolding f_def r_def k_def fwd_def strafe_def by (rule vx_horizontalVelocity)
  have 2: "vz (velocity (horizontalVelocity inp p)) =
           vz f * speed p + fwd * (vz f * speed p * 0.5) + strafe * (vz r * speed p * 0.7)"
    unfolding f_def r_def k_def fwd_def strafe_def by (rule vz_horizontalVelocity)
  have 3: "vx (velocity (player (updatePlayer dt inp s))) =
           vx (velocity (horizontalVelocity inp p)) + vx g"
    using active unfolding g_def p_def
    by (simp add: velocity_updatePlayer velocity_locomotion horizontal_gravityStep j[unfolded p_def])
  have 4: "vz (velocity (player (updatePlayer dt inp s))) =
           vz (velocity (horizontalVelocity inp p)) + vz g"
    using active unfolding g_def p_def
    by (simp add: velocity_updatePlayer velocity_locomotion horizontal_gravityStep j[unfolded p_def])
  have 5: "vx (velocity (horizontalVelocity_grid inp p)) =
           vx f * speed p + strafe * (vx r * speed p * 0.7)"
    unfolding f_def r_def k_def strafe_def by (rule vx_horizontalVelocity_grid)
  have 6: "vz (velocity (horizontalVelocity_grid inp p)) =
           vz f * speed p + strafe * (vz r * speed p * 0.7)"
    unfolding f_def r_def k_def strafe_def by (rule vz_horizontalVelocity_grid)
  have 7: "vx (velocity (player (updatePlayer_grid dt inp s))) =
           vx (velocity (horizontalVelocity_grid inp p)) + vx g_grid"
    using active unfolding g_grid_def p_def
    by (simp add: velocity_updatePlayer_grid velocity_locomotion horizontal_gravityStep j[unfolded p_def])
  have 8: "vz (velocity (player (updatePlayer_grid dt inp s))) =
           vz (velocity (horizontalVelocity_grid inp p)) + vz g_grid"
    using active unfolding g_grid_def p_def
    by (simp add: velocity_updatePlayer_grid velocity_locomotion horizontal_gravityStep j[unfolded p_def])
  from 1 2 3 4 5 6 7 8 show ?thesis by blast
qed

theorem horizontalVelocity_keys_witness:
  "vx (velocity (player (updatePlayer (1/10) holdW airborneState))) = 0 \<and>
   vz (velocity (player (updatePlayer (1/10) holdW airborneState))) = 9/2 \<and>
   vx (velocity (player (updatePlayer_grid (1/10) holdW airborneState))) = 0 \<and>
   vz (velocity (player (updatePlayer_grid (1/10) holdW airborneState))) = 3"
  using horizontalVelocity_keys [OF airborneState_simps(1), of holdW "1/10"]
  by (simp add: airborneState_simps(2) holdW_simps)

text \<open>
  The claim as stated fails for the grid file: with W held, the velocity along the
  forward direction is \<open>forward * speed = 3\<close>, where the claim has
  \<open>forward * speed + forward * speed * 0.5 = 4.5\<close>.
\<close>

theorem forward_key_grid_counterexample:
  "keys holdW ''KeyW'' \<and>
   vz (forward holdW) * speed (player airborneState)
     + vz (forward holdW) * speed (player airborneState) * 0.5 = 9/2 \<and>
   vz (velocity (horizontalVelocity_grid holdW (player airborneState))) = 3 \<and>
   vz (velocity (player (updatePlayer_grid (1/10) holdW airborneState))) = 3"
  by (simp add: velocity_updatePlayer_grid velocity_locomotion horizontal_gravityStep
      vz_horizontalVelocity_grid airborneState_simps holdW_simps)

subsection \<open>Void death\<close>

lemma gameActive_findNearestSurface [simp]:
  "gameActive (findNearestSurface s) = gameActive s"
  "gameOver (findNearestSurface s) = gameOver s"
  "exitPortal (findNearestSurface s) = exitPortal s"
  "dataCores (findNearestSurface s) = dataCores s"
  by (simp_all add: findNearestSurface_def)

lemma meshPosition_checkCollisions [simp]:
  "meshPosition (player (checkCollisions s)) = meshPosition (player s)"
proof -
  have "meshPosition (player (fold (checkCore collectCore) is s)) = meshPosition (player s)" for "is"
    by (rule fold_checkCore_keeps[where P="\<lambda>s. meshPosition (player s)"]) (simp add: collectCore_def)
  then show ?thesis
    by (simp add: checkCollisions_def Let_def split: option.splits)
qed

lemma checkCollisions_outcome:
  assumes "gameActive s"
  shows "gameActive (checkCollisions s) \<and> gameOver (checkCollisions s) = gameOver s \<or>
         \<not> gameActive (checkCollisions s) \<and>
         gameOver (checkCollisions s) =
           \<lparr>title = ''YOU ESCAPED!'', message = ''You escaped! The vault collapsed behind you!'',
            win = True, hidden = False\<rparr>"
proof -
  have a: "gameActive (fold (checkCore collectCore) is s) = gameActive s" for "is"
    by (rule fold_checkCore_keeps[where P=gameActive]) (simp add: collectCore_def)
  have b: "gameOver (fold (checkCore collectCore) is s) = gameOver s" for "is"
    by (rule fold_checkCore_keeps[where P=gameOver]) (simp add: collectCore_def)
  from assms show ?thesis
    by (simp add: checkCollisions_def Let_def a b endGame_def split: option.splits)
qed

lemma updatePlayer_inactive: "\<not> gameActive s \<Longrightarrow> updatePlayer dt inp s = s"
  by (simp add: updatePlayer_def)

lemma scanSurfaces_empty:
  "rooms s = [] \<Longrightarrow> corridors s = [] \<Longrightarrow> scanSurfaces s = None"
  by (simp add: scanSurfaces_def scanGroups_def)

lemma fallenState_simps:
  "gameActive fallenState"
  "player fallenState = \<lparr>meshPosition = Vector3 0 (-60) 0, velocity = Vector3 0 0 0, speed = 3,
                 jumpStrength = 8, isJumping = False, coresCollected = 0,
                 currentSurface = None, gravity = Vector3 0 (-20) 0\<rparr>"
  "rooms fallenState = []" "corridors fallenState = []"
  by (simp_all add: fallenState_def airborneState_def)

lemma airborneState_level:
  "rooms airborneState = []" "corridors airborneState = []"
  "gameOver airborneState = \<lparr>title = [], message = [], win = False, hidden = True\<rparr>"
  by (simp_all add: airborneState_def)

lemma meshPosition_no_surfaces:
  assumes "rooms s = []" "corridors s = []"
  shows "meshPosition (player (findNearestSurface (s\<lparr>player := p\<rparr>))) = meshPosition p"
  using assms by (simp add: findNearestSurface_def scanSurfaces_empty snapToSurface_def)

text \<open>
  C8. In a frame with the session active, \<^verbatim>\<open>updatePlayer\<close> tests the height the
  surface-snap resolver leaves. If it is below -50 the session ends as a loss:
  \<open>gameActive\<close> is false and the panel shows GAME OVER (not the win class) with the
  void-death message, even if the portal was reached in the same frame. If it is not
  below -50 the void check ends nothing: the session is still active with the panel
  untouched, or it was ended by the portal as a win.
\<close>

theorem void_death:
  fixes s :: state and dt :: real and inp :: input
  defines "s' \<equiv> updatePlayer dt inp s"
  defines "height \<equiv> vy (meshPosition (player s'))"
  assumes active: "gameActive s"
  shows "meshPosition (player s') =
           meshPosition (player (findNearestSurface (s\<lparr>player := locomotion dt inp (player s)\<rparr>))) \<and>
         (height < -50 \<longrightarrow>
            \<not> gameActive s' \<and>
            gameOver s' = \<lparr>title = ''GAME OVER'', message = ''You fell into the void!'',
                           win = False, hidden = False\<rparr>) \<and>
         (\<not> height < -50 \<longrightarrow>
            gameActive s' \<and> gameOver s' = gameOver s \<or>
            \<not> gameActive s' \<and>
            gameOver s' = \<lparr>title = ''YOU ESCAPED!'',
                           message = ''You escaped! The vault collapsed behind you!'',
                           win = True, hidden = False\<rparr>)"
proof -
  define s3 where "s3 = checkCollisions (findNearestSurface (s\<lparr>player := locomotion dt inp (player s)\<rparr>))"
  have s': "s' = (if vy (meshPosition (player s3)) < -50
                  then endGame False ''You fell into the void!'' s3 else s3)"
    using active by (simp add: s'_def s3_def updatePlayer_def Let_def)
  have pos: "meshPosition (player s') = meshPosition (player s3)"
    by (simp add: s')
  have 1: "meshPosition (player s') =
           meshPosition (player (findNearestSurface (s\<lparr>player := locomotion dt inp (player s)\<rparr>)))"
    by (simp add: pos s3_def)
  have 2: "height < -50 \<longrightarrow>
            \<not> gameActive s' \<and>
            gameOver s' = \<lparr>title = ''GAME OVER'', message = ''You fell into the void!'',
                           win = False, hidden = False\<rparr>"
    unfolding height_def pos by (simp add: s' endGame_def)
  have o: "gameActive s3 \<and> gameOver s3 = gameOver s \<or>
         \<not> gameActive s3 \<and>
         gameOver s3 =
           \<lparr>title = ''YOU ESCAPED!'', message = ''You escaped! The vault collapsed behind you!'',
            win = True, hidden = False\<rparr>"
    using checkCollisions_outcome[of "findNearestSurface (s\<lparr>player := locomotion dt inp (player s)\<rparr>)"] active
    by (simp add: s3_def)
  have 3: "\<not> height < -50 \<longrightarrow>
            gameActive s' \<and> gameOver s' = gameOver s \<or>
            \<not> gameActive s' \<and>
            gameOver s' = \<lparr>title = ''YOU ESCAPED!'',
                           message = ''You escaped! The vault collapsed behind you!'',
                           win = True, hidden = False\<rparr>"
    unfolding height_def pos using o by (simp add: s')
  from 1 2 3 show ?thesis by blast
qed

theorem void_death_witness:
  "vy (meshPosition (player (updatePlayer (1/10) noKeys fallenState))) = - 301 / 5 \<and>
   \<not> gameActive (updatePlayer (1/10) noKeys fallenState) \<and>
   gameOver (updatePlayer (1/10) noKeys fallenState) =
     \<lparr>title = ''GAME OVER'', message = ''You fell into the void!'', win = False, hidden = False\<rparr> \<and>
   vy (meshPosition (player (updatePlayer (1/10) noKeys airborneState))) = 9 / 5 \<and>
   gameActive (updatePlayer (1/10) noKeys airborneState)"
proof -
  have l: "locomotion (1/10) noKeys (player fallenState) =
      \<lparr>meshPosition = Vector3 0 (- 301 / 5) (3/10), velocity = Vector3 0 (-2) 3, speed = 3,
                 jumpStrength = 8, isJumping = False, coresCollected = 0,
                 currentSurface = None, gravity = Vector3 0 (-20) 0\<rparr>"
    by (simp add: fallenState_simps locomotion_def moveStep_def gravityStep_def jumpStep_def
        horizontalVelocity_def noKeys_simps Let_def vadd_def multiplyScalar_def)
  have m: "locomotion (1/10) noKeys (player airborneState) =
      \<lparr>meshPosition = Vector3 0 (9 / 5) (3/10), velocity = Vector3 0 (-2) 3, speed = 3,
                 jumpStrength = 8, isJumping = False, coresCollected = 0,
                 currentSurface = None, gravity = Vector3 0 (-20) 0\<rparr>"
    by (simp add: airborneState_simps locomotion_def moveStep_def gravityStep_def jumpStep_def
        horizontalVelocity_def noKeys_simps Let_def vadd_def multiplyScalar_def)
  from void_death [OF fallenState_simps(1), of "1/10" noKeys]
  have 1: "vy (meshPosition (player (updatePlayer (1/10) noKeys fallenState))) = - 301 / 5 \<and>
   \<not> gameActive (updatePlayer (1/10) noKeys fallenState) \<and>
   gameOver (updatePlayer (1/10) noKeys fallenState) =
     \<lparr>title = ''GAME OVER'', message = ''You fell into the void!'', win = False, hidden = False\<rparr>"
    by (simp add: meshPosition_no_surfaces fallenState_simps(3,4) l)
  have c: "checkCollisions (findNearestSurface (airborneState\<lparr>player := p\<rparr>)) =
           findNearestSurface (airborneState\<lparr>player := p\<rparr>)" for p
    by (simp add: checkCollisions_def airborneState_def)
  have ga: "gameActive (updatePlayer (1/10) noKeys airborneState)"
    by (simp add: updatePlayer_def Let_def c airborneState_simps(1) m
        meshPosition_no_surfaces airborneState_level)
  from void_death [OF airborneState_simps(1), of "1/10" noKeys] ga
  have 2: "vy (meshPosition (player (updatePlayer (1/10) noKeys airborneState))) = 9 / 5 \<and>
   gameActive (updatePlayer (1/10) noKeys airborneState)"
    by (simp add: meshPosition_no_surfaces airborneState_level m)
  from 1 2 show ?thesis by simp
qed

subsection \<open>Selection of the nearest surface\<close>

lemma qualifies_grid_eq:
  assumes "corridorsIntact s"
  shows "qualifies_grid s ref \<longleftrightarrow> qualifies s ref"
proof (cases "fst ref")
  case (RoomRef i)
  then show ?thesis by (simp add: qualifies_grid_def qualifies_def isCorridorRef_def)
next
  case (CorridorRef i)
  have "\<not> ownerCollapsed s ref"
  proof (cases "i < length (corridors s)")
    case True
    then have "corridors s ! i \<in> set (corridors s)" by simp
    with assms have "\<not> isCollapsed (corridors s ! i)" by (simp add: corridorsIntact_def)
    with True CorridorRef show ?thesis by (simp add: ownerCollapsed_def ownerOf_def group.defs)
  next
    case False
    with CorridorRef show ?thesis by (simp add: ownerCollapsed_def ownerOf_def)
  qed
  then show ?thesis by (simp add: qualifies_grid_def qualifies_def)
qed

lemma selects_main:
  "(\<forall>ref. currentSurface (player (findNearestSurface s)) = Some ref \<longrightarrow>
       qualifies s ref \<and> (\<forall>ref'. qualifies s ref' \<longrightarrow> surfaceDistance s ref \<le> surfaceDistance s ref')) \<and>
   (currentSurface (player (findNearestSurface s)) = None \<longleftrightarrow> (\<forall>ref. \<not> qualifies s ref))"
proof (cases "scanSurfaces s")
  case None
  then show ?thesis
    using scanSurfaces_None[of s] by (simp add: currentSurface_findNearestSurface)
next
  case (Some h)
  from scanSurfaces_Some[OF Some] have h: "h = hitOf s (hitRef h)" and q: "qualifies s (hitRef h)"
    and m: "\<forall>ref. qualifies s ref \<longrightarrow> hitDistance h \<le> surfaceDistance s ref"
    by blast+
  from h have d: "hitDistance h = surfaceDistance s (hitRef h)"
    by (metis hitOf_simps(2))
  from q have "\<not> (\<forall>ref. \<not> qualifies s ref)" by blast
  with q m d Some show ?thesis by (simp add: currentSurface_findNearestSurface)
qed

lemma selects_grid:
  "(\<forall>ref. currentSurface (player (findNearestSurface_grid s)) = Some ref \<longrightarrow>
       qualifies_grid s ref \<and>
       (\<forall>ref'. qualifies_grid s ref' \<longrightarrow> surfaceDistance s ref \<le> surfaceDistance s ref')) \<and>
   (currentSurface (player (findNearestSurface_grid s)) = None \<longleftrightarrow> (\<forall>ref. \<not> qualifies_grid s ref))"
proof (cases "scanSurfaces_grid s")
  case None
  then show ?thesis
    using scanSurfaces_grid_None[of s] by (simp add: currentSurface_findNearestSurface)
next
  case (Some h)
  from scanSurfaces_grid_Some[OF Some] have h: "h = hitOf s (hitRef h)" and q: "qualifies_grid s (hitRef h)"
    and m: "\<forall>ref. qualifies_grid s ref \<longrightarrow> hitDistance h \<le> surfaceDistance s ref"
    by blast+
  from h have d: "hitDistance h = surfaceDistance s (hitRef h)"
    by (metis hitOf_simps(2))
  from q have "\<not> (\<forall>ref. \<not> qualifies_grid s ref)" by blast
  with q m d Some show ?thesis by (simp add: currentSurface_findNearestSurface)
qed

lemma scanState_simps:
  "meshPosition (player scanState) = Vector3 0 1 0"
  "corridors scanState = []"
  "rooms scanState = [intactRoom 0 (Vector3 0 0 0), collapsedRoom 1 (Vector3 0 (1/2) 0),
                      intactRoom 2 (Vector3 0 0 20)]"
  by (simp_all add: scanState_def groundedState_def airborneState_def)

lemma freshState_simps:
  "meshPosition (player freshState) = Vector3 0 1 0"
  "corridors freshState = []"
  "rooms freshState = [intactRoom 0 (Vector3 0 0 0), intactRoom 1 (Vector3 0 0 25)]"
  "freshLevel freshState"
  by (simp_all add: freshState_def groundedState_def airborneState_def freshLevel_def intactRoom_def)

lemma scanSurfaces_scanState:
  "scanSurfaces scanState =
     Some \<lparr>hitRef = (RoomRef 0, 0), hitMesh = floorMesh, hitOwnerPosition = Vector3 0 0 0,
           hitDistance = 1\<rparr>"
  by (simp add: scanState_simps scan_eval collapsedRoom_def)

lemma scanSurfaces_grid_freshState:
  "scanSurfaces_grid freshState =
     Some \<lparr>hitRef = (RoomRef 0, 0), hitMesh = floorMesh, hitOwnerPosition = Vector3 0 0 0,
           hitDistance = 1\<rparr>"
  by (simp add: freshState_simps scan_eval)

text \<open>
  C2. The surface that \<^verbatim>\<open>findNearestSurface\<close> stores in \<open>currentSurface\<close> is a traversable
  surface of a room or corridor that is not collapsed, strictly less than 10 units from
  the player, and no qualifying surface is nearer; \<open>currentSurface\<close> becomes null exactly
  when no surface qualifies. So a surface at distance 10 or more, or one owned by a
  collapsed room or corridor, is never selected. The grid file's search does the same
  for rooms and does not test its corridors, which have no collapse state: in every
  state of a grid session no corridor is collapsed and the two notions of qualifying
  agree.
\<close>

theorem findNearestSurface_selects:
  fixes s :: state
  defines "cur \<equiv> currentSurface (player (findNearestSurface s))"
  defines "cur_grid \<equiv> currentSurface (player (findNearestSurface_grid s))"
  shows "(\<forall>ref. cur = Some ref \<longrightarrow>
            isTraversable s ref \<and> \<not> ownerCollapsed s ref \<and> surfaceDistance s ref < 10 \<and>
            (\<forall>ref'. qualifies s ref' \<longrightarrow> surfaceDistance s ref \<le> surfaceDistance s ref')) \<and>
         (cur = None \<longleftrightarrow> (\<forall>ref. \<not> qualifies s ref)) \<and>
         (\<forall>ref. cur_grid = Some ref \<longrightarrow>
            isTraversable s ref \<and> (isCorridorRef ref \<or> \<not> ownerCollapsed s ref) \<and>
            surfaceDistance s ref < 10 \<and>
            (\<forall>ref'. qualifies_grid s ref' \<longrightarrow> surfaceDistance s ref \<le> surfaceDistance s ref')) \<and>
         (cur_grid = None \<longleftrightarrow> (\<forall>ref. \<not> qualifies_grid s ref)) \<and>
         (reachable_grid s \<longrightarrow>
            (\<forall>ref. \<not> (isCorridorRef ref \<and> ownerCollapsed s ref)) \<and>
            (\<forall>ref. qualifies_grid s ref \<longleftrightarrow> qualifies s ref))"
proof -
  have 1: "\<forall>ref. cur = Some ref \<longrightarrow>
            isTraversable s ref \<and> \<not> ownerCollapsed s ref \<and> surfaceDistance s ref < 10 \<and>
            (\<forall>ref'. qualifies s ref' \<longrightarrow> surfaceDistance s ref \<le> surfaceDistance s ref')"
    using selects_main[of s] unfolding cur_def by (simp add: qualifies_def)
  have 2: "cur = None \<longleftrightarrow> (\<forall>ref. \<not> qualifies s ref)"
    using selects_main[of s] unfolding cur_def by blast
  have 3: "\<forall>ref. cur_grid = Some ref \<longrightarrow>
            isTraversable s ref \<and> (isCorridorRef ref \<or> \<not> ownerCollapsed s ref) \<and>
            surfaceDistance s ref < 10 \<and>
            (\<forall>ref'. qualifies_grid s ref' \<longrightarrow> surfaceDistance s ref \<le> surfaceDistance s ref')"
    using selects_grid[of s] unfolding cur_grid_def by (simp add: qualifies_grid_def)
  have 4: "cur_grid = None \<longleftrightarrow> (\<forall>ref. \<not> qualifies_grid s ref)"
    using selects_grid[of s] unfolding cur_grid_def by blast
  have 5: "reachable_grid s \<longrightarrow>
            (\<forall>ref. \<not> (isCorridorRef ref \<and> ownerCollapsed s ref)) \<and>
            (\<forall>ref. qualifies_grid s ref \<longleftrightarrow> qualifies s ref)"
  proof
    assume "reachable_grid s"
    then have ci: "corridorsIntact s" by (simp add: reachable_grid_invariants)
    have "\<not> (isCorridorRef ref \<and> ownerCollapsed s ref)" for ref
    proof
      assume a: "isCorridorRef ref \<and> ownerCollapsed s ref"
      then obtain i where i: "fst ref = CorridorRef i"
        by (cases "fst ref") (simp_all add: isCorridorRef_def)
      with a have "i < length (corridors s)" "isCollapsed (corridors s ! i)"
        by (simp_all add: ownerCollapsed_def ownerOf_def group.defs split: if_splits)
      with ci show False by (auto simp: corridorsIntact_def)
    qed
    with qualifies_grid_eq[OF ci]
    show "(\<forall>ref. \<not> (isCorridorRef ref \<and> ownerCollapsed s ref)) \<and>
            (\<forall>ref. qualifies_grid s ref \<longleftrightarrow> qualifies s ref)"
      by blast
  qed
  from 1 2 3 4 5 show ?thesis by blast
qed

theorem findNearestSurface_selects_witness:
  "currentSurface (player (findNearestSurface scanState)) = Some (RoomRef 0, 0) \<and>
   isTraversable scanState (RoomRef 0, 0) \<and> \<not> ownerCollapsed scanState (RoomRef 0, 0) \<and>
   surfaceDistance scanState (RoomRef 0, 0) = 1 \<and>
   isTraversable scanState (RoomRef 1, 0) \<and> ownerCollapsed scanState (RoomRef 1, 0) \<and>
   surfaceDistance scanState (RoomRef 1, 0) = 1 / 2 \<and>
   isTraversable scanState (RoomRef 2, 0) \<and> \<not> ownerCollapsed scanState (RoomRef 2, 0) \<and>
   \<not> surfaceDistance scanState (RoomRef 2, 0) < 10 \<and>
   reachable_grid freshState \<and>
   currentSurface (player (findNearestSurface_grid freshState)) = Some (RoomRef 0, 0) \<and>
   qualifies freshState (RoomRef 0, 0)"
proof -
  have c: "currentSurface (player (findNearestSurface scanState)) = Some (RoomRef 0, 0)"
    by (simp add: currentSurface_findNearestSurface scanSurfaces_scanState)
  with findNearestSurface_selects [of scanState]
  have 1: "isTraversable scanState (RoomRef 0, 0) \<and> \<not> ownerCollapsed scanState (RoomRef 0, 0)"
    by blast
  have 2: "surfaceDistance scanState (RoomRef 0, 0) = 1"
    "isTraversable scanState (RoomRef 1, 0)" "ownerCollapsed scanState (RoomRef 1, 0)"
    "surfaceDistance scanState (RoomRef 1, 0) = 1 / 2"
    "isTraversable scanState (RoomRef 2, 0)" "\<not> ownerCollapsed scanState (RoomRef 2, 0)"
    "\<not> surfaceDistance scanState (RoomRef 2, 0) < 10"
    by (simp_all add: surfaceDistance_def isTraversable_def ownerCollapsed_def ownerOf_def
        scanState_simps group.defs collapsedRoom_def scan_eval real_sqrt_divide)
  have r: "reachable_grid freshState"
    by (rule generated_grid) (rule freshState_simps(4))
  have g: "currentSurface (player (findNearestSurface_grid freshState)) = Some (RoomRef 0, 0)"
    by (simp add: currentSurface_findNearestSurface scanSurfaces_grid_freshState)
  with findNearestSurface_selects [of freshState] r
  have 3: "qualifies freshState (RoomRef 0, 0)"
    by (simp add: qualifies_def qualifies_grid_def isCorridorRef_def)
  from c 1 2 r g 3 show ?thesis by blast
qed

subsection \<open>The snap\<close>

lemma snap_general:
  assumes some: "\<And>h. nearest = Some h \<Longrightarrow> h = hitOf s (hitRef h) \<and> isTraversable s (hitRef h)"
  defines "p \<equiv> player s"
  defines "p' \<equiv> snapToSurface nearest p"
  shows "(\<forall>ref. currentSurface p' = Some ref \<and> surfaceDistance s ref < 3 \<longrightarrow>
            meshPosition p' = vadd (surfaceWorldPosition s ref) (multiplyScalar (surfaceNormal s ref) 1) \<and>
            gravity p' = multiplyScalar (surfaceNormal s ref) (-20) \<and>
            (isJumping p' \<longleftrightarrow> isJumping p \<and> \<not> vy (velocity p) < 0)) \<and>
         (\<forall>ref. currentSurface p' = Some ref \<and> \<not> surfaceDistance s ref < 3 \<longrightarrow>
            meshPosition p' = meshPosition p \<and> gravity p' = gravity p \<and>
            isJumping p' = isJumping p) \<and>
         (currentSurface p' = None \<longrightarrow>
            meshPosition p' = meshPosition p \<and> gravity p' = gravity p \<and>
            isJumping p' = isJumping p) \<and>
         velocity p' = velocity p"
proof (cases nearest)
  case None
  then show ?thesis by (simp add: p'_def snapToSurface_None)
next
  case (Some h)
  from some[OF Some] have h: "h = hitOf s (hitRef h)" and tr: "isTraversable s (hitRef h)"
    by simp_all
  have d: "hitDistance h = surfaceDistance s (hitRef h)"
    by (metis h hitOf_simps(2))
  have w: "getWorldPosition (hitOwnerPosition h) (hitMesh h) = surfaceWorldPosition s (hitRef h)"
    and n: "normal (hitMesh h) = surfaceNormal s (hitRef h)"
    using hitOf_surface[OF tr] h by simp_all
  show ?thesis
  proof (cases "surfaceDistance s (hitRef h) < 3")
    case True
    then show ?thesis by (simp add: p'_def Some snapToSurface_Some d w n)
  next
    case False
    then show ?thesis by (simp add: p'_def Some snapToSurface_Some d w n)
  qed
qed

lemma landingState_simps:
  "meshPosition (player landingState) = Vector3 0 1 0"
  "corridors landingState = []"
  "rooms landingState = [intactRoom 0 (Vector3 0 0 0)]"
  "isJumping (player landingState)"
  "velocity (player landingState) = Vector3 0 0 0"
  by (simp_all add: landingState_def groundedState_def airborneState_def)

lemma scanSurfaces_landingState:
  "scanSurfaces landingState =
     Some \<lparr>hitRef = (RoomRef 0, 0), hitMesh = floorMesh, hitOwnerPosition = Vector3 0 0 0,
           hitDistance = 1\<rparr>"
  by (simp add: landingState_simps scan_eval)

lemma descendingState_simps:
  "meshPosition (player descendingState) = Vector3 0 (3/2) 0"
  "corridors descendingState = []"
  "rooms descendingState = [intactRoom 0 (Vector3 0 0 0)]"
  "isJumping (player descendingState)"
  "velocity (player descendingState) = Vector3 0 (-2) 3"
  by (simp_all add: descendingState_def groundedState_def airborneState_def)

lemma hoverState_simps:
  "meshPosition (player hoverState) = Vector3 0 5 0"
  "corridors hoverState = []"
  "rooms hoverState = [intactRoom 0 (Vector3 0 0 0)]"
  "gravity (player hoverState) = Vector3 0 (-20) 0"
  by (simp_all add: hoverState_def groundedState_def airborneState_def)

text \<open>
  C3 (amended). When the surface selected by \<^verbatim>\<open>findNearestSurface\<close>, the nearest
  qualifying one, is strictly less than 3 units away, the player's position becomes
  the surface's world position plus its normal times 1, the gravity vector becomes the
  normal times -20, and the jump flag is cleared if the player was jumping with a
  strictly negative vertical velocity (it is left as it was otherwise). When the nearest
  distance is 3 or more, or no surface qualifies, position, gravity and jump flag are
  unchanged. This holds in both files.
\<close>

theorem findNearestSurface_snap:
  fixes s :: state
  defines "p \<equiv> player s"
  defines "p' \<equiv> player (findNearestSurface s)"
  defines "p_grid \<equiv> player (findNearestSurface_grid s)"
  shows "(\<forall>ref. currentSurface p' = Some ref \<and> surfaceDistance s ref < 3 \<longrightarrow>
            meshPosition p' = vadd (surfaceWorldPosition s ref) (multiplyScalar (surfaceNormal s ref) 1) \<and>
            gravity p' = multiplyScalar (surfaceNormal s ref) (-20) \<and>
            (isJumping p' \<longleftrightarrow> isJumping p \<and> \<not> vy (velocity p) < 0)) \<and>
         (\<forall>ref. currentSurface p' = Some ref \<and> \<not> surfaceDistance s ref < 3 \<longrightarrow>
            meshPosition p' = meshPosition p \<and> gravity p' = gravity p \<and>
            isJumping p' = isJumping p) \<and>
         (currentSurface p' = None \<longrightarrow>
            meshPosition p' = meshPosition p \<and> gravity p' = gravity p \<and>
            isJumping p' = isJumping p) \<and>
         (\<forall>ref. currentSurface p_grid = Some ref \<and> surfaceDistance s ref < 3 \<longrightarrow>
            meshPosition p_grid =
              vadd (surfaceWorldPosition s ref) (multiplyScalar (surfaceNormal s ref) 1) \<and>
            gravity p_grid = multiplyScalar (surfaceNormal s ref) (-20) \<and>
            (isJumping p_grid \<longleftrightarrow> isJumping p \<and> \<not> vy (velocity p) < 0)) \<and>
         (\<forall>ref. currentSurface p_grid = Some ref \<and> \<not> surfaceDistance s ref < 3 \<longrightarrow>
            meshPosition p_grid = meshPosition p \<and> gravity p_grid = gravity p \<and>
            isJumping p_grid = isJumping p) \<and>
         (currentSurface p_grid = None \<longrightarrow>
            meshPosition p_grid = meshPosition p \<and> gravity p_grid = gravity p \<and>
            isJumping p_grid = isJumping p)"
proof -
  have a: "h = hitOf s (hitRef h) \<and> isTraversable s (hitRef h)" if "scanSurfaces s = Some h" for h
    using scanSurfaces_Some[OF that] by (simp add: qualifies_def)
  have b: "h = hitOf s (hitRef h) \<and> isTraversable s (hitRef h)" if "scanSurfaces_grid s = Some h" for h
    using scanSurfaces_grid_Some[OF that] by (simp add: qualifies_grid_def)
  have pa: "p' = snapToSurface (scanSurfaces s) (player s)"
    and pb: "p_grid = snapToSurface (scanSurfaces_grid s) (player s)"
    by (simp_all add: p'_def p_grid_def findNearestSurface_def findNearestSurface_grid_def)
  from snap_general[of "scanSurfaces s" s, OF a] snap_general[of "scanSurfaces_grid s" s, OF b]
  show ?thesis
    unfolding pa pb p_def by blast
qed

theorem findNearestSurface_snap_witness:
  "currentSurface (player (findNearestSurface descendingState)) = Some (RoomRef 0, 0) \<and>
   surfaceDistance descendingState (RoomRef 0, 0) = 3 / 2 \<and>
   meshPosition (player (findNearestSurface descendingState)) = Vector3 0 1 0 \<and>
   gravity (player (findNearestSurface descendingState)) = Vector3 0 (-20) 0 \<and>
   \<not> isJumping (player (findNearestSurface descendingState)) \<and>
   currentSurface (player (findNearestSurface hoverState)) = Some (RoomRef 0, 0) \<and>
   surfaceDistance hoverState (RoomRef 0, 0) = 5 \<and>
   meshPosition (player (findNearestSurface hoverState)) = Vector3 0 5 0 \<and>
   gravity (player (findNearestSurface hoverState)) = Vector3 0 (-20) 0"
proof -
  have d: "currentSurface (player (findNearestSurface descendingState)) = Some (RoomRef 0, 0)"
    by (simp add: currentSurface_findNearestSurface descendingState_simps scan_eval
        power2_eq_square)
  have dd: "surfaceDistance descendingState (RoomRef 0, 0) = 3 / 2"
    by (simp add: surfaceDistance_def ownerOf_def group.defs descendingState_simps scan_eval
        power2_eq_square sqrt_25_4)
  have dn: "surfaceWorldPosition descendingState (RoomRef 0, 0) = Vector3 0 0 0"
    "surfaceNormal descendingState (RoomRef 0, 0) = Vector3 0 1 0"
    by (simp_all add: surfaceWorldPosition_def surfaceNormal_def ownerOf_def group.defs
        descendingState_simps scan_eval)
  from findNearestSurface_snap [of descendingState] d dd
  have 1: "meshPosition (player (findNearestSurface descendingState)) = Vector3 0 1 0 \<and>
   gravity (player (findNearestSurface descendingState)) = Vector3 0 (-20) 0 \<and>
   \<not> isJumping (player (findNearestSurface descendingState))"
    by (simp add: dn descendingState_simps vadd_def multiplyScalar_def)
  have h: "currentSurface (player (findNearestSurface hoverState)) = Some (RoomRef 0, 0)"
    by (simp add: currentSurface_findNearestSurface hoverState_simps scan_eval)
  have hd: "surfaceDistance hoverState (RoomRef 0, 0) = 5"
    by (simp add: surfaceDistance_def ownerOf_def group.defs hoverState_simps scan_eval sqrt_25)
  from findNearestSurface_snap [of hoverState] h hd
  have 2: "meshPosition (player (findNearestSurface hoverState)) = Vector3 0 5 0 \<and>
   gravity (player (findNearestSurface hoverState)) = Vector3 0 (-20) 0"
    by (simp add: hoverState_simps)
  from d dd 1 h hd 2 show ?thesis by blast
qed

text \<open>
  The claim as stated lets a jump end at a non-positive vertical velocity. The code
  tests \<^verbatim>\<open>player.velocity.y < 0\<close>: a jumping player with vertical velocity exactly 0,
  one unit from the floor, is snapped and is still jumping.
\<close>

theorem landing_at_zero_velocity_counterexample:
  "isJumping (player landingState) \<and> vy (velocity (player landingState)) \<le> 0 \<and>
   currentSurface (player (findNearestSurface landingState)) = Some (RoomRef 0, 0) \<and>
   surfaceDistance landingState (RoomRef 0, 0) < 3 \<and>
   isJumping (player (findNearestSurface landingState))"
  by (simp add: findNearestSurface_def scanSurfaces_landingState snapToSurface_Some
      landingState_simps surfaceDistance_def ownerOf_def group.defs scan_eval)

section \<open>The map drift oscillator: properties\<close>

lemma offset_updateMapMovement:
  "gameActive s \<Longrightarrow>
     mapDrift (updateMapMovement dt now s) =
       \<lparr>offset = Vector3 (sin ((swayTime (mapDrift s) + dt) * 0.3) * 0.5 * driftIntensity now (gameStartTime s))
                         (sin ((swayTime (mapDrift s) + dt) * 0.2) * 0.3 * driftIntensity now (gameStartTime s))
                         (cos ((swayTime (mapDrift s) + dt) * 0.25) * 0.5 * driftIntensity now (gameStartTime s)),
        swayTime = swayTime (mapDrift s) + dt\<rparr>"
  by (simp add: updateMapMovement_def Let_def)

lemma driftIntensity_clamp:
  "startTime \<le> now \<Longrightarrow>
     driftIntensity now startTime = clamp ((now - startTime) / 1000 / 30) 0 1"
  by (simp add: driftIntensity_def clamp_def Let_def)

lemma driftIntensity_mono:
  "now \<le> now' \<Longrightarrow> driftIntensity now startTime \<le> driftIntensity now' startTime"
  by (simp add: driftIntensity_def Let_def min_def)

lemma driftIntensity_full:
  "startTime + 30000 \<le> now \<Longrightarrow> driftIntensity now startTime = 1"
  by (simp add: driftIntensity_def Let_def min_def)

lemma driftIntensity_zero: "driftIntensity startTime startTime = 0"
  by (simp add: driftIntensity_def Let_def)

text \<open>
  C7. With the session active and the clock not before the session start, the drift
  intensity that \<^verbatim>\<open>updateMapMovement\<close> computes is \<open>clamp(elapsedSessionSeconds / 30, 0, 1)\<close>
  and the offset it stores is the three sinusoids scaled by it. At elapsed time 0 the
  intensity is 0 and the offset is the zero vector; the intensity does not decrease when
  the clock advances; from 30 seconds on it is 1.
\<close>

theorem drift_intensity:
  fixes s :: state and dt now now' :: real
  defines "start \<equiv> gameStartTime s"
  defines "elapsedSessionSeconds \<equiv> (now - start) / 1000"
  defines "t \<equiv> swayTime (mapDrift s) + dt"
  assumes active: "gameActive s" and clock: "start \<le> now"
  shows "driftIntensity now start = clamp (elapsedSessionSeconds / 30) 0 1 \<and>
         offset (mapDrift (updateMapMovement dt now s)) =
           Vector3 (sin (t * 0.3) * 0.5 * clamp (elapsedSessionSeconds / 30) 0 1)
                   (sin (t * 0.2) * 0.3 * clamp (elapsedSessionSeconds / 30) 0 1)
                   (cos (t * 0.25) * 0.5 * clamp (elapsedSessionSeconds / 30) 0 1) \<and>
         (elapsedSessionSeconds = 0 \<longrightarrow>
            driftIntensity now start = 0 \<and>
            offset (mapDrift (updateMapMovement dt now s)) = Vector3 0 0 0) \<and>
         (now \<le> now' \<longrightarrow> driftIntensity now start \<le> driftIntensity now' start) \<and>
         (30 \<le> elapsedSessionSeconds \<longrightarrow> driftIntensity now start = 1)"
proof -
  have 1: "driftIntensity now start = clamp (elapsedSessionSeconds / 30) 0 1"
    unfolding elapsedSessionSeconds_def using clock by (rule driftIntensity_clamp)
  have 2: "offset (mapDrift (updateMapMovement dt now s)) =
           Vector3 (sin (t * 0.3) * 0.5 * clamp (elapsedSessionSeconds / 30) 0 1)
                   (sin (t * 0.2) * 0.3 * clamp (elapsedSessionSeconds / 30) 0 1)
                   (cos (t * 0.25) * 0.5 * clamp (elapsedSessionSeconds / 30) 0 1)"
    using active by (simp add: offset_updateMapMovement 1[unfolded start_def] t_def start_def)
  have 3: "elapsedSessionSeconds = 0 \<longrightarrow>
            driftIntensity now start = 0 \<and>
            offset (mapDrift (updateMapMovement dt now s)) = Vector3 0 0 0"
    unfolding 2 1 by (simp add: clamp_def)
  have 4: "now \<le> now' \<longrightarrow> driftIntensity now start \<le> driftIntensity now' start"
    by (simp add: driftIntensity_mono)
  have 5: "30 \<le> elapsedSessionSeconds \<longrightarrow> driftIntensity now start = 1"
    unfolding elapsedSessionSeconds_def by (simp add: driftIntensity_full)
  from 1 2 3 4 5 show ?thesis by blast
qed

theorem drift_intensity_witness:
  "driftIntensity 0 (gameStartTime airborneState) = 0 \<and>
   offset (mapDrift (updateMapMovement (1/10) 0 airborneState)) = Vector3 0 0 0 \<and>
   driftIntensity 15000 (gameStartTime airborneState) = 1 / 2 \<and>
   offset (mapDrift (updateMapMovement (1/10) 15000 airborneState)) =
     Vector3 (sin (3 / 100) / 4) (sin (1 / 50) * 3 / 20) (cos (1 / 40) / 4) \<and>
   driftIntensity 15000 (gameStartTime airborneState)
     \<le> driftIntensity 20000 (gameStartTime airborneState) \<and>
   driftIntensity 30000 (gameStartTime airborneState) = 1 \<and>
   driftIntensity 45000 (gameStartTime airborneState) = 1"
proof -
  have g: "gameStartTime airborneState = 0" "swayTime (mapDrift airborneState) = 0"
    by (simp_all add: airborneState_def)
  from drift_intensity [where s = airborneState and now = 0 and now' = 0 and dt = "1/10"]
      airborneState_simps(1)
  have 1: "driftIntensity 0 (gameStartTime airborneState) = 0 \<and>
   offset (mapDrift (updateMapMovement (1/10) 0 airborneState)) = Vector3 0 0 0"
    by (simp add: g)
  from drift_intensity [where s = airborneState and now = 15000 and now' = 20000 and dt = "1/10"]
      airborneState_simps(1)
  have 2: "driftIntensity 15000 (gameStartTime airborneState) = 1 / 2 \<and>
   offset (mapDrift (updateMapMovement (1/10) 15000 airborneState)) =
     Vector3 (sin (3 / 100) / 4) (sin (1 / 50) * 3 / 20) (cos (1 / 40) / 4) \<and>
   driftIntensity 15000 (gameStartTime airborneState)
     \<le> driftIntensity 20000 (gameStartTime airborneState)"
    by (simp add: g clamp_def)
  from drift_intensity [where s = airborneState and now = 30000 and now' = 30000 and dt = "1/10"]
      airborneState_simps(1)
  have 3: "driftIntensity 30000 (gameStartTime airborneState) = 1"
    by (simp add: g)
  from drift_intensity [where s = airborneState and now = 45000 and now' = 45000 and dt = "1/10"]
      airborneState_simps(1)
  have 4: "driftIntensity 45000 (gameStartTime airborneState) = 1"
    by (simp add: g)
  from 1 2 3 4 show ?thesis by blast
qed

section \<open>Corridor collapse is derived from room collapse\<close>

text \<open>
  C4. In every state a session of \<^verbatim>\<open>main.js\<close> can reach (after the level is generated,
  after the start click, after every frame), every corridor that is collapsed (its flag is
  set, or its phase is shake or fall) connects two rooms of the level of which at least one
  is collapsed. So no corridor starts to shake while both its rooms are intact, and the
  only code that collapses a corridor is the one a room collapse calls.
\<close>

theorem corridor_collapse_derived:
  assumes "reachable s"
  shows "\<forall>c\<in>set (corridors s).
           isCollapsed c \<or> collapsePhase c = Some Shake \<or> collapsePhase c = Some Fall \<longrightarrow>
             fst (connectedRooms c) < length (rooms s) \<and>
             snd (connectedRooms c) < length (rooms s) \<and>
             (isCollapsed (rooms s ! fst (connectedRooms c)) \<or>
              isCollapsed (rooms s ! snd (connectedRooms c)))"
  using reachable_invariants[OF assms]
  by (auto simp: corridorsDerived_def)

text \<open>
  After the first frame of the three-room run the corridor between rooms 1 and 2 shakes;
  room 1 is collapsed and room 2 is not.
\<close>

theorem corridor_collapse_derived_witness:
  "reachable frame1 \<and>
   isCollapsed (corridors frame1 ! 1) \<and> collapsePhase (corridors frame1 ! 1) = Some Shake \<and>
   connectedRooms (corridors frame1 ! 1) = (1, 2) \<and>
   isCollapsed (rooms frame1 ! 1) \<and> \<not> isCollapsed (rooms frame1 ! 2)"
proof -
  have c: "corridors frame1 ! 1 \<in> set (corridors frame1)"
    by (simp add: frame1_facts(3))
  have e: "isCollapsed (corridors frame1 ! 1)" "collapsePhase (corridors frame1 ! 1) = Some Shake"
    "connectedRooms (corridors frame1 ! 1) = (1, 2)" "\<not> isCollapsed (rooms frame1 ! 2)"
    by (simp_all add: frame1_facts(2,3) shaking_def driftedCorridor_def bareCorridor_def
        driftedRoom_def bareRoom_def)
  from corridor_collapse_derived [OF reachable_frame1] c e
  have "isCollapsed (rooms frame1 ! 1)" by auto
  with reachable_frame1 e show ?thesis by simp
qed

section \<open>The start room never collapses\<close>

text \<open>
  C10. In both files, in every state a session can reach, a room with index 0 is intact:
  its collapsed flag is not set and it has no collapse phase. \<^verbatim>\<open>collapseRoomsBehindPlayer\<close>
  collapses only rooms with \<open>roomIndex > 0\<close> and \<^verbatim>\<open>collapseRandomRoom\<close> filters index 0 out
  of its candidates. The level that \<^verbatim>\<open>init\<close> generates is such a state in either file, and
  its first room has index 0.
\<close>

theorem start_room_intact:
  "(reachable s \<longrightarrow> (\<forall>r\<in>set (rooms s). index r = 0 \<longrightarrow> \<not> isCollapsed r \<and> collapsePhase r = None)) \<and>
   (reachable_grid s \<longrightarrow>
      (\<forall>r\<in>set (rooms s). index r = 0 \<longrightarrow> \<not> isCollapsed r \<and> collapsePhase r = None)) \<and>
   reachable (init panel) \<and> index (rooms (init panel) ! 0) = 0 \<and>
   reachable_grid (init_grid panel) \<and> index (rooms (init_grid panel) ! 0) = 0"
proof -
  have 1: "reachable s \<longrightarrow>
      (\<forall>r\<in>set (rooms s). index r = 0 \<longrightarrow> \<not> isCollapsed r \<and> collapsePhase r = None)"
    using reachable_invariants[of s] by (simp add: startRoomIntact_def)
  have 2: "reachable_grid s \<longrightarrow>
      (\<forall>r\<in>set (rooms s). index r = 0 \<longrightarrow> \<not> isCollapsed r \<and> collapsePhase r = None)"
    using reachable_grid_invariants[of s] by (simp add: startRoomIntact_def)
  have 3: "reachable (init panel)" "reachable_grid (init_grid panel)"
    by (rule generated, rule init_fresh) (rule generated_grid, rule init_fresh)
  have "[0..<numRooms] = 0 # [1..<numRooms]" by (simp add: numRooms_def upt_rec)
  then have 4: "index (rooms (init panel) ! 0) = 0"
    by (simp add: init_def generateLevel_def initialState_def Let_def asRoom_def
        group.defs room.defs)
  have "[0..<12] = 0 # [1..<12]" by (simp add: upt_rec)
  then have 5: "index (rooms (init_grid panel) ! 0) = 0"
    by (simp add: init_grid_def generateLevel_grid_def initialState_def Let_def asRoom_def
        group.defs room.defs)
  from 1 2 3 4 5 show ?thesis by blast
qed

text \<open>
  The first frame of the three-room run collapses room 1 in \<^verbatim>\<open>main.js\<close> and the last room
  in the grid file; the start room stays intact in both.
\<close>

theorem start_room_intact_witness:
  "reachable frame1 \<and> index (rooms frame1 ! 0) = 0 \<and>
   \<not> isCollapsed (rooms frame1 ! 0) \<and> collapsePhase (rooms frame1 ! 0) = None \<and>
   isCollapsed (rooms frame1 ! 1) \<and>
   reachable_grid gridFrame1 \<and> index (rooms gridFrame1 ! 0) = 0 \<and>
   \<not> isCollapsed (rooms gridFrame1 ! 0) \<and> collapsePhase (rooms gridFrame1 ! 0) = None \<and>
   isCollapsed (rooms gridFrame1 ! 2)"
proof -
  have m: "rooms frame1 ! 0 \<in> set (rooms frame1)" "rooms gridFrame1 ! 0 \<in> set (rooms gridFrame1)"
    by (simp_all add: frame1_facts(2) gridFrame1_facts(2))
  have e: "index (rooms frame1 ! 0) = 0" "isCollapsed (rooms frame1 ! 1)"
    "index (rooms gridFrame1 ! 0) = 0" "isCollapsed (rooms gridFrame1 ! 2)"
    by (simp_all add: frame1_facts(2) gridFrame1_facts(2) shaking_def driftedRoom_def bareRoom_def)
  from start_room_intact [of frame1] reachable_frame1 m(1) e(1)
  have 1: "\<not> isCollapsed (rooms frame1 ! 0) \<and> collapsePhase (rooms frame1 ! 0) = None"
    by blast
  from start_room_intact [of gridFrame1] reachable_gridFrame1 m(2) e(3)
  have 2: "\<not> isCollapsed (rooms gridFrame1 ! 0) \<and> collapsePhase (rooms gridFrame1 ! 0) = None"
    by blast
  from 1 2 e reachable_frame1 reachable_gridFrame1 show ?thesis by simp
qed

section \<open>The phases of a collapse\<close>

lemma updateCollapsingRoom_phases:
  fixes r :: room and now :: real
  defines "r' \<equiv> updateCollapsingRoom now r"
  defines "elapsed \<equiv> now - collapseStartTime r"
  shows "collapseStartTime r' = collapseStartTime r"
    and "collapsePhase r = Some Shake \<and> elapsed < 1000 \<longrightarrow>
           collapsePhase r' = Some Shake \<and> vy (position r') = sin (elapsed * 0.05) * 0.3"
    and "collapsePhase r = Some Shake \<and> \<not> elapsed < 1000 \<longrightarrow>
           collapsePhase r' = Some Fall \<and> fallStartY r' = vy (position r) \<and>
           position r' = position r"
    and "collapsePhase r = Some Fall \<longrightarrow>
           collapsePhase r' = Some Fall \<and> fallStartY r' = fallStartY r \<and>
           vy (position r') = fallStartY r - ((elapsed - 1000) / 1000)\<^sup>2 * 10"
  unfolding r'_def elapsed_def
  by (simp_all add: updateCollapsingRoom_def Let_def setY_def power2_eq_square)

lemma updateCollapsingCorridor_phases:
  fixes c :: corridor and now :: real
  defines "c' \<equiv> updateCollapsingCorridor now c"
  defines "elapsed \<equiv> now - collapseStartTime c"
  shows "collapseStartTime c' = collapseStartTime c"
    and "collapsePhase c = Some Shake \<and> elapsed < 500 \<longrightarrow>
           collapsePhase c' = Some Shake \<and> vy (position c') = sin (elapsed * 0.08) * 0.2"
    and "collapsePhase c = Some Shake \<and> \<not> elapsed < 500 \<longrightarrow>
           collapsePhase c' = Some Fall \<and> fallStartY c' = vy (position c) \<and>
           position c' = position c"
    and "collapsePhase c = Some Fall \<longrightarrow>
           collapsePhase c' = Some Fall \<and> fallStartY c' = fallStartY c \<and>
           vy (position c') = fallStartY c - ((elapsed - 500) / 1000)\<^sup>2 * 15"
  unfolding c'_def elapsed_def
  by (simp_all add: updateCollapsingCorridor_def Let_def setY_def power2_eq_square)

text \<open>
  C5. One frame of an active session of \<^verbatim>\<open>main.js\<close>, for a room that is collapsed when the
  frame begins, with \<open>elapsed\<close> the clock minus the room's collapse start time: the room is
  in phase shake or fall and its start time is kept. In phase shake with
  \<open>elapsed < 1000\<close> it stays in shake, at height \<open>sin (elapsed * 0.05) * 0.3\<close>; in phase shake
  with \<open>elapsed \<ge> 1000\<close> it changes to fall, \<open>fallStartY\<close> becomes the height it has at that
  frame and the position is left alone; in phase fall it stays in fall, \<open>fallStartY\<close> is
  kept and the height is \<open>fallStartY - t\<^sup>2 * 10\<close> with \<open>t = (elapsed - 1000) / 1000\<close>, the
  seconds since the end of the shake. The same holds for a corridor with 500 ms,
  \<open>sin (elapsed * 0.08) * 0.2\<close> and the factor 15.
\<close>

theorem collapse_phases:
  fixes s s' :: state and i j :: nat and now deltaTime :: real
  defines "r \<equiv> rooms s ! i" and "r' \<equiv> rooms s' ! i"
  defines "c \<equiv> corridors s ! j" and "c' \<equiv> corridors s' ! j"
  assumes reach: "reachable s" and active: "gameActive s"
    and step: "animate deltaTime now rnd inp s = Inr s'"
  defines "elapsed \<equiv> now - collapseStartTime r"
  defines "elapsedC \<equiv> now - collapseStartTime c"
  shows "(i < length (rooms s) \<and> isCollapsed r \<longrightarrow>
            (collapsePhase r = Some Shake \<or> collapsePhase r = Some Fall) \<and>
            collapseStartTime r' = collapseStartTime r \<and>
            (collapsePhase r = Some Shake \<and> elapsed < 1000 \<longrightarrow>
               collapsePhase r' = Some Shake \<and> vy (position r') = sin (elapsed * 0.05) * 0.3) \<and>
            (collapsePhase r = Some Shake \<and> \<not> elapsed < 1000 \<longrightarrow>
               collapsePhase r' = Some Fall \<and> fallStartY r' = vy (position r) \<and>
               position r' = position r) \<and>
            (collapsePhase r = Some Fall \<longrightarrow>
               collapsePhase r' = Some Fall \<and> fallStartY r' = fallStartY r \<and>
               vy (position r') = fallStartY r - ((elapsed - 1000) / 1000)\<^sup>2 * 10)) \<and>
         (j < length (corridors s) \<and> isCollapsed c \<longrightarrow>
            (collapsePhase c = Some Shake \<or> collapsePhase c = Some Fall) \<and>
            collapseStartTime c' = collapseStartTime c \<and>
            (collapsePhase c = Some Shake \<and> elapsedC < 500 \<longrightarrow>
               collapsePhase c' = Some Shake \<and> vy (position c') = sin (elapsedC * 0.08) * 0.2) \<and>
            (collapsePhase c = Some Shake \<and> \<not> elapsedC < 500 \<longrightarrow>
               collapsePhase c' = Some Fall \<and> fallStartY c' = vy (position c) \<and>
               position c' = position c) \<and>
            (collapsePhase c = Some Fall \<longrightarrow>
               collapsePhase c' = Some Fall \<and> fallStartY c' = fallStartY c \<and>
               vy (position c') = fallStartY c - ((elapsedC - 500) / 1000)\<^sup>2 * 15))"
proof -
  note inv = reachable_lists[OF reach]
  have rooms_part: "i < length (rooms s) \<and> isCollapsed r \<longrightarrow>
            (collapsePhase r = Some Shake \<or> collapsePhase r = Some Fall) \<and>
            collapseStartTime r' = collapseStartTime r \<and>
            (collapsePhase r = Some Shake \<and> elapsed < 1000 \<longrightarrow>
               collapsePhase r' = Some Shake \<and> vy (position r') = sin (elapsed * 0.05) * 0.3) \<and>
            (collapsePhase r = Some Shake \<and> \<not> elapsed < 1000 \<longrightarrow>
               collapsePhase r' = Some Fall \<and> fallStartY r' = vy (position r) \<and>
               position r' = position r) \<and>
            (collapsePhase r = Some Fall \<longrightarrow>
               collapsePhase r' = Some Fall \<and> fallStartY r' = fallStartY r \<and>
               vy (position r') = fallStartY r - ((elapsed - 1000) / 1000)\<^sup>2 * 10)"
  proof
    assume a: "i < length (rooms s) \<and> isCollapsed r"
    then have m: "r \<in> set (rooms s)" by (simp add: r_def)
    from a have u: "r' = updateCollapsingRoom now r"
      unfolding r_def r'_def using frame_collapsed_room[OF inv active step, of i] by simp
    from inv m a have "collapsePhase r \<noteq> None" by (auto simp: phasesOk_def)
    then have 1: "collapsePhase r = Some Shake \<or> collapsePhase r = Some Fall"
      by (cases "collapsePhase r") (auto intro: phase.exhaust)
    have 2: "collapseStartTime r' = collapseStartTime r"
      unfolding u by (rule updateCollapsingRoom_phases(1))
    have 3: "collapsePhase r = Some Shake \<and> elapsed < 1000 \<longrightarrow>
               collapsePhase r' = Some Shake \<and> vy (position r') = sin (elapsed * 0.05) * 0.3"
      unfolding u elapsed_def by (rule updateCollapsingRoom_phases(2))
    have 4: "collapsePhase r = Some Shake \<and> \<not> elapsed < 1000 \<longrightarrow>
               collapsePhase r' = Some Fall \<and> fallStartY r' = vy (position r) \<and>
               position r' = position r"
      unfolding u elapsed_def by (rule updateCollapsingRoom_phases(3))
    have 5: "collapsePhase r = Some Fall \<longrightarrow>
               collapsePhase r' = Some Fall \<and> fallStartY r' = fallStartY r \<and>
               vy (position r') = fallStartY r - ((elapsed - 1000) / 1000)\<^sup>2 * 10"
      unfolding u elapsed_def by (rule updateCollapsingRoom_phases(4))
    from 1 2 3 4 5
    show "(collapsePhase r = Some Shake \<or> collapsePhase r = Some Fall) \<and>
            collapseStartTime r' = collapseStartTime r \<and>
            (collapsePhase r = Some Shake \<and> elapsed < 1000 \<longrightarrow>
               collapsePhase r' = Some Shake \<and> vy (position r') = sin (elapsed * 0.05) * 0.3) \<and>
            (collapsePhase r = Some Shake \<and> \<not> elapsed < 1000 \<longrightarrow>
               collapsePhase r' = Some Fall \<and> fallStartY r' = vy (position r) \<and>
               position r' = position r) \<and>
            (collapsePhase r = Some Fall \<longrightarrow>
               collapsePhase r' = Some Fall \<and> fallStartY r' = fallStartY r \<and>
               vy (position r') = fallStartY r - ((elapsed - 1000) / 1000)\<^sup>2 * 10)"
      by (intro conjI)
  qed
  have corridors_part: "j < length (corridors s) \<and> isCollapsed c \<longrightarrow>
            (collapsePhase c = Some Shake \<or> collapsePhase c = Some Fall) \<and>
            collapseStartTime c' = collapseStartTime c \<and>
            (collapsePhase c = Some Shake \<and> elapsedC < 500 \<longrightarrow>
               collapsePhase c' = Some Shake \<and> vy (position c') = sin (elapsedC * 0.08) * 0.2) \<and>
            (collapsePhase c = Some Shake \<and> \<not> elapsedC < 500 \<longrightarrow>
               collapsePhase c' = Some Fall \<and> fallStartY c' = vy (position c) \<and>
               position c' = position c) \<and>
            (collapsePhase c = Some Fall \<longrightarrow>
               collapsePhase c' = Some Fall \<and> fallStartY c' = fallStartY c \<and>
               vy (position c') = fallStartY c - ((elapsedC - 500) / 1000)\<^sup>2 * 15)"
  proof
    assume a: "j < length (corridors s) \<and> isCollapsed c"
    then have m: "c \<in> set (corridors s)" by (simp add: c_def)
    from a have u: "c' = updateCollapsingCorridor now c"
      unfolding c_def c'_def using frame_collapsed_corridor[OF inv active step, of j] by simp
    from inv m a have "collapsePhase c \<noteq> None" by (auto simp: phasesOk_def)
    then have 1: "collapsePhase c = Some Shake \<or> collapsePhase c = Some Fall"
      by (cases "collapsePhase c") (auto intro: phase.exhaust)
    have 2: "collapseStartTime c' = collapseStartTime c"
      unfolding u by (rule updateCollapsingCorridor_phases(1))
    have 3: "collapsePhase c = Some Shake \<and> elapsedC < 500 \<longrightarrow>
               collapsePhase c' = Some Shake \<and> vy (position c') = sin (elapsedC * 0.08) * 0.2"
      unfolding u elapsedC_def by (rule updateCollapsingCorridor_phases(2))
    have 4: "collapsePhase c = Some Shake \<and> \<not> elapsedC < 500 \<longrightarrow>
               collapsePhase c' = Some Fall \<and> fallStartY c' = vy (position c) \<and>
               position c' = position c"
      unfolding u elapsedC_def by (rule updateCollapsingCorridor_phases(3))
    have 5: "collapsePhase c = Some Fall \<longrightarrow>
               collapsePhase c' = Some Fall \<and> fallStartY c' = fallStartY c \<and>
               vy (position c') = fallStartY c - ((elapsedC - 500) / 1000)\<^sup>2 * 15"
      unfolding u elapsedC_def by (rule updateCollapsingCorridor_phases(4))
    from 1 2 3 4 5
    show "(collapsePhase c = Some Shake \<or> collapsePhase c = Some Fall) \<and>
            collapseStartTime c' = collapseStartTime c \<and>
            (collapsePhase c = Some Shake \<and> elapsedC < 500 \<longrightarrow>
               collapsePhase c' = Some Shake \<and> vy (position c') = sin (elapsedC * 0.08) * 0.2) \<and>
            (collapsePhase c = Some Shake \<and> \<not> elapsedC < 500 \<longrightarrow>
               collapsePhase c' = Some Fall \<and> fallStartY c' = vy (position c) \<and>
               position c' = position c) \<and>
            (collapsePhase c = Some Fall \<longrightarrow>
               collapsePhase c' = Some Fall \<and> fallStartY c' = fallStartY c \<and>
               vy (position c') = fallStartY c - ((elapsedC - 500) / 1000)\<^sup>2 * 15)"
      by (intro conjI)
  qed
  from rooms_part corridors_part show ?thesis by (rule conjI)
qed

text \<open>
  The three-room run: room 1 and corridor 0 collapse at time 0; at 300 ms both shake, at
  1200 ms both change to fall from height 0, and at 2000 ms the room is at
  \<open>- 1\<^sup>2 * 10\<close> and the corridor at \<open>- 1.5\<^sup>2 * 15\<close>.
\<close>

theorem collapse_phases_witness:
  "reachable frame1 \<and> gameActive frame1 \<and>
   collapsePhase (rooms frame1 ! 1) = Some Shake \<and> collapseStartTime (rooms frame1 ! 1) = 0 \<and>
   collapsePhase (rooms frameShake ! 1) = Some Shake \<and>
   vy (position (rooms frameShake ! 1)) = sin 15 * 0.3 \<and>
   collapsePhase (corridors frameShake ! 0) = Some Shake \<and>
   vy (position (corridors frameShake ! 0)) = sin 24 * 0.2 \<and>
   collapsePhase (rooms frame2 ! 1) = Some Fall \<and> fallStartY (rooms frame2 ! 1) = 0 \<and>
   collapsePhase (corridors frame2 ! 0) = Some Fall \<and> fallStartY (corridors frame2 ! 0) = 0 \<and>
   collapsePhase (rooms frame3 ! 1) = Some Fall \<and> vy (position (rooms frame3 ! 1)) = - 10 \<and>
   collapsePhase (corridors frame3 ! 0) = Some Fall \<and>
   vy (position (corridors frame3 ! 0)) = - 135 / 4"
proof -
  from collapse_phases [OF reachable_frame1 frame1_facts(4) frameShake_facts(1), of 1 0]
    frame1_room1
  have a: "collapsePhase (rooms frameShake ! 1) = Some Shake \<and>
   vy (position (rooms frameShake ! 1)) = sin 15 * 0.3 \<and>
   collapsePhase (corridors frameShake ! 0) = Some Shake \<and>
   vy (position (corridors frameShake ! 0)) = sin 24 * 0.2"
    by simp
  from collapse_phases [OF reachable_frame1 frame1_facts(4) frame2_facts(1), of 1 0]
    frame1_room1
  have b: "collapsePhase (rooms frame2 ! 1) = Some Fall \<and> fallStartY (rooms frame2 ! 1) = 0 \<and>
    collapseStartTime (rooms frame2 ! 1) = 0 \<and>
    collapsePhase (corridors frame2 ! 0) = Some Fall \<and> fallStartY (corridors frame2 ! 0) = 0 \<and>
    collapseStartTime (corridors frame2 ! 0) = 0"
    by simp
  have l: "length (rooms frame2) = 3" "length (corridors frame2) = 2"
    using collapseView_eqD(1)[OF frame2_facts(4)] collapseView_eqD2(1)[OF frame2_facts(4)]
      frame1_room1
    by simp_all
  have c2: "isCollapsed (rooms frame2 ! 1)" "isCollapsed (corridors frame2 ! 0)"
    using collapseView_eqD(2)[OF frame2_facts(4), of 1] collapseView_eqD2(2)[OF frame2_facts(4), of 0]
      frame1_room1
    by (simp_all add: roomView_def corridorView_def)
  from collapse_phases [OF reachable_frame2 frame2_facts(2) frame3_facts(1), of 1 0]
    l c2 b
  have c: "collapsePhase (rooms frame3 ! 1) = Some Fall \<and> vy (position (rooms frame3 ! 1)) = - 10 \<and>
   collapsePhase (corridors frame3 ! 0) = Some Fall \<and>
   vy (position (corridors frame3 ! 0)) = - 135 / 4"
    by (simp add: power2_eq_square)
  from a b c reachable_frame1 frame1_facts(4) frame1_room1 show ?thesis by simp
qed

end
